(* ===== verification/Prelude.thy ===== *)
theory Prelude
  imports Complex_Main "HOL-Library.Sublist" "HOL-Library.Multiset" "HOL-Library.Product_Lexorder"
begin

text \<open>
  Shared vocabulary of the development: the names of the model's types, the
  collections of rewrite rules the component theories feed, and the generic facts
  on lists, options and maps that the component proofs use.
\<close>

section \<open>Rule collections\<close>

named_theorems js_simps \<open>evaluation rules of the JavaScript coercions\<close>
named_theorems form_simps \<open>evaluation rules of the form handlers\<close>

section \<open>Model types\<close>

text \<open>A field or group identifier is a JavaScript string.\<close>

type_synonym field_id = string

text \<open>
  A JavaScript object whose properties are all strings, read with a possibly
  missing key (\<open>obj[k]\<close> is \<open>undefined\<close> when \<open>k\<close> is absent).
\<close>

type_synonym str_obj = "string \<Rightarrow> string option"

section \<open>Generic facts on lists\<close>

lemma length_dropWhile_Cons: "dropWhile P xs = y # ys \<Longrightarrow> length ys < length xs"
  by (metis length_Cons length_dropWhile_le less_eq_Suc_le)

text \<open>Looking up an element by a key that is unique in the list finds that element.\<close>

lemma find_key_None: "k \<notin> h ` set xs \<Longrightarrow> find (\<lambda>y. h y = k) xs = None"
  by (induction xs) auto

lemma map_of_rev_distinct: "distinct (map fst xs) \<Longrightarrow> map_of (rev xs) = map_of xs"
proof
  fix k
  assume d: "distinct (map fst xs)"
  then have dr: "distinct (map fst (rev xs))" by (simp add: rev_map [symmetric])
  show "map_of (rev xs) k = map_of xs k"
  proof (cases "map_of xs k")
    case None
    then have "k \<notin> fst ` set xs" by (simp add: map_of_eq_None_iff)
    then have "map_of (rev xs) k = None" by (simp add: map_of_eq_None_iff)
    with None show ?thesis by simp
  next
    case (Some y)
    then have "(k, y) \<in> set (rev xs)" by (simp add: map_of_SomeD)
    with dr have "map_of (rev xs) k = Some y" by (rule map_of_is_SomeI)
    with Some show ?thesis by simp
  qed
qed

lemma find_unique_key:
  "distinct (map h xs) \<Longrightarrow> x \<in> set xs \<Longrightarrow> find (\<lambda>y. h y = h x) xs = Some x"
  by (induction xs) (auto simp: image_iff)


lemma Inr_projr: "(case x of Inl _ \<Rightarrow> False | Inr _ \<Rightarrow> True) \<Longrightarrow> x = Inr (projr x)"
  by (cases x) simp_all

text \<open>Two lists strictly sorted by the same key and holding the same elements are equal.\<close>

lemma sorted_key_unique:
  fixes k :: "'a \<Rightarrow> 'b::linorder"
  assumes "sorted_wrt (<) (map k xs)" "sorted_wrt (<) (map k ys)" "set xs = set ys"
  shows "xs = ys"
proof -
  have dx: "distinct (map k xs)" and dy: "distinct (map k ys)"
    using assms(1,2) by (simp_all add: strict_sorted_iff)
  have "map k xs = map k ys"
    using assms by (intro sorted_distinct_set_unique) (simp_all add: strict_sorted_iff)
  moreover have "inj_on k (set xs \<union> set ys)" using dx assms(3) by (simp add: distinct_map)
  ultimately show ?thesis by (simp add: inj_on_map_eq_map)
qed

end
