(* ===== verification/JS_Values.thy ===== *)
theory JS_Values
  imports Prelude
begin

text \<open>
  The JavaScript values and coercions that \<open>QuoteForm.tsx\<close> applies to form values and to
  the schema's literals: \<open>Number(v)\<close> (ECMAScript ToNumber, including the
  StringNumericLiteral grammar), \<open>String(v)\<close>, strict equality \<open>===\<close>, truthiness
  \<open>!v\<close>, the relational operators on numbers, and \<open>String.prototype.includes\<close>.

  Numbers are modelled as exact rationals extended with NaN and the two infinities:
  the comparisons the code makes (against integer bounds and literals) are exact, and
  the rounding of decimal literals to binary64 is not modelled. Literal values of the
  schema (\<open>dependsOn.value\<close>) range over undefined, null, booleans, strings and
  integers; form values are strings or undefined (every writer of \<open>formData\<close> stores
  the DOM's \<open>value\<close> string). Strings are byte lists: whitespace is the ASCII
  whitespace of the JavaScript WhiteSpace and LineTerminator productions.
\<close>

section \<open>Numbers\<close>

datatype jsnum = NaN | PosInf | NegInf | Num rat

text \<open>Abstract relational comparison \<open>x < y\<close> on numbers: false whenever NaN is involved.\<close>

fun js_less :: "jsnum \<Rightarrow> jsnum \<Rightarrow> bool" where
  "js_less NaN y = False"
| "js_less x NaN = False"
| "js_less (Num a) (Num b) = (a < b)"
| "js_less NegInf y = (y \<noteq> NegInf)"
| "js_less PosInf y = False"
| "js_less x PosInf = True"
| "js_less x NegInf = False"

text \<open>\<open>x > y\<close> evaluates \<open>y < x\<close>.\<close>

definition js_greater :: "jsnum \<Rightarrow> jsnum \<Rightarrow> bool" where
  "js_greater x y = js_less y x"

text \<open>The order the comparison is meant to be: the extended rational line, on which
  NaN has no place.\<close>

definition ext_key :: "jsnum \<Rightarrow> (int \<times> rat) option" where
  "ext_key x = (case x of NaN \<Rightarrow> None | NegInf \<Rightarrow> Some (-1, 0) | Num a \<Rightarrow> Some (0, a) | PosInf \<Rightarrow> Some (1, 0))"

definition ext_less :: "jsnum \<Rightarrow> jsnum \<Rightarrow> bool" where
  "ext_less x y = (case (ext_key x, ext_key y) of (Some a, Some b) \<Rightarrow> a < b | _ \<Rightarrow> False)"

fun js_neg :: "jsnum \<Rightarrow> jsnum" where
  "js_neg NaN = NaN"
| "js_neg PosInf = NegInf"
| "js_neg NegInf = PosInf"
| "js_neg (Num a) = Num (- a)"

section \<open>Characters and digits\<close>

definition js_ws :: "char \<Rightarrow> bool" where
  "js_ws c \<longleftrightarrow> of_char c \<in> {9, 10, 11, 12, 13, 32 :: nat}"

definition js_trim :: "string \<Rightarrow> string" where
  "js_trim s = rev (dropWhile js_ws (rev (dropWhile js_ws s)))"

text \<open>Value of a digit character in radix up to 36 (\<open>0-9\<close>, \<open>a-z\<close>, \<open>A-Z\<close>).\<close>

definition char_digit :: "char \<Rightarrow> nat option" where
  "char_digit c =
     (let n = of_char c :: nat in
      if 48 \<le> n \<and> n \<le> 57 then Some (n - 48)
      else if 97 \<le> n \<and> n \<le> 122 then Some (n - 87)
      else if 65 \<le> n \<and> n \<le> 90 then Some (n - 55)
      else None)"

definition digit_in :: "nat \<Rightarrow> char \<Rightarrow> bool" where
  "digit_in b c = (case char_digit c of Some v \<Rightarrow> v < b | None \<Rightarrow> False)"

abbreviation is_dec :: "char \<Rightarrow> bool" where
  "is_dec \<equiv> digit_in 10"

definition radix_val :: "nat \<Rightarrow> string \<Rightarrow> nat" where
  "radix_val b ds = foldl (\<lambda>acc c. acc * b + (case char_digit c of Some v \<Rightarrow> v | None \<Rightarrow> 0)) 0 ds"

definition digit_string :: "nat \<Rightarrow> string \<Rightarrow> bool" where
  "digit_string b ds \<longleftrightarrow> ds \<noteq> [] \<and> list_all (digit_in b) ds"

section \<open>ToNumber applied to a string\<close>

text \<open>\<open>m * 10 ^ e\<close> for a possibly negative exponent.\<close>

definition scale10 :: "nat \<Rightarrow> int \<Rightarrow> rat" where
  "scale10 m e = (if 0 \<le> e then of_nat m * 10 ^ nat e else of_nat m / 10 ^ nat (- e))"

text \<open>ExponentPart: empty, or \<open>e\<close>/\<open>E\<close>, an optional sign and at least one digit.\<close>

definition parse_exponent :: "string \<Rightarrow> int option" where
  "parse_exponent cs =
     (case cs of
        [] \<Rightarrow> Some 0
      | c # r \<Rightarrow>
          if c \<noteq> CHR ''e'' \<and> c \<noteq> CHR ''E'' then None
          else (case r of
                  s # ds \<Rightarrow>
                    if s = CHR ''+'' then (if digit_string 10 ds then Some (int (radix_val 10 ds)) else None)
                    else if s = CHR ''-'' then (if digit_string 10 ds then Some (- int (radix_val 10 ds)) else None)
                    else if digit_string 10 r then Some (int (radix_val 10 r)) else None
                | [] \<Rightarrow> None))"

text \<open>StrUnsignedDecimalLiteral without \<open>Infinity\<close>: \<open>ddd\<close>, \<open>ddd.\<close>, \<open>ddd.ddd\<close>,
  \<open>.ddd\<close>, each with an optional exponent.\<close>

definition parse_decimal :: "string \<Rightarrow> rat option" where
  "parse_decimal cs =
     (let ip = takeWhile is_dec cs; r1 = dropWhile is_dec cs;
          fp = (if r1 \<noteq> [] \<and> hd r1 = CHR ''.'' then takeWhile is_dec (tl r1) else []);
          r2 = (if r1 \<noteq> [] \<and> hd r1 = CHR ''.'' then dropWhile is_dec (tl r1) else r1)
      in if ip = [] \<and> fp = [] then None
         else (case parse_exponent r2 of
                 None \<Rightarrow> None
               | Some e \<Rightarrow> Some (scale10 (radix_val 10 (ip @ fp)) (e - int (length fp)))))"

definition parse_unsigned :: "string \<Rightarrow> jsnum option" where
  "parse_unsigned cs = (if cs = ''Infinity'' then Some PosInf else map_option Num (parse_decimal cs))"

definition parse_signed :: "string \<Rightarrow> jsnum option" where
  "parse_signed t =
     (case t of
        [] \<Rightarrow> None
      | c # r \<Rightarrow>
          if c = CHR ''+'' then parse_unsigned r
          else if c = CHR ''-'' then map_option js_neg (parse_unsigned r)
          else parse_unsigned t)"

definition parse_radix :: "nat \<Rightarrow> string \<Rightarrow> jsnum option" where
  "parse_radix b ds = (if digit_string b ds then Some (Num (of_nat (radix_val b ds))) else None)"

text \<open>StrNumericLiteral: a NonDecimalIntegerLiteral (\<open>0x\<close>, \<open>0o\<close>, \<open>0b\<close>, no sign)
  or a StrDecimalLiteral.\<close>

definition parse_numeric :: "string \<Rightarrow> jsnum option" where
  "parse_numeric t =
     (case t of
        c0 # c1 # ds \<Rightarrow>
          if c0 = CHR ''0'' \<and> (c1 = CHR ''x'' \<or> c1 = CHR ''X'') then parse_radix 16 ds
          else if c0 = CHR ''0'' \<and> (c1 = CHR ''o'' \<or> c1 = CHR ''O'') then parse_radix 8 ds
          else if c0 = CHR ''0'' \<and> (c1 = CHR ''b'' \<or> c1 = CHR ''B'') then parse_radix 2 ds
          else parse_signed t
      | _ \<Rightarrow> parse_signed t)"

text \<open>StringToNumber: surrounding white space is ignored, the empty string is 0, anything
  that is not a StrNumericLiteral is NaN.\<close>

definition string_to_number :: "string \<Rightarrow> jsnum" where
  "string_to_number s =
     (let t = js_trim s in
      if t = [] then Num 0 else (case parse_numeric t of Some n \<Rightarrow> n | None \<Rightarrow> NaN))"

section \<open>Number to string for integers\<close>

fun nat_to_dec :: "nat \<Rightarrow> string" where
  "nat_to_dec n =
     (if n < 10 then [char_of (48 + n)] else nat_to_dec (n div 10) @ [char_of (48 + n mod 10)])"

definition int_to_dec :: "int \<Rightarrow> string" where
  "int_to_dec i = (if i < 0 then CHR ''-'' # nat_to_dec (nat (- i)) else nat_to_dec (nat i))"

section \<open>Exceptions\<close>

text \<open>The exceptions the modelled code can throw: \<open>TypeError\<close> (a property read on
  undefined or null), \<open>SyntaxError\<close> (a pattern the RegExp constructor rejects), and
  \<open>Unsupported\<close>, which is not a JavaScript exception but marks a RegExp pattern that
  uses a feature outside the model, on which the model makes no claim.\<close>

datatype js_error = TypeError | SyntaxError | Unsupported

section \<open>Values\<close>

datatype jsval = JUndefined | JNull | JBool bool | JStr string | JInt int

text \<open>\<open>obj[k]\<close> on a string-valued object.\<close>

definition jsval_of :: "string option \<Rightarrow> jsval" where
  "jsval_of v = (case v of None \<Rightarrow> JUndefined | Some s \<Rightarrow> JStr s)"

fun to_number :: "jsval \<Rightarrow> jsnum" where
  "to_number JUndefined = NaN"
| "to_number JNull = Num 0"
| "to_number (JBool b) = Num (if b then 1 else 0)"
| "to_number (JStr s) = string_to_number s"
| "to_number (JInt i) = Num (of_int i)"

fun to_str :: "jsval \<Rightarrow> string" where
  "to_str JUndefined = ''undefined''"
| "to_str JNull = ''null''"
| "to_str (JBool b) = (if b then ''true'' else ''false'')"
| "to_str (JStr s) = s"
| "to_str (JInt i) = int_to_dec i"

fun truthy :: "jsval \<Rightarrow> bool" where
  "truthy JUndefined = False"
| "truthy JNull = False"
| "truthy (JBool b) = b"
| "truthy (JStr s) = (s \<noteq> [])"
| "truthy (JInt i) = (i \<noteq> 0)"

text \<open>IsStrictlyEqual on the modelled values: no type coercion.\<close>

fun js_strict_eq :: "jsval \<Rightarrow> jsval \<Rightarrow> bool" where
  "js_strict_eq JUndefined JUndefined = True"
| "js_strict_eq JNull JNull = True"
| "js_strict_eq (JBool a) (JBool b) = (a = b)"
| "js_strict_eq (JStr a) (JStr b) = (a = b)"
| "js_strict_eq (JInt a) (JInt b) = (a = b)"
| "js_strict_eq _ _ = False"

text \<open>\<open>String.prototype.includes\<close>: the needle occurs at some index of the haystack.\<close>

fun str_includes :: "string \<Rightarrow> string \<Rightarrow> bool" where
  "str_includes [] n = (n = [])"
| "str_includes (c # cs) n = (take (length n) (c # cs) = n \<or> str_includes cs n)"


section \<open>Facts about the coercions\<close>

declare nat_to_dec.simps [simp del]

lemma char_digit_dec_char: "(d::nat) < 10 \<Longrightarrow> char_digit (char_of (48 + d)) = Some d"
  by (simp add: char_digit_def of_char_of)

lemma is_dec_digit_char: "(d::nat) < 10 \<Longrightarrow> is_dec (char_of (48 + d))"
  by (simp add: digit_in_def char_digit_dec_char)

lemma is_dec_nat_to_dec: "c \<in> set (nat_to_dec n) \<Longrightarrow> is_dec c"
proof (induction n rule: nat_to_dec.induct)
  case (1 n)
  then show ?case by (cases "n < 10") (auto simp: nat_to_dec.simps [of n] is_dec_digit_char)
qed

lemma nat_to_dec_not_Nil: "nat_to_dec n \<noteq> []"
  by (simp add: nat_to_dec.simps [of n])

lemma radix_val_snoc: "radix_val b (xs @ [c]) = radix_val b xs * b + (case char_digit c of Some v \<Rightarrow> v | None \<Rightarrow> 0)"
  by (simp add: radix_val_def)

lemma radix_val_nat_to_dec: "radix_val 10 (nat_to_dec n) = n"
proof (induction n rule: nat_to_dec.induct)
  case (1 n)
  show ?case
  proof (cases "n < 10")
    case True
    then show ?thesis by (simp add: nat_to_dec.simps [of n] radix_val_def char_digit_dec_char)
  next
    case False
    then have "radix_val 10 (nat_to_dec n) = radix_val 10 (nat_to_dec (n div 10)) * 10 + n mod 10"
      by (simp add: nat_to_dec.simps [of n] radix_val_snoc char_digit_dec_char)
    with "1" False show ?thesis by simp
  qed
qed

lemma dec_not_ws: "is_dec c \<Longrightarrow> \<not> js_ws c"
  by (auto simp: digit_in_def char_digit_def js_ws_def Let_def split: if_splits)

lemma dropWhile_none: "\<forall>c\<in>set xs. \<not> P c \<Longrightarrow> dropWhile P xs = xs"
  by (cases xs) auto

lemma js_trim_id: "\<forall>c\<in>set s. \<not> js_ws c \<Longrightarrow> js_trim s = s"
  by (simp add: js_trim_def dropWhile_none)

lemma parse_unsigned_digits:
  assumes "ds \<noteq> []" "list_all is_dec ds"
  shows "parse_unsigned ds = Some (Num (of_nat (radix_val 10 ds)))"
proof -
  have tw: "takeWhile is_dec ds = ds" and dw: "dropWhile is_dec ds = []"
    using assms by (simp_all add: list_all_iff)
  have "ds \<noteq> ''Infinity''"
    using assms by (auto simp: digit_in_def char_digit_def)
  then show ?thesis using assms(1)
    by (simp add: tw dw parse_unsigned_def parse_decimal_def parse_exponent_def scale10_def Let_def)
qed

lemma parse_numeric_digits:
  assumes "ds \<noteq> []" "list_all is_dec ds"
  shows "parse_numeric ds = Some (Num (of_nat (radix_val 10 ds)))"
proof -
  obtain c r where ds: "ds = c # r" using assms(1) by (cases ds) auto
  have c: "c \<noteq> CHR ''+'' \<and> c \<noteq> CHR ''-''" using assms ds by (auto simp: digit_in_def char_digit_def)
  have ps: "parse_signed ds = Some (Num (of_nat (radix_val 10 ds)))"
    using c ds parse_unsigned_digits [OF assms] by (simp add: parse_signed_def)
  show ?thesis
  proof (cases r)
    case Nil
    with ds ps show ?thesis by (simp add: parse_numeric_def)
  next
    case (Cons c1 r')
    then have "is_dec c1" using assms ds by simp
    then have "c1 \<noteq> CHR ''x'' \<and> c1 \<noteq> CHR ''X'' \<and> c1 \<noteq> CHR ''o'' \<and> c1 \<noteq> CHR ''O'' \<and> c1 \<noteq> CHR ''b'' \<and> c1 \<noteq> CHR ''B''"
      by (auto simp: digit_in_def char_digit_def)
    with ds Cons ps show ?thesis by (simp add: parse_numeric_def)
  qed
qed

lemma nat_to_dec_number: "string_to_number (nat_to_dec n) = Num (of_nat n)"
proof -
  have d: "list_all is_dec (nat_to_dec n)" by (simp add: list_all_iff is_dec_nat_to_dec)
  have "js_trim (nat_to_dec n) = nat_to_dec n"
    by (rule js_trim_id) (auto dest: is_dec_nat_to_dec dec_not_ws)
  with parse_numeric_digits [OF nat_to_dec_not_Nil d] show ?thesis
    by (simp add: string_to_number_def nat_to_dec_not_Nil radix_val_nat_to_dec)
qed

text \<open>\<open>Number(String(i))\<close> is \<open>i\<close> for every integer \<open>i\<close>: the decimal text that
  the validator prints for a bound parses back to the bound.\<close>

theorem int_to_dec_roundtrip: "string_to_number (int_to_dec i) = Num (of_int i)"
proof (cases "i < 0")
  case False
  then show ?thesis by (simp add: int_to_dec_def nat_to_dec_number)
next
  case True
  let ?ds = "nat_to_dec (nat (- i))"
  have d: "list_all is_dec ?ds" by (simp add: list_all_iff is_dec_nat_to_dec)
  have "\<forall>c\<in>set ?ds. \<not> js_ws c" using is_dec_nat_to_dec dec_not_ws by blast
  moreover have "\<not> js_ws CHR ''-''" by (simp add: js_ws_def)
  ultimately have nws: "\<forall>c\<in>set (CHR ''-'' # ?ds). \<not> js_ws c" by simp
  have "parse_numeric (CHR ''-'' # ?ds) = parse_signed (CHR ''-'' # ?ds)"
    by (cases ?ds) (simp_all add: parse_numeric_def)
  also have "\<dots> = Some (Num (- of_nat (nat (- i))))"
    using parse_unsigned_digits [OF nat_to_dec_not_Nil d]
    by (simp add: parse_signed_def radix_val_nat_to_dec)
  finally have pn: "parse_numeric (CHR ''-'' # ?ds) = Some (Num (- of_nat (nat (- i))))" .
  from True show ?thesis
    by (simp add: int_to_dec_def string_to_number_def js_trim_id [OF nws] pn)
qed

lemma take_length_prefix: "take (length n) h = n \<longleftrightarrow> prefix n h"
proof
  assume "take (length n) h = n"
  then show "prefix n h" by (metis append_take_drop_id prefix_def)
next
  assume "prefix n h"
  then obtain zs where "h = n @ zs" by (auto simp: prefix_def)
  then show "take (length n) h = n" by simp
qed

lemma str_includes_sublist: "str_includes h n \<longleftrightarrow> sublist n h"
  by (induction h) (simp_all add: sublist_Cons_right take_length_prefix)


text \<open>Strict equality on the modelled values is structural equality.\<close>

lemma js_strict_eq_iff [js_simps]: "js_strict_eq a b \<longleftrightarrow> a = b"
  by (cases a; cases b) simp_all

lemma truthy_jsval_of [js_simps]: "truthy (jsval_of v) \<longleftrightarrow> v \<noteq> None \<and> v \<noteq> Some []"
  by (cases v) (simp_all add: jsval_of_def)

lemma to_str_jsval_of [js_simps]: "to_str (jsval_of v) = (case v of None \<Rightarrow> ''undefined'' | Some s \<Rightarrow> s)"
  by (cases v) (simp_all add: jsval_of_def)

lemma to_number_jsval_of [js_simps]: "to_number (jsval_of v) = (case v of None \<Rightarrow> NaN | Some s \<Rightarrow> string_to_number s)"
  by (cases v) (simp_all add: jsval_of_def)

text \<open>The relational operators are false as soon as one side is NaN, and they form a
  strict order that is total on the other values.\<close>

text \<open>The relational comparison on numbers is the strict order of the extended
  rational line, and false whenever NaN is involved.\<close>

theorem js_less_ext_order: "js_less x y \<longleftrightarrow> ext_less x y"
  by (cases x; cases y) (simp_all add: ext_less_def ext_key_def)

lemma js_less_NaN_right [simp, js_simps]: "js_less x NaN = False"
  by (cases x) simp_all

lemma js_less_not_NaN: "js_less x y \<Longrightarrow> x \<noteq> NaN \<and> y \<noteq> NaN"
  by (cases x; cases y) simp_all

lemma js_less_irrefl: "\<not> js_less x x"
  by (cases x) simp_all

lemma js_less_trans: "js_less x y \<Longrightarrow> js_less y z \<Longrightarrow> js_less x z"
  by (cases x; cases y; cases z) simp_all

lemma js_less_total: "x \<noteq> NaN \<Longrightarrow> y \<noteq> NaN \<Longrightarrow> js_less x y \<or> x = y \<or> js_less y x"
  by (cases x; cases y) auto

text \<open>\<open>String.prototype.includes\<close> as computed is its ECMAScript definition:
  some index of the haystack starts an occurrence of the needle that fits inside it.\<close>

theorem str_includes_spec:
  "str_includes h n \<longleftrightarrow> (\<exists>i. i + length n \<le> length h \<and> take (length n) (drop i h) = n)"
proof -
  have "sublist n h \<longleftrightarrow> (\<exists>i. i + length n \<le> length h \<and> take (length n) (drop i h) = n)"
  proof
    assume "sublist n h"
    then obtain ps ss where "h = ps @ n @ ss" by (auto simp: sublist_def)
    then show "\<exists>i. i + length n \<le> length h \<and> take (length n) (drop i h) = n"
      by (intro exI [of _ "length ps"]) simp
  next
    assume "\<exists>i. i + length n \<le> length h \<and> take (length n) (drop i h) = n"
    then obtain i where i: "i + length n \<le> length h" "take (length n) (drop i h) = n" by blast
    then have "h = take i h @ n @ drop (i + length n) h"
      by (metis add.commute append_take_drop_id drop_drop)
    then show "sublist n h" by (metis sublist_appendI)
  qed
  then show ?thesis by (simp add: str_includes_sublist)
qed

end
