(* ===== verification/Regex.thy ===== *)
theory Regex
  imports JS_Values
begin

text \<open>
  The part of the JavaScript RegExp engine that \<open>validateField\<close> reaches through
  \<open>new RegExp(field.validation.pattern).test(value)\<close> (\<open>QuoteForm.tsx\<close>, line 32):
  compilation of a pattern string without flags, and \<open>test\<close>, which asks whether the
  pattern matches some substring of the argument.

  \<^item> \<open>rx\<close> is the abstract syntax of a compiled pattern; \<open>rx_match s r i j\<close> is its
    reference semantics: \<open>r\<close> matches the part of \<open>s\<close> between positions \<open>i\<close> and
    \<open>j\<close>, where \<open>^\<close> and \<open>$\<close> test for the ends of the whole input (no \<open>m\<close> flag).
  \<^item> \<open>rx_ends\<close> is an executable matcher computing the end positions reachable from a
    start position; the star closure is computed with fuel that is proved enough.
  \<^item> \<open>lex\<close> and \<open>parse_toks\<close> compile pattern text (the Annex B syntax of patterns
    without the \<open>u\<close> flag) into \<open>rx\<close>, with \<open>SyntaxError\<close> where the constructor
    throws, and \<open>Unsupported\<close> for the features outside the model (back references,
    look-around, word boundaries, \<open>\x\<close>/\<open>\u\<close>/\<open>\c\<close> escapes, named groups).

  Whether a match exists does not depend on the backtracking order of the engine, nor on
  the rule that an unbounded iteration may not match the empty string (an empty
  iteration can always be left out), so a set-of-positions semantics decides \<open>test\<close>.
\<close>

section \<open>Syntax\<close>

text \<open>A class item: a range of characters, or the complement of a list of ranges
  (the escapes \<open>\D\<close>, \<open>\W\<close>, \<open>\S\<close>).\<close>

datatype cls_item = CRange char char | CNotRanges "(char \<times> char) list"

datatype rx =
    REmpty
  | RChar char
  | RSet bool "cls_item list"   \<comment> \<open>negated flag, items\<close>
  | RSeq rx rx
  | RAlt rx rx
  | RStar rx
  | RBol
  | REol

definition in_range :: "char \<Rightarrow> char \<times> char \<Rightarrow> bool" where
  "in_range c lh \<longleftrightarrow> (of_char (fst lh) :: nat) \<le> of_char c \<and> (of_char c :: nat) \<le> of_char (snd lh)"

fun cls_item_has :: "cls_item \<Rightarrow> char \<Rightarrow> bool" where
  "cls_item_has (CRange lo hi) c = in_range c (lo, hi)"
| "cls_item_has (CNotRanges rs) c = (\<not> list_ex (in_range c) rs)"

definition rset_has :: "bool \<Rightarrow> cls_item list \<Rightarrow> char \<Rightarrow> bool" where
  "rset_has neg items c \<longleftrightarrow> (neg \<noteq> list_ex (\<lambda>it. cls_item_has it c) items)"

section \<open>Reference semantics\<close>

inductive rx_match :: "string \<Rightarrow> rx \<Rightarrow> nat \<Rightarrow> nat \<Rightarrow> bool" for s :: string where
  m_empty: "i \<le> length s \<Longrightarrow> rx_match s REmpty i i"
| m_char: "i < length s \<Longrightarrow> s ! i = c \<Longrightarrow> rx_match s (RChar c) i (Suc i)"
| m_set: "i < length s \<Longrightarrow> rset_has neg items (s ! i) \<Longrightarrow> rx_match s (RSet neg items) i (Suc i)"
| m_seq: "rx_match s r1 i k \<Longrightarrow> rx_match s r2 k j \<Longrightarrow> rx_match s (RSeq r1 r2) i j"
| m_alt1: "rx_match s r1 i j \<Longrightarrow> rx_match s (RAlt r1 r2) i j"
| m_alt2: "rx_match s r2 i j \<Longrightarrow> rx_match s (RAlt r1 r2) i j"
| m_star0: "i \<le> length s \<Longrightarrow> rx_match s (RStar r) i i"
| m_star: "rx_match s r i k \<Longrightarrow> rx_match s (RStar r) k j \<Longrightarrow> rx_match s (RStar r) i j"
| m_bol: "rx_match s RBol 0 0"
| m_eol: "rx_match s REol (length s) (length s)"

text \<open>\<open>test\<close> succeeds when the pattern matches between some two positions.\<close>

definition rx_search :: "rx \<Rightarrow> string \<Rightarrow> bool" where
  "rx_search r s \<longleftrightarrow> (\<exists>i j. rx_match s r i j)"

text \<open>The steps of a star that make progress.\<close>

definition rx_step :: "string \<Rightarrow> rx \<Rightarrow> (nat \<times> nat) set" where
  "rx_step s r = {(x, y). rx_match s r x y \<and> x < y}"

section \<open>Executable matcher\<close>

text \<open>Closure of a start position under the non-empty steps of \<open>f\<close>, with fuel.\<close>

fun star_from :: "nat \<Rightarrow> (nat \<Rightarrow> nat list) \<Rightarrow> nat \<Rightarrow> nat list" where
  "star_from 0 f i = [i]"
| "star_from (Suc n) f i = remdups (i # concat (map (star_from n f) (filter (\<lambda>k. i < k) (f i))))"

fun rx_ends :: "string \<Rightarrow> rx \<Rightarrow> nat \<Rightarrow> nat list" where
  "rx_ends s REmpty i = (if i \<le> length s then [i] else [])"
| "rx_ends s (RChar c) i = (if i < length s \<and> s ! i = c then [Suc i] else [])"
| "rx_ends s (RSet neg items) i = (if i < length s \<and> rset_has neg items (s ! i) then [Suc i] else [])"
| "rx_ends s (RSeq r1 r2) i = remdups (concat (map (\<lambda>k. rx_ends s r2 k) (rx_ends s r1 i)))"
| "rx_ends s (RAlt r1 r2) i = remdups (rx_ends s r1 i @ rx_ends s r2 i)"
| "rx_ends s (RStar r) i = (if i \<le> length s then star_from (length s - i) (\<lambda>k. rx_ends s r k) i else [])"
| "rx_ends s RBol i = (if i = 0 then [0] else [])"
| "rx_ends s REol i = (if i = length s then [i] else [])"

text \<open>\<open>RegExp.prototype.test\<close>: try every start position from 0 to the length.\<close>

definition rx_test :: "rx \<Rightarrow> string \<Rightarrow> bool" where
  "rx_test r s \<longleftrightarrow> list_ex (\<lambda>i. rx_ends s r i \<noteq> []) [0..<Suc (length s)]"

section \<open>Pattern compilation\<close>

text \<open>Tokens of a pattern: quantifiable atoms, assertions (\<open>^\<close>, \<open>$\<close>), quantifiers
  with their bounds, alternation and group brackets.\<close>

datatype rtok = TAtom rx | TAssert rx | TQuant nat "nat option" | TBar | TOpen | TClose

text \<open>The backslash, which inner-syntax string literals cannot contain.\<close>

abbreviation backslash :: char where
  "backslash \<equiv> CHR 0x5C"

definition dec_ranges :: "(char \<times> char) list" where
  "dec_ranges = [(CHR ''0'', CHR ''9'')]"

definition word_ranges :: "(char \<times> char) list" where
  "word_ranges = [(CHR ''a'', CHR ''z''), (CHR ''A'', CHR ''Z''), (CHR ''0'', CHR ''9''), (CHR ''_'', CHR ''_'')]"

definition space_ranges :: "(char \<times> char) list" where
  "space_ranges = [(CHR 0x09, CHR 0x0D), (CHR '' '', CHR '' '')]"

definition ranges_items :: "(char \<times> char) list \<Rightarrow> cls_item list" where
  "ranges_items rs = map (\<lambda>(l, h). CRange l h) rs"

text \<open>\<open>.\<close>: any character but the line terminators.\<close>

definition rx_dot :: rx where
  "rx_dot = RSet True [CRange CHR 0x0A CHR 0x0A, CRange CHR 0x0D CHR 0x0D]"

text \<open>CharacterClassEscape: \<open>\d \D \w \W \s \S\<close>.\<close>

definition class_escape :: "char \<Rightarrow> cls_item list option" where
  "class_escape e =
     (if e = CHR ''d'' then Some (ranges_items dec_ranges)
      else if e = CHR ''D'' then Some [CNotRanges dec_ranges]
      else if e = CHR ''w'' then Some (ranges_items word_ranges)
      else if e = CHR ''W'' then Some [CNotRanges word_ranges]
      else if e = CHR ''s'' then Some (ranges_items space_ranges)
      else if e = CHR ''S'' then Some [CNotRanges space_ranges]
      else None)"

text \<open>ControlEscape: \<open>\f \n \r \t \v\<close>.\<close>

definition control_escape :: "char \<Rightarrow> char option" where
  "control_escape e =
     (if e = CHR ''f'' then Some CHR 0x0C
      else if e = CHR ''n'' then Some CHR 0x0A
      else if e = CHR ''r'' then Some CHR 0x0D
      else if e = CHR ''t'' then Some CHR 0x09
      else if e = CHR ''v'' then Some CHR 0x0B
      else None)"

text \<open>Escapes outside the model: back references and legacy octal (\<open>\0\<close>-\<open>\9\<close>),
  word boundaries, \<open>\c\<close>, \<open>\x\<close>, \<open>\u\<close>, \<open>\k\<close>. Any other escaped character
  stands for itself (IdentityEscape of Annex B).\<close>

definition unmodelled_escape :: "char \<Rightarrow> bool" where
  "unmodelled_escape e \<longleftrightarrow> e \<in> set ''bBcxuk0123456789''"

definition atom_escape :: "char \<Rightarrow> js_error + rtok" where
  "atom_escape e =
     (case class_escape e of
        Some its \<Rightarrow> Inr (TAtom (RSet False its))
      | None \<Rightarrow>
          (case control_escape e of
             Some c \<Rightarrow> Inr (TAtom (RChar c))
           | None \<Rightarrow> if unmodelled_escape e then Inl Unsupported else Inr (TAtom (RChar e))))"

text \<open>A ClassAtom: one character, or a class escape.\<close>

datatype catom = CChar char | CSet "cls_item list"

fun catom_items :: "catom \<Rightarrow> cls_item list" where
  "catom_items (CChar c) = [CRange c c]"
| "catom_items (CSet its) = its"

text \<open>ClassEscape: \<open>\b\<close> is the backspace inside a class.\<close>

definition class_atom_escape :: "char \<Rightarrow> js_error + catom" where
  "class_atom_escape e =
     (if e = CHR ''b'' then Inr (CChar CHR 0x08)
      else (case class_escape e of
              Some its \<Rightarrow> Inr (CSet its)
            | None \<Rightarrow>
                (case control_escape e of
                   Some c \<Rightarrow> Inr (CChar c)
                 | None \<Rightarrow> if e \<in> set ''cxuk0123456789'' then Inl Unsupported else Inr (CChar e))))"

fun class_atom :: "string \<Rightarrow> js_error + (catom \<times> string)" where
  "class_atom [] = Inl SyntaxError"
| "class_atom (c # cs) =
     (if c = backslash then
        (case cs of
           [] \<Rightarrow> Inl SyntaxError
         | e # r \<Rightarrow> (case class_atom_escape e of Inl err \<Rightarrow> Inl err | Inr a \<Rightarrow> Inr (a, r)))
      else Inr (CChar c, cs))"

text \<open>A braced quantifier \<open>{m}\<close>, \<open>{m,}\<close> or \<open>{m,n}\<close> after the opening brace.\<close>

definition brace_quant :: "string \<Rightarrow> (nat \<times> nat option \<times> string) option" where
  "brace_quant cs =
     (let ds1 = takeWhile is_dec cs; r1 = dropWhile is_dec cs in
      if ds1 = [] then None
      else (case r1 of
              [] \<Rightarrow> None
            | c # r2 \<Rightarrow>
                if c = CHR ''}'' then Some (radix_val 10 ds1, Some (radix_val 10 ds1), r2)
                else if c = CHR '','' then
                  (let ds2 = takeWhile is_dec r2; r3 = dropWhile is_dec r2 in
                   case r3 of
                     [] \<Rightarrow> None
                   | c' # r4 \<Rightarrow>
                       if c' = CHR ''}''
                       then Some (radix_val 10 ds1, if ds2 = [] then None else Some (radix_val 10 ds2), r4)
                       else None)
                else None))"

text \<open>A \<open>?\<close> after a quantifier makes it lazy, which does not change whether a match
  exists.\<close>

definition skip_lazy :: "string \<Rightarrow> string" where
  "skip_lazy cs = (if cs \<noteq> [] \<and> hd cs = CHR ''?'' then tl cs else cs)"

definition cons_tok :: "rtok \<Rightarrow> js_error + rtok list \<Rightarrow> js_error + rtok list" where
  "cons_tok t res = (case res of Inl e \<Rightarrow> Inl e | Inr ts \<Rightarrow> Inr (t # ts))"

text \<open>The lexer is at the top level of the pattern or inside a class (negated flag and
  items so far).\<close>

datatype lmode = LTop | LClass bool "cls_item list"

definition class_neg :: "string \<Rightarrow> bool" where
  "class_neg cs \<longleftrightarrow> cs \<noteq> [] \<and> hd cs = CHR ''^''"

definition class_body :: "string \<Rightarrow> string" where
  "class_body cs = (if class_neg cs then tl cs else cs)"

function lex :: "lmode \<Rightarrow> string \<Rightarrow> js_error + rtok list" where
  "lex LTop [] = Inr []"
| "lex (LClass neg acc) [] = Inl SyntaxError"
| "lex (LClass neg acc) (c # cs) =
     (if c = CHR '']'' then cons_tok (TAtom (RSet neg acc)) (lex LTop cs)
      else (case class_atom (c # cs) of
              Inl e \<Rightarrow> Inl e
            | Inr (a, r) \<Rightarrow>
                (case r of
                   m # d # r' \<Rightarrow>
                     if m = CHR ''-'' \<and> d \<noteq> CHR '']'' then
                       (case class_atom (d # r') of
                          Inl e \<Rightarrow> Inl e
                        | Inr (b, r'') \<Rightarrow>
                            (case (a, b) of
                               (CChar lo, CChar hi) \<Rightarrow>
                                 if (of_char hi :: nat) < of_char lo then Inl SyntaxError
                                 else lex (LClass neg (acc @ [CRange lo hi])) r''
                             | _ \<Rightarrow> lex (LClass neg (acc @ catom_items a @ [CRange CHR ''-'' CHR ''-''] @ catom_items b)) r''))
                     else lex (LClass neg (acc @ catom_items a)) r
                 | _ \<Rightarrow> lex (LClass neg (acc @ catom_items a)) r)))"
| "lex LTop (c # cs) =
     (if c = backslash then
        (case cs of
           [] \<Rightarrow> Inl SyntaxError
         | e # r \<Rightarrow> (case atom_escape e of Inl err \<Rightarrow> Inl err | Inr t \<Rightarrow> cons_tok t (lex LTop r)))
      else if c = CHR ''['' then lex (LClass (class_neg cs) []) (class_body cs)
      else if c = CHR ''('' then
        (if cs \<noteq> [] \<and> hd cs = CHR ''?'' then
           (if take 2 cs = ''?:'' then cons_tok TOpen (lex LTop (drop 2 cs)) else Inl Unsupported)
         else cons_tok TOpen (lex LTop cs))
      else if c = CHR '')'' then cons_tok TClose (lex LTop cs)
      else if c = CHR ''|'' then cons_tok TBar (lex LTop cs)
      else if c = CHR ''*'' then cons_tok (TQuant 0 None) (lex LTop (skip_lazy cs))
      else if c = CHR ''+'' then cons_tok (TQuant 1 None) (lex LTop (skip_lazy cs))
      else if c = CHR ''?'' then cons_tok (TQuant 0 (Some 1)) (lex LTop (skip_lazy cs))
      else if c = CHR ''{'' then
        (case brace_quant cs of
           Some (m, n, r) \<Rightarrow>
             if (case n of Some k \<Rightarrow> k < m | None \<Rightarrow> False) then Inl SyntaxError
             else cons_tok (TQuant m n) (lex LTop (skip_lazy r))
         | None \<Rightarrow> cons_tok (TAtom (RChar c)) (lex LTop cs))
      else if c = CHR ''^'' then cons_tok (TAssert RBol) (lex LTop cs)
      else if c = CHR ''$'' then cons_tok (TAssert REol) (lex LTop cs)
      else if c = CHR ''.'' then cons_tok (TAtom rx_dot) (lex LTop cs)
      else cons_tok (TAtom (RChar c)) (lex LTop cs))"
  by pat_completeness auto
termination
  by (relation "measure (\<lambda>(m, cs). length cs)")
    (auto simp: class_body_def skip_lazy_def brace_quant_def Let_def less_Suc_eq_le
          split: if_splits list.splits sum.splits option.splits
          dest!: length_dropWhile_Cons)

text \<open>Parsing the token list. The parser keeps a stack of open groups; each frame holds
  the alternatives closed so far and the current sequence, most recent term first. An
  item of a sequence is an atom, which a quantifier may follow, or a fixed term (an
  assertion or an already quantified atom), which it may not.\<close>

datatype sitem = SAtom rx | SFixed rx

fun sitem_rx :: "sitem \<Rightarrow> rx" where
  "sitem_rx (SAtom r) = r"
| "sitem_rx (SFixed r) = r"

definition seq_rx :: "sitem list \<Rightarrow> rx" where
  "seq_rx sq = fold (\<lambda>it acc. RSeq (sitem_rx it) acc) sq REmpty"

fun alt_rx :: "rx list \<Rightarrow> rx" where
  "alt_rx [] = REmpty"
| "alt_rx [r] = r"
| "alt_rx (r # rs) = RAlt r (alt_rx rs)"

definition close_frame :: "rx list \<Rightarrow> sitem list \<Rightarrow> rx" where
  "close_frame alts sq = alt_rx (rev (seq_rx sq # alts))"

fun rx_pow :: "rx \<Rightarrow> nat \<Rightarrow> rx" where
  "rx_pow r 0 = REmpty"
| "rx_pow r (Suc n) = RSeq r (rx_pow r n)"

fun rx_opts :: "rx \<Rightarrow> nat \<Rightarrow> rx" where
  "rx_opts r 0 = REmpty"
| "rx_opts r (Suc n) = RAlt (RSeq r (rx_opts r n)) REmpty"

text \<open>\<open>r{m,}\<close> and \<open>r{m,n}\<close> (the lexer has checked \<open>m \<le> n\<close>).\<close>

definition rx_repeat :: "rx \<Rightarrow> nat \<Rightarrow> nat option \<Rightarrow> rx" where
  "rx_repeat r m n =
     (case n of None \<Rightarrow> RSeq (rx_pow r m) (RStar r) | Some k \<Rightarrow> RSeq (rx_pow r m) (rx_opts r (k - m)))"

type_synonym frame = "rx list \<times> sitem list"

fun parse_toks :: "frame list \<Rightarrow> rtok list \<Rightarrow> js_error + rx" where
  "parse_toks [] ts = Inl SyntaxError"
| "parse_toks ((alts, sq) # fs) [] = (if fs = [] then Inr (close_frame alts sq) else Inl SyntaxError)"
| "parse_toks ((alts, sq) # fs) (t # ts) =
     (case t of
        TAtom a \<Rightarrow> parse_toks ((alts, SAtom a # sq) # fs) ts
      | TAssert a \<Rightarrow> parse_toks ((alts, SFixed a # sq) # fs) ts
      | TQuant m n \<Rightarrow>
          (case sq of
             SAtom a # sq' \<Rightarrow> parse_toks ((alts, SFixed (rx_repeat a m n) # sq') # fs) ts
           | _ \<Rightarrow> Inl SyntaxError)
      | TBar \<Rightarrow> parse_toks ((seq_rx sq # alts, []) # fs) ts
      | TOpen \<Rightarrow> parse_toks (([], []) # (alts, sq) # fs) ts
      | TClose \<Rightarrow>
          (case fs of
             [] \<Rightarrow> Inl SyntaxError
           | (alts', sq') # fs' \<Rightarrow> parse_toks ((alts', SAtom (close_frame alts sq) # sq') # fs') ts))"

text \<open>\<open>new RegExp(pattern)\<close>.\<close>

definition rx_compile :: "string \<Rightarrow> js_error + rx" where
  "rx_compile p = (case lex LTop p of Inl e \<Rightarrow> Inl e | Inr ts \<Rightarrow> parse_toks [([], [])] ts)"

text \<open>\<open>new RegExp(pattern).test(str)\<close> on the string the argument converts to.\<close>

definition regexp_test :: "string \<Rightarrow> string \<Rightarrow> js_error + bool" where
  "regexp_test p str = (case rx_compile p of Inl e \<Rightarrow> Inl e | Inr r \<Rightarrow> Inr (rx_test r str))"

section \<open>The matcher decides the reference semantics\<close>

inductive_cases rx_match_EmptyE [elim!]: "rx_match s REmpty i j"
inductive_cases rx_match_CharE [elim!]: "rx_match s (RChar c) i j"
inductive_cases rx_match_SetE [elim!]: "rx_match s (RSet neg items) i j"
inductive_cases rx_match_SeqE [elim!]: "rx_match s (RSeq r1 r2) i j"
inductive_cases rx_match_AltE [elim!]: "rx_match s (RAlt r1 r2) i j"
inductive_cases rx_match_StarE: "rx_match s (RStar r) i j"
inductive_cases rx_match_BolE [elim!]: "rx_match s RBol i j"
inductive_cases rx_match_EolE [elim!]: "rx_match s REol i j"

lemma rx_match_bounds: "rx_match s r i j \<Longrightarrow> i \<le> j \<and> j \<le> length s"
  by (induction rule: rx_match.induct) auto


lemma rx_match_star_steps:
  assumes "rx_match s r' i j" "r' = RStar r"
  shows "i \<le> length s \<and> (i, j) \<in> (rx_step s r)\<^sup>*"
  using assms
proof (induction rule: rx_match.induct)
  case (m_star r0 i k j)
  then have "(k, j) \<in> (rx_step s r)\<^sup>*" and "i \<le> k" and "k \<le> length s"
    using rx_match_bounds by auto
  moreover from m_star have "i < k \<Longrightarrow> (i, k) \<in> rx_step s r"
    by (simp add: rx_step_def)
  ultimately show ?case
    by (cases "i < k") (auto intro: converse_rtrancl_into_rtrancl)
qed auto

lemma rx_steps_star_match:
  assumes "(i, j) \<in> (rx_step s r)\<^sup>*" "i \<le> length s"
  shows "rx_match s (RStar r) i j"
  using assms
proof (induction rule: converse_rtrancl_induct)
  case base
  then show ?case by (rule m_star0)
next
  case (step x y)
  then have "rx_match s r x y" and "y \<le> length s"
    using rx_match_bounds by (auto simp: rx_step_def)
  with step show ?case by (blast intro: m_star)
qed

lemma rx_match_star_iff: "rx_match s (RStar r) i j \<longleftrightarrow> i \<le> length s \<and> (i, j) \<in> (rx_step s r)\<^sup>*"
  using rx_match_star_steps rx_steps_star_match by blast

text \<open>The fuelled closure is sound, and complete once the fuel covers the distance to
  the bound on the positions that the step function returns.\<close>

lemma set_star_from_Suc:
  "set (star_from (Suc n) f i) = insert i (\<Union>k\<in>{k \<in> set (f i). i < k}. set (star_from n f k))"
  by (auto simp del: remdups.simps)

lemma star_from_sound:
  "y \<in> set (star_from n f i) \<Longrightarrow> (i, y) \<in> {(x, z). z \<in> set (f x) \<and> x < z}\<^sup>*"
proof (induction n arbitrary: i)
  case (Suc n)
  then show ?case
    by (auto simp del: star_from.simps simp: set_star_from_Suc intro: converse_rtrancl_into_rtrancl)
qed simp

lemma star_from_complete:
  assumes "(i, y) \<in> {(x, z). z \<in> set (f x) \<and> x < z}\<^sup>*"
    and "\<And>x z. z \<in> set (f x) \<Longrightarrow> z \<le> L" and "L \<le> i + n"
  shows "y \<in> set (star_from n f i)"
  using assms(1,3)
proof (induction n arbitrary: i)
  case 0
  from "0.prems"(1) show ?case
  proof (cases rule: converse_rtranclE)
    case (step z)
    with assms(2) "0.prems"(2) show ?thesis by fastforce
  qed simp
next
  case (Suc n)
  from Suc.prems(1) show ?case
  proof (cases rule: converse_rtranclE)
    case (step z)
    with assms(2) Suc.prems(2) have "L \<le> z + n" by fastforce
    with step Suc.IH have "y \<in> set (star_from n f z)" by blast
    with step show ?thesis by (auto simp del: star_from.simps simp: set_star_from_Suc)
  qed (simp del: star_from.simps add: set_star_from_Suc)
qed

lemma rx_ends_sem: "k \<in> set (rx_ends s r i) \<longleftrightarrow> rx_match s r i k"
proof (induction r arbitrary: i k)
  case REmpty
  then show ?case by (auto intro: m_empty)
next
  case (RChar c)
  then show ?case by (auto intro: m_char)
next
  case (RSet neg items)
  then show ?case by (auto intro: m_set)
next
  case (RSeq r1 r2)
  then show ?case by (auto intro: m_seq)
next
  case (RAlt r1 r2)
  then show ?case by (auto intro: m_alt1 m_alt2)
next
  case (RStar r)
  have f: "{(x, z). z \<in> set (rx_ends s r x) \<and> x < z} = rx_step s r"
    using RStar.IH by (auto simp: rx_step_def)
  have bound: "\<And>x z. z \<in> set (rx_ends s r x) \<Longrightarrow> z \<le> length s"
    using RStar.IH rx_match_bounds by blast
  show ?case
  proof (cases "i \<le> length s")
    case True
    then have "k \<in> set (star_from (length s - i) (\<lambda>x. rx_ends s r x) i) \<longleftrightarrow> (i, k) \<in> (rx_step s r)\<^sup>*"
      using star_from_sound [of k "length s - i" "\<lambda>x. rx_ends s r x" i]
        star_from_complete [of i k "\<lambda>x. rx_ends s r x" "length s" "length s - i"] bound
      by (auto simp: f)
    with True show ?thesis by (simp add: rx_match_star_iff)
  next
    case False
    then show ?thesis by (simp add: rx_match_star_iff)
  qed
next
  case RBol
  then show ?case by (auto intro: m_bol)
next
  case REol
  then show ?case by (auto intro: m_eol)
qed

text \<open>The executable matcher computes exactly the end positions of the matches
  from a start position that the reference semantics defines.\<close>

theorem rx_ends_correct: "set (rx_ends s r i) = {k. rx_match s r i k}"
  by (auto simp: rx_ends_sem)

lemma rx_ends_nonempty: "rx_ends s r i \<noteq> [] \<longleftrightarrow> (\<exists>k. rx_match s r i k)"
proof -
  have "rx_ends s r i \<noteq> [] \<longleftrightarrow> (\<exists>k. k \<in> set (rx_ends s r i))"
    by (cases "rx_ends s r i") auto
  then show ?thesis by (simp add: rx_ends_sem)
qed

text \<open>\<open>test\<close> as computed succeeds exactly when the pattern matches some part of the
  string in the reference semantics.\<close>

lemma rx_test_search: "rx_test r s \<longleftrightarrow> rx_search r s"
proof -
  have "rx_test r s \<longleftrightarrow> (\<exists>i<Suc (length s). \<exists>k. rx_match s r i k)"
    unfolding rx_test_def list_ex_iff set_upt Bex_def atLeastLessThan_iff rx_ends_nonempty by blast
  also have "\<dots> \<longleftrightarrow> rx_search r s"
    using rx_match_bounds unfolding rx_search_def by (meson le_imp_less_Suc order.trans)
  finally show ?thesis .
qed

text \<open>\<open>new RegExp(p).test(s)\<close>, for a pattern the constructor accepts, returns
  whether the compiled pattern matches some substring of \<open>s\<close> in the reference
  semantics (a search, not a match of the whole string).\<close>

theorem regexp_test_search:
  "rx_compile p = Inr r \<Longrightarrow> regexp_test p s = Inr (rx_search r s)"
  by (simp add: regexp_test_def rx_test_search)

end
