(* ===== verification/Form_Schema.thy ===== *)
theory Form_Schema
  imports JS_Values
begin

text \<open>
  The form schema of \<open>src/src/config/formConfig.ts\<close>: the interfaces \<open>FormField\<close>,
  \<open>FormGroup\<close> and \<open>FormConfig\<close> as records, the closed string unions as datatypes,
  the two lookups the component makes in a schema (the field of an id, and the sorted
  fields of a group), and the well-formedness conditions the spec states for a schema.
  Optional properties are \<open>option\<close>s; numbers of the schema (\<open>min\<close>, \<open>max\<close>,
  \<open>order\<close>) are integers, as in the configuration shipped with the code.
\<close>

section \<open>Data\<close>

datatype field_type =
    FText | FNumber | FSelect | FCheckbox | FRadio | FTextarea | FDate | FEmail | FTel

datatype dep_operator = OpEquals | OpNotEquals | OpContains | OpGreaterThan | OpLessThan

record field_option =
  opt_label :: string
  opt_value :: string

text \<open>\<open>validation.custom\<close> is a function from the value to an error message or null.\<close>

record validation =
  v_min :: "int option"
  v_max :: "int option"
  v_pattern :: "string option"
  v_custom :: "(jsval \<Rightarrow> string option) option"

record dep_rule =
  dep_field :: field_id
  dep_value :: jsval
  dep_op :: "dep_operator option"

record form_field =
  f_id :: field_id
  f_label :: string
  f_type :: field_type
  f_required :: bool
  f_placeholder :: "string option"
  f_helpText :: "string option"
  f_options :: "field_option list option"
  f_validation :: "validation option"
  f_dependsOn :: "dep_rule option"
  f_group :: "string option"
  f_order :: int

record form_group =
  g_id :: string
  g_title :: string
  g_description :: "string option"
  g_fields :: "field_id list"

record form_config =
  c_id :: string
  c_title :: string
  c_description :: "string option"
  c_groups :: "form_group list"
  c_fields :: "form_field list"
  c_submitButtonText :: "string option"
  c_successMessage :: "string option"
  c_errorMessage :: "string option"

section \<open>Lookups\<close>

text \<open>\<open>quoteFormConfig.fields.find(f => f.id === fieldId)\<close>: the first field with the id.\<close>

definition find_field :: "form_config \<Rightarrow> field_id \<Rightarrow> form_field option" where
  "find_field cfg fid = find (\<lambda>f. f_id f = fid) (c_fields cfg)"

text \<open>\<open>fields.filter(field => field.group === g.id).sort((a, b) => a.order - b.order)\<close>:
  \<open>Array.prototype.sort\<close> is stable, as \<open>sort_key\<close> is. A field without a group
  (\<open>undefined === g.id\<close> is false) belongs to no group.\<close>

definition group_fields :: "form_config \<Rightarrow> string \<Rightarrow> form_field list" where
  "group_fields cfg gid = sort_key f_order (filter (\<lambda>f. f_group f = Some gid) (c_fields cfg))"

section \<open>Well-formed schemas\<close>

text \<open>The contract of spec sections 3 and 4.1: identifiers are unique, every field
  belongs to an existing group, each group's list of field ids has no repetition, holds
  exactly the ids of the fields whose \<open>group\<close> names it (the two must agree) and lists
  them by strictly increasing \<open>order\<close> (orders are unique within a group), and a
  visibility rule refers to an existing field that has no rule of its own (one hop).\<close>

definition group_ids :: "form_config \<Rightarrow> string list" where
  "group_ids cfg = map g_id (c_groups cfg)"

definition field_ids :: "form_config \<Rightarrow> field_id list" where
  "field_ids cfg = map f_id (c_fields cfg)"

text \<open>The \<open>order\<close> of the field with a given id (0 for an unknown id).\<close>

definition field_order :: "form_config \<Rightarrow> field_id \<Rightarrow> int" where
  "field_order cfg fid = (case find_field cfg fid of Some f \<Rightarrow> f_order f | None \<Rightarrow> 0)"

definition dep_ok :: "form_config \<Rightarrow> form_field \<Rightarrow> bool" where
  "dep_ok cfg f =
     (case f_dependsOn f of
        None \<Rightarrow> True
      | Some d \<Rightarrow> (case find_field cfg (dep_field d) of
                    None \<Rightarrow> False
                  | Some g \<Rightarrow> f_dependsOn g = None \<and> f_id g \<noteq> f_id f))"

definition wf_config :: "form_config \<Rightarrow> bool" where
  "wf_config cfg \<longleftrightarrow>
     c_groups cfg \<noteq> [] \<and>
     distinct (field_ids cfg) \<and>
     distinct (group_ids cfg) \<and>
     list_all (\<lambda>f. case f_group f of None \<Rightarrow> False | Some g \<Rightarrow> g \<in> set (group_ids cfg)) (c_fields cfg) \<and>
     list_all (\<lambda>g. distinct (g_fields g) \<and>
                    set (g_fields g) = f_id ` set (filter (\<lambda>f. f_group f = Some (g_id g)) (c_fields cfg)) \<and>
                    sorted_wrt (<) (map (field_order cfg) (g_fields g))) (c_groups cfg) \<and>
     list_all (dep_ok cfg) (c_fields cfg)"

section \<open>Facts about the lookups\<close>

lemma find_field_Some: "find_field cfg fid = Some f \<Longrightarrow> f \<in> set (c_fields cfg) \<and> f_id f = fid"
  by (auto simp: find_field_def dest: find_Some_iff [THEN iffD1] simp: in_set_conv_nth)

lemma find_field_None: "find_field cfg fid = None \<longleftrightarrow> fid \<notin> set (field_ids cfg)"
  by (auto simp: find_field_def field_ids_def find_None_iff)

lemma find_field_distinct:
  "distinct (field_ids cfg) \<Longrightarrow> f \<in> set (c_fields cfg) \<Longrightarrow> find_field cfg (f_id f) = Some f"
  unfolding find_field_def field_ids_def by (rule find_unique_key)

lemma group_fields_sorted: "sorted (map f_order (group_fields cfg gid))"
  by (simp add: group_fields_def)

lemma group_fields_members:
  "set (group_fields cfg gid) = {f \<in> set (c_fields cfg). f_group f = Some gid}"
  by (auto simp: group_fields_def)

lemma group_fields_mset:
  "mset (group_fields cfg gid) = mset (filter (\<lambda>f. f_group f = Some gid) (c_fields cfg))"
  by (simp add: group_fields_def)

end
