(* ===== verification/Field_Validator.thy ===== *)
theory Field_Validator
  imports Regex Form_Schema
begin

text \<open>
  \<open>validateField(field, value)\<close> of \<open>QuoteForm.tsx\<close> (lines 16-42). The value is the
  form value of the field, a string or undefined. The result is the error message or
  null (\<open>None\<close>), or the exception the RegExp constructor throws on a pattern it rejects.
  The checks run in the order of the code, and the first that fails decides:
  required, then (for number fields) \<open>min\<close> and \<open>max\<close>, then the pattern, then the
  custom function, whose result is returned as it is.
\<close>

section \<open>The validator\<close>

text \<open>Lines 22-30: \<open>Number(value)\<close> against the bounds, for number fields only.\<close>

definition number_check :: "form_field \<Rightarrow> validation \<Rightarrow> jsval \<Rightarrow> string option" where
  "number_check field vr v =
     (if f_type field \<noteq> FNumber then None
      else (let numValue = to_number v in
            case v_min vr of
              Some m \<Rightarrow>
                if js_less numValue (Num (of_int m))
                then Some (f_label field @ '' must be at least '' @ int_to_dec m)
                else (case v_max vr of
                        Some M \<Rightarrow> if js_greater numValue (Num (of_int M))
                                 then Some (f_label field @ '' must be at most '' @ int_to_dec M) else None
                      | None \<Rightarrow> None)
            | None \<Rightarrow>
                (case v_max vr of
                   Some M \<Rightarrow> if js_greater numValue (Num (of_int M))
                            then Some (f_label field @ '' must be at most '' @ int_to_dec M) else None
                 | None \<Rightarrow> None)))"

text \<open>Lines 36-38: the custom function decides when present.\<close>

definition custom_check :: "validation \<Rightarrow> jsval \<Rightarrow> string option" where
  "custom_check vr v = (case v_custom vr of Some c \<Rightarrow> c v | None \<Rightarrow> None)"

text \<open>Line 32: a non-empty pattern is compiled and tested against \<open>String(value)\<close>.\<close>

definition pattern_check :: "form_field \<Rightarrow> validation \<Rightarrow> jsval \<Rightarrow> js_error + string option" where
  "pattern_check field vr v =
     (case v_pattern vr of
        Some p \<Rightarrow>
          if p \<noteq> [] then
            (case regexp_test p (to_str v) of
               Inl e \<Rightarrow> Inl e
             | Inr ok \<Rightarrow> if \<not> ok then Inr (Some (f_label field @ '' is invalid'')) else Inr (custom_check vr v))
          else Inr (custom_check vr v)
      | None \<Rightarrow> Inr (custom_check vr v))"

definition validateField :: "form_field \<Rightarrow> string option \<Rightarrow> js_error + string option" where
  "validateField field value =
     (let v = jsval_of value in
      if f_required field \<and> \<not> truthy v then Inr (Some (f_label field @ '' is required''))
      else (case f_validation field of
              None \<Rightarrow> Inr None
            | Some vr \<Rightarrow>
                (case number_check field vr v of
                   Some msg \<Rightarrow> Inr (Some msg)
                 | None \<Rightarrow> pattern_check field vr v)))"

text \<open>The callers treat a message as an error when it is truthy (\<open>if (error)\<close>,
  \<open>error || ''\<close>): a custom function that returns the empty string reports no error.\<close>

definition has_error :: "string option \<Rightarrow> bool" where
  "has_error e \<longleftrightarrow> (case e of Some m \<Rightarrow> m \<noteq> [] | None \<Rightarrow> False)"

text \<open>The value the error slot receives: \<open>error || ''\<close>.\<close>

definition error_slot :: "string option \<Rightarrow> string" where
  "error_slot e = (case e of Some m \<Rightarrow> m | None \<Rightarrow> [])"

text \<open>A field whose pattern compiles within the model: validation never throws.\<close>

definition pattern_compiles :: "form_field \<Rightarrow> bool" where
  "pattern_compiles field \<longleftrightarrow>
     (case f_validation field of
        None \<Rightarrow> True
      | Some vr \<Rightarrow> (case v_pattern vr of
                     None \<Rightarrow> True
                   | Some p \<Rightarrow> p = [] \<or> (case rx_compile p of Inr _ \<Rightarrow> True | Inl _ \<Rightarrow> False)))"

section \<open>Behaviour on each branch\<close>

text \<open>C3: a required field whose value is falsy (undefined or the empty string) gets
  the error \<open>"<label> is required"\<close>, whatever else its rules say.\<close>

theorem validate_required:
  "f_required field \<Longrightarrow> value = None \<or> value = Some [] \<Longrightarrow>
   validateField field value = Inr (Some (f_label field @ '' is required''))"
  by (auto simp: validateField_def js_simps Let_def)

lemma validate_not_required_branch:
  "\<not> (f_required field \<and> (value = None \<or> value = Some [])) \<Longrightarrow>
   validateField field value =
     (case f_validation field of
        None \<Rightarrow> Inr None
      | Some vr \<Rightarrow> (case number_check field vr (jsval_of value) of
                     Some msg \<Rightarrow> Inr (Some msg)
                   | None \<Rightarrow> pattern_check field vr (jsval_of value)))"
  by (auto simp: validateField_def js_simps Let_def)

lemma validate_no_throw: "pattern_compiles field \<Longrightarrow> \<exists>e. validateField field value = Inr e"
  by (auto simp: pattern_compiles_def validateField_def pattern_check_def regexp_test_def Let_def
           split: option.splits sum.splits)

text \<open>C4: for a number field with both bounds whose value converts to a number \<open>q\<close>
  (and is not a missing required value), the result is the "at least" message below
  \<open>min\<close>, the "at most" message above \<open>max\<close>, and otherwise, bounds included, the
  outcome of the pattern and custom checks.\<close>

theorem validate_number_bounds:
  assumes "f_type field = FNumber" "f_validation field = Some vr"
    and "v_min vr = Some m" "v_max vr = Some M"
    and "\<not> (f_required field \<and> (value = None \<or> value = Some []))"
    and "to_number (jsval_of value) = Num q"
  shows "validateField field value =
     (if q < of_int m then Inr (Some (f_label field @ '' must be at least '' @ int_to_dec m))
      else if of_int M < q then Inr (Some (f_label field @ '' must be at most '' @ int_to_dec M))
      else pattern_check field vr (jsval_of value))"
  using assms by (auto simp: validateField_def number_check_def js_greater_def js_simps Let_def)

text \<open>C5: once the required and number checks pass, a field with a non-empty pattern
  that compiles gets \<open>"<label> is invalid"\<close> when the value's text does not match, and
  the custom function's verdict when it does.\<close>

theorem validate_pattern:
  assumes "\<not> (f_required field \<and> (value = None \<or> value = Some []))" "f_validation field = Some vr"
    and "number_check field vr (jsval_of value) = None"
    and "v_pattern vr = Some p" "p \<noteq> []" "rx_compile p = Inr r"
  shows "validateField field value =
     (if rx_test r (to_str (jsval_of value)) then Inr (custom_check vr (jsval_of value))
      else Inr (Some (f_label field @ '' is invalid'')))"
  using assms by (auto simp: validateField_def pattern_check_def regexp_test_def js_simps Let_def)

text \<open>C22: an optional number field with a positive \<open>min\<close> passes the bound checks while
  untouched (undefined converts to NaN), but once cleared to the empty string it reports
  \<open>"must be at least min"\<close>, since \<open>Number('')\<close> is 0.\<close>

theorem optional_number_blank:
  assumes "f_type field = FNumber" "\<not> f_required field" "f_validation field = Some vr"
    and "v_min vr = Some m" "0 < m"
  shows "validateField field (Some []) = Inr (Some (f_label field @ '' must be at least '' @ int_to_dec m))
       \<and> number_check field vr (jsval_of None) = None"
  using assms
  by (auto simp: validateField_def number_check_def js_greater_def js_simps Let_def
                 string_to_number_def js_trim_def split: option.splits)

text \<open>C23: a value that does not convert to a number (NaN) passes both bound checks of a
  number field.\<close>

theorem nan_passes_bounds:
  "to_number (jsval_of value) = NaN \<Longrightarrow> number_check field vr (jsval_of value) = None"
  by (auto simp: number_check_def js_greater_def Let_def split: option.splits)

end
