(* ===== verification/Visibility.thy ===== *)
theory Visibility
  imports Form_Schema
begin

text \<open>
  \<open>isFieldVisible(field)\<close> of \<open>QuoteForm.tsx\<close> (lines 44-62). It reads the current
  form values (the \<open>formData\<close> signal), so the model takes them as an argument. A field
  without \<open>dependsOn\<close> is visible; otherwise the value of the field it depends on is
  compared with the rule's value by the rule's operator, and a missing operator is
  \<open>equals\<close>. Every branch is total: the coercions never throw.
\<close>

section \<open>The resolver\<close>

definition isFieldVisible :: "form_field \<Rightarrow> str_obj \<Rightarrow> bool" where
  "isFieldVisible field formData =
     (case f_dependsOn field of
        None \<Rightarrow> True
      | Some dep \<Rightarrow>
          (let dependentValue = jsval_of (formData (dep_field dep)) in
           case dep_op dep of
             Some OpEquals \<Rightarrow> js_strict_eq dependentValue (dep_value dep)
           | Some OpNotEquals \<Rightarrow> \<not> js_strict_eq dependentValue (dep_value dep)
           | Some OpContains \<Rightarrow> str_includes (to_str dependentValue) (to_str (dep_value dep))
           | Some OpGreaterThan \<Rightarrow> js_greater (to_number dependentValue) (to_number (dep_value dep))
           | Some OpLessThan \<Rightarrow> js_less (to_number dependentValue) (to_number (dep_value dep))
           | None \<Rightarrow> js_strict_eq dependentValue (dep_value dep)))"

text \<open>The abstract rule of spec 4.2: the truth table of the operators on the dependent
  value, with structural equality, substring test on the text forms, and numeric
  comparison that is false on NaN.\<close>

definition dep_holds :: "dep_operator \<Rightarrow> jsval \<Rightarrow> jsval \<Rightarrow> bool" where
  "dep_holds op dv target =
     (case op of
        OpEquals \<Rightarrow> dv = target
      | OpNotEquals \<Rightarrow> dv \<noteq> target
      | OpContains \<Rightarrow> sublist (to_str target) (to_str dv)
      | OpGreaterThan \<Rightarrow> ext_less (to_number target) (to_number dv)
      | OpLessThan \<Rightarrow> ext_less (to_number dv) (to_number target))"

section \<open>Facts\<close>

text \<open>Visibility depends only on the value of the field named by the rule.\<close>

lemma visible_depends_only_on_dep_field:
  "f_dependsOn field = Some dep \<Longrightarrow> d (dep_field dep) = d' (dep_field dep) \<Longrightarrow>
   isFieldVisible field d = isFieldVisible field d'"
  by (simp add: isFieldVisible_def)

lemma visible_no_rule: "f_dependsOn field = None \<Longrightarrow> isFieldVisible field d"
  by (simp add: isFieldVisible_def)

text \<open>C6: the resolver implements the rule of the spec: a field without a rule is
  visible, and otherwise the operator (\<open>equals\<close> when absent) holds between the
  dependent field's current value and the rule's value.\<close>

theorem visibility_refines_rule:
  "isFieldVisible field d =
     (case f_dependsOn field of
        None \<Rightarrow> True
      | Some dep \<Rightarrow> dep_holds (case dep_op dep of None \<Rightarrow> OpEquals | Some op \<Rightarrow> op)
                      (jsval_of (d (dep_field dep))) (dep_value dep))"
proof (cases "f_dependsOn field")
  case None
  then show ?thesis by (simp add: isFieldVisible_def)
next
  case (Some dep)
  have lt: "js_less x y \<longleftrightarrow> ext_less x y" for x y
    by (cases x; cases y) (simp_all add: ext_less_def ext_key_def)
  show ?thesis
    using Some
    by (cases "dep_op dep")
       (auto simp: isFieldVisible_def dep_holds_def js_greater_def lt str_includes_sublist js_simps
             split: dep_operator.splits)
qed

text \<open>C7: the numeric operators never make a field visible when either side converts
  to NaN (a non-numeric text, or an absent value).\<close>

theorem visibility_numeric_nan:
  assumes "f_dependsOn field = Some dep" "dep_op dep = Some OpGreaterThan \<or> dep_op dep = Some OpLessThan"
    and "to_number (jsval_of (d (dep_field dep))) = NaN \<or> to_number (dep_value dep) = NaN"
  shows "\<not> isFieldVisible field d"
  using assms by (auto simp: isFieldVisible_def js_greater_def)

end
