(* ===== verification/Quote_Form.thy ===== *)
theory Quote_Form
  imports Field_Validator Visibility
begin

text \<open>
  The \<open>QuoteForm\<close> component of \<open>src/src/components/QuoteForm.tsx\<close>, for a schema
  \<open>cfg\<close> (the code reads the module constant \<open>quoteFormConfig\<close>).

  \<^item> State: the two module-level signals \<open>formData\<close> and \<open>formErrors\<close> (lines 7-8), the
    four hook states \<open>isSubmitting\<close>, \<open>submitStatus\<close>, \<open>showIframe\<close>,
    \<open>currentGroup\<close> (lines 11-14) of one mounted instance, and the number of
    \<open>message\<close> listeners the render body has registered on \<open>window\<close> (line 134).
  \<^item> Handlers: \<open>handleInputChange\<close>, \<open>handleSubmit\<close>, \<open>handleNextGroup\<close>,
    \<open>handlePrevGroup\<close>, \<open>handleIframeMessage\<close>, each a function from the state to a
    completion: normal, or an exception together with the state the handler had reached
    (JavaScript does not undo the updates made before a throw).
  \<^item> The render (lines 133-256): registers one more listener, reads
    \<open>groups[currentGroup]\<close> (a TypeError when out of range), and produces the view.
  \<^item> The system: the events the rendered view offers, each handled and followed by the
    render Preact schedules (when a hook value changed or a signal was assigned), as an
    inductive set of reachable states.
  \<^item> Batched navigation: the Next and Previous handlers as closures over the render that
    created them, for clicks handled before the next render.
\<close>

section \<open>State\<close>

datatype submit_status = StatusIdle | StatusSuccess | StatusError

record form_state =
  formData :: str_obj
  formErrors :: str_obj
  isSubmitting :: bool
  submitStatus :: submit_status
  showIframe :: bool
  currentGroup :: int
  listeners :: nat

definition init_state :: form_state where
  "init_state =
     \<lparr>formData = Map.empty, formErrors = Map.empty, isSubmitting = False,
      submitStatus = StatusIdle, showIframe = False, currentGroup = 0, listeners = 0\<rparr>"

text \<open>The completion of a handler.\<close>

datatype 's completion = Normal 's | Abrupt js_error 's

fun final_state :: "'s completion \<Rightarrow> 's" where
  "final_state (Normal s) = s"
| "final_state (Abrupt e s) = s"

section \<open>Form state store: \<open>handleInputChange\<close>\<close>

text \<open>Lines 92-102: store the value, then validate the field of that id (if there is
  one) and store \<open>error || ''\<close> in its error slot.\<close>

definition handleInputChange :: "form_config \<Rightarrow> field_id \<Rightarrow> string \<Rightarrow> form_state \<Rightarrow> form_state completion" where
  "handleInputChange cfg fieldId value st =
     (let st1 = st\<lparr>formData := (formData st)(fieldId \<mapsto> value)\<rparr> in
      case find_field cfg fieldId of
        None \<Rightarrow> Normal st1
      | Some field \<Rightarrow>
          (case validateField field (Some value) of
             Inl e \<Rightarrow> Abrupt e st1
           | Inr err \<Rightarrow> Normal (st1\<lparr>formErrors := (formErrors st1)(fieldId \<mapsto> error_slot err)\<rparr>)))"

section \<open>Submission controller: \<open>handleSubmit\<close>\<close>

text \<open>Lines 71-77: validate every visible field of the whole schema, in order, keeping the
  truthy messages. An exception from a pattern ends the loop.\<close>

fun collect_errors :: "form_field list \<Rightarrow> str_obj \<Rightarrow> js_error + (field_id \<times> string) list" where
  "collect_errors [] d = Inr []"
| "collect_errors (f # fs) d =
     (if isFieldVisible f d then
        (case validateField f (d (f_id f)) of
           Inl e \<Rightarrow> Inl e
         | Inr err \<Rightarrow>
             (case collect_errors fs d of
                Inl e \<Rightarrow> Inl e
              | Inr es \<Rightarrow> Inr (if has_error err then (f_id f, error_slot err) # es else es)))
      else collect_errors fs d)"

text \<open>The \<open>errors\<close> object: assignments in order, a later one overwriting.\<close>

definition obj_of_pairs :: "(field_id \<times> string) list \<Rightarrow> str_obj" where
  "obj_of_pairs es = foldl (\<lambda>m (k, v). m(k \<mapsto> v)) Map.empty es"

text \<open>Lines 64-90. The handler is \<open>async\<close> but never awaits, so it runs to its end
  inside the event; an exception rejects its promise after \<open>isSubmitting\<close> was set.\<close>

definition handleSubmit :: "form_config \<Rightarrow> form_state \<Rightarrow> form_state completion" where
  "handleSubmit cfg st =
     (let st1 = st\<lparr>isSubmitting := True, submitStatus := StatusIdle\<rparr> in
      case collect_errors (c_fields cfg) (formData st1) of
        Inl e \<Rightarrow> Abrupt e st1
      | Inr errs \<Rightarrow>
          if errs \<noteq> [] then Normal (st1\<lparr>formErrors := obj_of_pairs errs, isSubmitting := False\<rparr>)
          else Normal (st1\<lparr>showIframe := True, isSubmitting := False\<rparr>))"

section \<open>Group navigator\<close>

text \<open>Lines 104-114.\<close>

definition handleNextGroup :: "form_config \<Rightarrow> form_state \<Rightarrow> form_state" where
  "handleNextGroup cfg st =
     (if currentGroup st < int (length (c_groups cfg)) - 1
      then st\<lparr>currentGroup := currentGroup st + 1\<rparr> else st)"

definition handlePrevGroup :: "form_state \<Rightarrow> form_state" where
  "handlePrevGroup st = (if 0 < currentGroup st then st\<lparr>currentGroup := currentGroup st - 1\<rparr> else st)"

text \<open>Both handlers are closures over one render: the guard reads the \<open>currentGroup\<close> of
  that render, while the update \<open>prev => prev + 1\<close> reads the pending state. The handler
  created by the render of \<open>snap\<close>, run on the pending state \<open>st\<close>:\<close>

definition handleNextGroup_closure :: "form_config \<Rightarrow> form_state \<Rightarrow> form_state \<Rightarrow> form_state" where
  "handleNextGroup_closure cfg snap st =
     (if currentGroup snap < int (length (c_groups cfg)) - 1
      then st\<lparr>currentGroup := currentGroup st + 1\<rparr> else st)"

definition handlePrevGroup_closure :: "form_state \<Rightarrow> form_state \<Rightarrow> form_state" where
  "handlePrevGroup_closure snap st =
     (if 0 < currentGroup snap then st\<lparr>currentGroup := currentGroup st - 1\<rparr> else st)"

text \<open>Navigation clicks delivered before Preact re-renders (its renders are deferred to a
  microtask, so clicks dispatched within one task, e.g. two \<open>click()\<close> calls of a script,
  all run the handlers of the same render), folded over the pending state.\<close>

datatype nav_click = ClickNext | ClickPrev

fun nav_batch :: "form_config \<Rightarrow> form_state \<Rightarrow> nav_click list \<Rightarrow> form_state \<Rightarrow> form_state" where
  "nav_batch cfg snap [] st = st"
| "nav_batch cfg snap (ClickNext # cs) st = nav_batch cfg snap cs (handleNextGroup_closure cfg snap st)"
| "nav_batch cfg snap (ClickPrev # cs) st = nav_batch cfg snap cs (handlePrevGroup_closure snap st)"

section \<open>External completion: \<open>handleIframeMessage\<close>\<close>

text \<open>The \<open>data\<close> of a \<open>message\<close> event: undefined, null, another primitive (whose
  \<open>event\<close> property is undefined), or an object with the value of its \<open>event\<close>
  property (\<open>None\<close> when absent or not a primitive value; both differ from the string).\<close>

datatype msg_data = MUndefined | MNull | MPrimitive | MObject "jsval option"

definition event_prop :: "jsval option \<Rightarrow> jsval" where
  "event_prop p = (case p of None \<Rightarrow> JUndefined | Some v \<Rightarrow> v)"

text \<open>Lines 122-130: \<open>event.data.event\<close> throws on undefined and null data; a
  \<open>formSubmitted\<close> tag sets the status, hides the frame and empties the form values.
  The handler does not look at the state: the message is accepted in every state.\<close>

definition handleIframeMessage :: "msg_data \<Rightarrow> form_state \<Rightarrow> form_state completion" where
  "handleIframeMessage d st =
     (case d of
        MUndefined \<Rightarrow> Abrupt TypeError st
      | MNull \<Rightarrow> Abrupt TypeError st
      | MPrimitive \<Rightarrow> Normal st
      | MObject p \<Rightarrow>
          if js_strict_eq (event_prop p) (JStr ''formSubmitted'')
          then Normal (st\<lparr>submitStatus := StatusSuccess, showIframe := False, formData := Map.empty\<rparr>)
          else Normal st)"

text \<open>A \<open>message\<close> event runs every registered listener in turn; the listeners of
  all renders behave alike (the state setters are stable and the signals are global), and
  an exception in one does not stop the next.\<close>

fun dispatch_message :: "nat \<Rightarrow> msg_data \<Rightarrow> form_state \<Rightarrow> form_state" where
  "dispatch_message 0 d st = st"
| "dispatch_message (Suc n) d st = dispatch_message n d (final_state (handleIframeMessage d st))"

section \<open>Rendering\<close>

text \<open>The widget of a field (lines 160-205): \<open>select\<close> with its placeholder option and
  the displayed value, radio buttons with their \<open>checked\<close> flags, \<open>textarea\<close> and a
  typed \<open>input\<close> with the displayed value. \<open>formData[id] || ''\<close> is displayed.\<close>

datatype widget =
    WSelect string "field_option list" string
  | WRadio "(field_option \<times> bool) list"
  | WTextarea string
  | WInput field_type string

definition shown_value :: "string option \<Rightarrow> string" where
  "shown_value v = (case v of Some s \<Rightarrow> s | None \<Rightarrow> [])"

text \<open>A text that is rendered only when truthy (\<open>x && <p>{x}</p>\<close>).\<close>

definition shown_text :: "string option \<Rightarrow> string option" where
  "shown_text t = (case t of Some s \<Rightarrow> if s = [] then None else Some s | None \<Rightarrow> None)"

definition widget_of :: "form_field \<Rightarrow> string option \<Rightarrow> widget" where
  "widget_of field v =
     (let opts = (case f_options field of Some os \<Rightarrow> os | None \<Rightarrow> []) in
      if f_type field = FSelect then
        WSelect (case shown_text (f_placeholder field) of Some p \<Rightarrow> p | None \<Rightarrow> ''Select '' @ f_label field)
                opts (shown_value v)
      else if f_type field = FRadio then
        WRadio (map (\<lambda>opt. (opt, js_strict_eq (jsval_of v) (JStr (opt_value opt)))) opts)
      else if f_type field = FTextarea then WTextarea (shown_value v)
      else WInput (f_type field) (shown_value v))"

record field_view =
  fv_id :: field_id
  fv_label :: string
  fv_help :: "string option"
  fv_widget :: widget
  fv_required :: bool
  fv_error :: "string option"

definition field_view_of :: "form_state \<Rightarrow> form_field \<Rightarrow> field_view" where
  "field_view_of st field =
     \<lparr>fv_id = f_id field, fv_label = f_label field, fv_help = shown_text (f_helpText field),
      fv_widget = widget_of field (formData st (f_id field)), fv_required = f_required field,
      fv_error = shown_text (formErrors st (f_id field))\<rparr>"

text \<open>The navigation (lines 213-228): Previous when \<open>currentGroup > 0\<close>; Next before the
  last group, otherwise the submit button (disabled while submitting).\<close>

datatype nav_button = NextButton | SubmitButton bool "string option"

text \<open>The external frame (lines 244-253): its address, title, width and height.\<close>

datatype view =
    FormView string "string option" "field_view list" bool nav_button bool bool
  | IframeView string string string string

definition jotform_frame :: view where
  "jotform_frame = IframeView ''https://form.jotform.com/240000000000000'' ''Quote Request Form'' ''100%'' ''800px''"

definition group_in_range :: "form_config \<Rightarrow> int \<Rightarrow> bool" where
  "group_in_range cfg i \<longleftrightarrow> 0 \<le> i \<and> i < int (length (c_groups cfg))"

text \<open>Lines 133-256. The listener is added on every render, before the group lookup;
  \<open>groups[currentGroup].id\<close> throws when the index is out of range, also while the
  frame is shown, since it is computed before the choice of view.\<close>

definition render :: "form_config \<Rightarrow> form_state \<Rightarrow> form_state \<times> (js_error + view)" where
  "render cfg st =
     (let st' = st\<lparr>listeners := Suc (listeners st)\<rparr> in
      if \<not> group_in_range cfg (currentGroup st) then (st', Inl TypeError)
      else
        (let g = c_groups cfg ! nat (currentGroup st);
             fields = filter (\<lambda>f. isFieldVisible f (formData st)) (group_fields cfg (g_id g))
         in if showIframe st then (st', Inr jotform_frame)
            else (st', Inr (FormView (g_title g) (shown_text (g_description g))
                     (map (field_view_of st) fields)
                     (0 < currentGroup st)
                     (if currentGroup st < int (length (c_groups cfg)) - 1 then NextButton
                      else SubmitButton (isSubmitting st)
                             (if isSubmitting st then Some ''Submitting...'' else c_submitButtonText cfg))
                     (submitStatus st = StatusSuccess)
                     (submitStatus st = StatusError)))))"

section \<open>Events and reachable states\<close>

datatype ui_event = EvChange field_id string | EvSubmit | EvNext | EvPrev | EvMessage msg_data | EvIframeLoad

text \<open>Lines 116-119: the frame's \<open>onLoad\<close> handler does nothing.\<close>

definition handleIframeLoad :: "form_state \<Rightarrow> form_state" where
  "handleIframeLoad st = st"

text \<open>The values a widget can deliver to its \<open>onChange\<close>: the option values (and the
  empty placeholder of a select); any string for text widgets.\<close>

fun widget_accepts :: "widget \<Rightarrow> string \<Rightarrow> bool" where
  "widget_accepts (WSelect p opts v) x \<longleftrightarrow> x = [] \<or> x \<in> set (map opt_value opts)"
| "widget_accepts (WRadio opts) x \<longleftrightarrow> x \<in> set (map (opt_value \<circ> fst) opts)"
| "widget_accepts (WTextarea v) x \<longleftrightarrow> True"
| "widget_accepts (WInput t v) x \<longleftrightarrow> True"

text \<open>The events the current view offers: changes to rendered fields, submission of the
  form (by the button or by implicit submission), the navigation buttons shown, and
  messages, which may arrive at any time.\<close>

definition ui_enabled :: "form_config \<Rightarrow> form_state \<Rightarrow> ui_event \<Rightarrow> bool" where
  "ui_enabled cfg st ev =
     (case ev of
        EvMessage d \<Rightarrow> True
      | _ \<Rightarrow>
          (case snd (render cfg st) of
             Inr (FormView t desc fvs prev nav succ err) \<Rightarrow>
               (case ev of
                  EvChange fid x \<Rightarrow> list_ex (\<lambda>fv. fv_id fv = fid \<and> widget_accepts (fv_widget fv) x) fvs
                | EvSubmit \<Rightarrow> True
                | EvNext \<Rightarrow> nav = NextButton
                | EvPrev \<Rightarrow> prev
                | EvMessage d \<Rightarrow> True
                | EvIframeLoad \<Rightarrow> False)
           | Inr (IframeView src title w h) \<Rightarrow> ev = EvIframeLoad
           | Inl e \<Rightarrow> False))"

definition handle_event :: "form_config \<Rightarrow> ui_event \<Rightarrow> form_state \<Rightarrow> form_state" where
  "handle_event cfg ev st =
     (case ev of
        EvChange fid x \<Rightarrow> final_state (handleInputChange cfg fid x st)
      | EvSubmit \<Rightarrow> final_state (handleSubmit cfg st)
      | EvNext \<Rightarrow> handleNextGroup cfg st
      | EvPrev \<Rightarrow> handlePrevGroup st
      | EvMessage d \<Rightarrow> dispatch_message (listeners st) d st
      | EvIframeLoad \<Rightarrow> handleIframeLoad st)"

text \<open>Preact re-renders the component after a handler when a hook setter was called with a
  value that differs from the committed one, or a signal the render reads was assigned a
  different value; the handlers only assign fresh objects to the signals:
  \<open>handleInputChange\<close> assigns \<open>formData\<close>, \<open>handleSubmit\<close> assigns \<open>formErrors\<close> when
  it finds errors, and the completion message assigns \<open>formData\<close> (an event whose
  handlers change nothing, such as the frame's load or an unrelated message, is followed
  by no render).\<close>

definition completion_msg :: "msg_data \<Rightarrow> bool" where
  "completion_msg d \<longleftrightarrow> (case d of MObject p \<Rightarrow> event_prop p = JStr ''formSubmitted'' | _ \<Rightarrow> False)"

definition signal_assigned :: "form_config \<Rightarrow> ui_event \<Rightarrow> form_state \<Rightarrow> bool" where
  "signal_assigned cfg ev st =
     (case ev of
        EvChange fid x \<Rightarrow> True
      | EvSubmit \<Rightarrow> (case collect_errors (c_fields cfg) (formData st) of Inr errs \<Rightarrow> errs \<noteq> [] | Inl e \<Rightarrow> False)
      | EvMessage d \<Rightarrow> 0 < listeners st \<and> completion_msg d
      | _ \<Rightarrow> False)"

definition hooks_changed :: "form_state \<Rightarrow> form_state \<Rightarrow> bool" where
  "hooks_changed st st' \<longleftrightarrow>
     isSubmitting st' \<noteq> isSubmitting st \<or> submitStatus st' \<noteq> submitStatus st \<or>
     showIframe st' \<noteq> showIframe st \<or> currentGroup st' \<noteq> currentGroup st"

definition rerenders :: "form_config \<Rightarrow> ui_event \<Rightarrow> form_state \<Rightarrow> bool" where
  "rerenders cfg ev st \<longleftrightarrow> signal_assigned cfg ev st \<or> hooks_changed st (handle_event cfg ev st)"

text \<open>An event: its handlers, then the render Preact schedules, if any.\<close>

definition sys_step :: "form_config \<Rightarrow> ui_event \<Rightarrow> form_state \<Rightarrow> form_state" where
  "sys_step cfg ev st =
     (let st' = handle_event cfg ev st in if rerenders cfg ev st then fst (render cfg st') else st')"

definition mount :: "form_config \<Rightarrow> form_state" where
  "mount cfg = fst (render cfg init_state)"

inductive reachable :: "form_config \<Rightarrow> form_state \<Rightarrow> bool" for cfg :: form_config where
  reach_mount: "reachable cfg (mount cfg)"
| reach_step: "reachable cfg st \<Longrightarrow> ui_enabled cfg st ev \<Longrightarrow> reachable cfg (sys_step cfg ev st)"

text \<open>A run of events from a state, and whether each event is offered when it comes.\<close>

fun run :: "form_config \<Rightarrow> form_state \<Rightarrow> ui_event list \<Rightarrow> form_state" where
  "run cfg st [] = st"
| "run cfg st (ev # evs) = run cfg (sys_step cfg ev st) evs"

fun run_enabled :: "form_config \<Rightarrow> form_state \<Rightarrow> ui_event list \<Rightarrow> bool" where
  "run_enabled cfg st [] = True"
| "run_enabled cfg st (ev # evs) = (ui_enabled cfg st ev \<and> run_enabled cfg (sys_step cfg ev st) evs)"

section \<open>Specifications used by the lemmas\<close>

text \<open>The error map a failed submission should produce, field by field.\<close>

definition submit_errors :: "form_config \<Rightarrow> str_obj \<Rightarrow> str_obj" where
  "submit_errors cfg d k =
     (case find_field cfg k of
        None \<Rightarrow> None
      | Some f \<Rightarrow>
          if isFieldVisible f d then
            (case validateField f (d k) of
               Inr e \<Rightarrow> if has_error e then Some (error_slot e) else None
             | Inl _ \<Rightarrow> None)
          else None)"

definition completed :: "form_state \<Rightarrow> form_state" where
  "completed st = st\<lparr>submitStatus := StatusSuccess, showIframe := False, formData := Map.empty\<rparr>"

section \<open>Frame lemmas of the handlers\<close>

lemma handleIframeMessage_final:
  "final_state (handleIframeMessage d st) = (if completion_msg d then completed st else st)"
  by (cases d) (auto simp: handleIframeMessage_def completion_msg_def completed_def js_simps)

lemma completed_idem [simp]: "completed (completed st) = completed st"
  by (simp add: completed_def)

lemma dispatch_message_eq:
  "dispatch_message n d st = (if 0 < n \<and> completion_msg d then completed st else st)"
proof (induction n arbitrary: st)
  case (Suc n)
  then show ?case by (auto simp: handleIframeMessage_final)
qed simp

lemma render_state: "fst (render cfg st) = st\<lparr>listeners := Suc (listeners st)\<rparr>"
  by (simp add: render_def Let_def)

lemma sys_step_state:
  "sys_step cfg ev st =
     (handle_event cfg ev st)\<lparr>listeners := listeners (handle_event cfg ev st) + (if rerenders cfg ev st then 1 else 0)\<rparr>"
  by (simp add: sys_step_def render_state Let_def)

lemma handleInputChange_final:
  "final_state (handleInputChange cfg fid v st) =
     st\<lparr>formData := (formData st)(fid \<mapsto> v),
        formErrors := (case find_field cfg fid of
                         None \<Rightarrow> formErrors st
                       | Some f \<Rightarrow> (case validateField f (Some v) of
                                     Inl e \<Rightarrow> formErrors st
                                   | Inr e \<Rightarrow> (formErrors st)(fid \<mapsto> error_slot e)))\<rparr>"
  by (auto simp: handleInputChange_def Let_def split: option.splits sum.splits)

lemma handleSubmit_final:
  "final_state (handleSubmit cfg st) =
     (case collect_errors (c_fields cfg) (formData st) of
        Inl e \<Rightarrow> st\<lparr>isSubmitting := True, submitStatus := StatusIdle\<rparr>
      | Inr errs \<Rightarrow>
          if errs \<noteq> [] then st\<lparr>isSubmitting := False, submitStatus := StatusIdle, formErrors := obj_of_pairs errs\<rparr>
          else st\<lparr>isSubmitting := False, submitStatus := StatusIdle, showIframe := True\<rparr>)"
  by (auto simp: handleSubmit_def Let_def split: sum.splits)

lemma enabled_form_view:
  "ui_enabled cfg st ev \<Longrightarrow> \<not> (\<exists>d. ev = EvMessage d) \<Longrightarrow> ev \<noteq> EvIframeLoad \<Longrightarrow>
   \<not> showIframe st \<and> group_in_range cfg (currentGroup st)"
  by (cases ev) (auto simp: ui_enabled_def render_def Let_def jotform_frame_def split: if_splits sum.splits view.splits)

lemma enabled_change_field:
  "ui_enabled cfg st (EvChange fid x) \<Longrightarrow> fid \<in> set (field_ids cfg)"
  by (auto simp: ui_enabled_def render_def Let_def list_ex_iff field_view_of_def field_ids_def jotform_frame_def
                 group_fields_def split: if_splits sum.splits view.splits)

lemma collect_errors_no_throw:
  "list_all pattern_compiles fs \<Longrightarrow> \<exists>es. collect_errors fs d = Inr es"
proof (induction fs)
  case (Cons f fs)
  then obtain es where "collect_errors fs d = Inr es" by auto
  moreover obtain e where "validateField f (d (f_id f)) = Inr e"
    using Cons.prems validate_no_throw by auto
  ultimately show ?case by auto
qed simp

lemma completion_normal:
  "(case c of Normal _ \<Rightarrow> True | Abrupt _ _ \<Rightarrow> False) \<Longrightarrow> c = Normal (final_state c)"
  by (cases c) simp_all

lemma collect_errors_throw_at:
  assumes "list_all pattern_compiles fs" "isFieldVisible f d" "validateField f (d (f_id f)) = Inl e"
  shows "collect_errors (fs @ f # gs) d = Inl e"
  using assms(1)
proof (induction fs)
  case (Cons g fs)
  obtain e' where "validateField g (d (f_id g)) = Inr e'"
    using Cons.prems validate_no_throw by auto
  with Cons show ?case by auto
qed (simp add: assms(2,3))


lemma mount_state: "mount cfg = init_state\<lparr>listeners := 1\<rparr>"
  by (simp add: mount_def render_state init_state_def)

lemma handle_event_group:
  "currentGroup (handle_event cfg ev st) =
     (case ev of EvNext \<Rightarrow> currentGroup (handleNextGroup cfg st)
               | EvPrev \<Rightarrow> currentGroup (handlePrevGroup st)
               | _ \<Rightarrow> currentGroup st)"
  by (cases ev) (auto simp: handle_event_def handleIframeLoad_def handleInputChange_final handleSubmit_final
                     dispatch_message_eq completed_def split: sum.splits)

lemma group_in_range_step:
  "group_in_range cfg (currentGroup st) \<Longrightarrow> group_in_range cfg (currentGroup (sys_step cfg ev st))"
  by (cases ev) (auto simp: sys_step_state handle_event_group handleNextGroup_def
                     handlePrevGroup_def group_in_range_def)

lemma reachable_group_in_range:
  "reachable cfg st \<Longrightarrow> c_groups cfg \<noteq> [] \<Longrightarrow> group_in_range cfg (currentGroup st)"
proof (induction rule: reachable.induct)
  case reach_mount
  then show ?case by (simp add: mount_state init_state_def group_in_range_def)
next
  case (reach_step st ev)
  then show ?case by (simp add: group_in_range_step)
qed

text \<open>C11: for a schema with at least one group, the render of every reachable state succeeds: the group index stays in range, so \<open>groups[currentGroup].id\<close> never throws.\<close>

theorem reachable_render_total:
  "reachable cfg st \<Longrightarrow> c_groups cfg \<noteq> [] \<Longrightarrow>
   (case snd (render cfg st) of Inl e \<Rightarrow> False | Inr v \<Rightarrow> True)"
  by (drule (1) reachable_group_in_range) (simp add: render_def Let_def)

lemma formData_handleInputChange:
  "formData (final_state (handleInputChange cfg fid x st)) = (formData st)(fid \<mapsto> x)"
  by (auto simp: handleInputChange_def Let_def split: option.splits sum.splits)

lemma dom_data_change:
  "dom (formData (sys_step cfg (EvChange fid x) st)) = insert fid (dom (formData st))"
  by (simp add: sys_step_state handle_event_def formData_handleInputChange)

lemma handle_event_data:
  "formData (handle_event cfg ev st) =
     (case ev of EvChange fid x \<Rightarrow> (formData st)(fid \<mapsto> x)
               | EvMessage d \<Rightarrow> formData (dispatch_message (listeners st) d st)
               | _ \<Rightarrow> formData st)"
  by (cases ev) (auto simp: handle_event_def handleIframeLoad_def handleInputChange_final handleSubmit_final
                     handleNextGroup_def handlePrevGroup_def split: sum.splits)

text \<open>C12: in every reachable state, every key of the form values is the id of a field of the schema (spec section 3).\<close>

theorem reachable_data_keys:
  "reachable cfg st \<Longrightarrow> dom (formData st) \<subseteq> set (field_ids cfg)"
proof (induction rule: reachable.induct)
  case reach_mount
  then show ?case by (simp add: mount_state init_state_def)
next
  case (reach_step st ev)
  show ?case
  proof (cases ev)
    case (EvChange fid x)
    with reach_step.hyps(2) have "fid \<in> set (field_ids cfg)" by (simp add: enabled_change_field)
    with reach_step.IH EvChange show ?thesis by (simp add: dom_data_change)
  qed (use reach_step.IH in \<open>auto simp: sys_step_state handle_event_data dispatch_message_eq completed_def\<close>)
qed

lemma handle_event_submitting:
  "list_all pattern_compiles (c_fields cfg) \<Longrightarrow> \<not> isSubmitting st \<Longrightarrow>
   \<not> isSubmitting (handle_event cfg ev st)"
  using collect_errors_no_throw [of "c_fields cfg" "formData st"]
  by (cases ev) (auto simp: handle_event_def handleIframeLoad_def handleInputChange_final handleSubmit_final
                     handleNextGroup_def handlePrevGroup_def dispatch_message_eq completed_def
                     split: if_splits)

text \<open>C13: when every pattern of the schema compiles, no reachable state is left with \<open>isSubmitting\<close> set (the submit button is never stuck disabled).\<close>

theorem reachable_not_submitting:
  "reachable cfg st \<Longrightarrow> list_all pattern_compiles (c_fields cfg) \<Longrightarrow> \<not> isSubmitting st"
proof (induction rule: reachable.induct)
  case reach_mount
  then show ?case by (simp add: mount_state init_state_def)
next
  case (reach_step st ev)
  then show ?case by (simp add: sys_step_state handle_event_submitting)
qed

text \<open>C10: no reachable state has the error status: no handler sets it (spec 4.6), so the form never shows its error message.\<close>

theorem reachable_no_error_status: "reachable cfg st \<Longrightarrow> submitStatus st \<noteq> StatusError"
proof (induction rule: reachable.induct)
  case reach_mount
  then show ?case by (simp add: mount_state init_state_def)
next
  case (reach_step st ev)
  then show ?case
    by (cases ev) (auto simp: sys_step_state handle_event_def handleIframeLoad_def handleInputChange_final
                       handleSubmit_def Let_def handleNextGroup_def handlePrevGroup_def
                       dispatch_message_eq completed_def split: sum.splits)
qed

text \<open>C1: the external form is revealed only behind the gate: in every reachable state that shows the frame, validating every visible field of the whole schema against the current values reports no error (the submission would pass again).\<close>

theorem reachable_gate:
  "reachable cfg st \<Longrightarrow> showIframe st \<Longrightarrow> collect_errors (c_fields cfg) (formData st) = Inr []"
proof (induction rule: reachable.induct)
  case reach_mount
  then show ?case by (simp add: mount_state init_state_def)
next
  case (reach_step st ev)
  have shown: "showIframe (handle_event cfg ev st)" using reach_step.prems by (simp add: sys_step_state)
  have "collect_errors (c_fields cfg) (formData (handle_event cfg ev st)) = Inr []"
  proof (cases "(\<exists>d. ev = EvMessage d) \<or> ev = EvIframeLoad")
    case True
    with shown reach_step.IH show ?thesis
      by (auto simp: handle_event_def dispatch_message_eq completed_def handleIframeLoad_def split: if_splits)
  next
    case False
    with reach_step.hyps(2) have ns: "\<not> showIframe st" by (auto dest: enabled_form_view)
    show ?thesis
    proof (cases ev)
      case EvSubmit
      with shown ns show ?thesis
        by (auto simp: handle_event_def handleSubmit_def Let_def split: sum.splits if_splits)
    qed (use shown ns False in \<open>auto simp: handle_event_def handleInputChange_final
                                      handleNextGroup_def handlePrevGroup_def split: if_splits\<close>)
  qed
  then show ?case by (simp add: sys_step_state)
qed


text \<open>C9: the navigator of spec 4.5: Previous at the first group and Next at (or past) the last group leave the state unchanged (no wrap-around, no error), and from an interior group index Next then Previous is the identity.\<close>

theorem navigator_spec:
  "(currentGroup st \<le> 0 \<longrightarrow> handlePrevGroup st = st) \<and>
   (int (length (c_groups cfg)) - 1 \<le> currentGroup st \<longrightarrow> handleNextGroup cfg st = st) \<and>
   (0 \<le> currentGroup st \<and> currentGroup st < int (length (c_groups cfg)) - 1 \<longrightarrow>
      handlePrevGroup (handleNextGroup cfg st) = st)"
  by (simp add: handlePrevGroup_def handleNextGroup_def)

text \<open>With a render between clicks the snapshot is the current state, and the closures are
  the handlers the event system runs.\<close>

lemma closures_fresh:
  "handleNextGroup_closure cfg st st = handleNextGroup cfg st \<and> handlePrevGroup_closure st st = handlePrevGroup st"
  by (simp add: handleNextGroup_closure_def handleNextGroup_def handlePrevGroup_closure_def handlePrevGroup_def)

text \<open>C14: the guard of \<open>handleNextGroup\<close> reads the rendered group while its update reads the pending one: \<open>k\<close> Next clicks handled by the same render below the last group all advance the index, past the last group when enough of them come, and the following render then throws reading \<open>groups[currentGroup].id\<close>.\<close>

theorem stale_next_overrun:
  assumes "currentGroup snap < int (length (c_groups cfg)) - 1"
  shows "currentGroup (nav_batch cfg snap (replicate k ClickNext) snap) = currentGroup snap + int k \<and>
         (int (length (c_groups cfg)) \<le> currentGroup snap + int k \<longrightarrow>
            snd (render cfg (nav_batch cfg snap (replicate k ClickNext) snap)) = Inl TypeError)"
proof -
  have "currentGroup (nav_batch cfg snap (replicate k ClickNext) st) = currentGroup st + int k" for st
    using assms by (induction k arbitrary: st) (simp_all add: handleNextGroup_closure_def)
  then show ?thesis by (simp add: render_def Let_def group_in_range_def)
qed

text \<open>C15: setting a field to the same value twice has the effect of setting it once, on the values, the errors and the outcome.\<close>

theorem input_change_idempotent:
  "handleInputChange cfg fid v (final_state (handleInputChange cfg fid v st)) = handleInputChange cfg fid v st"
  by (auto simp: handleInputChange_def Let_def split: option.splits sum.splits)

text \<open>C16: a submission that completes clears \<open>isSubmitting\<close>, sets the status to idle, keeps the form values, and shows the frame exactly when it was shown or no visible field has an error.\<close>

theorem submit_outcome:
  "handleSubmit cfg st = Normal st' \<Longrightarrow>
   \<not> isSubmitting st' \<and> submitStatus st' = StatusIdle \<and> formData st' = formData st \<and>
   (showIframe st' \<longleftrightarrow> showIframe st \<or> collect_errors (c_fields cfg) (formData st) = Inr [])"
  by (auto simp: handleSubmit_def Let_def split: sum.splits if_splits)

lemma obj_of_pairs_map_of: "obj_of_pairs es = map_of (rev es)"
proof -
  have "foldl (\<lambda>m (k, v). m(k \<mapsto> v)) m0 es = m0 ++ map_of (rev es)" for m0
    by (induction es arbitrary: m0) (auto simp: map_add_upd [symmetric] map_of_append)
  then show ?thesis by (simp add: obj_of_pairs_def)
qed

lemma collect_errors_keys: "collect_errors fs d = Inr es \<Longrightarrow> fst ` set es \<subseteq> f_id ` set fs"
proof (induction fs arbitrary: es)
  case (Cons f fs)
  show ?case
  proof (cases "isFieldVisible f d")
    case True
    with Cons.prems obtain err es' where c: "collect_errors fs d = Inr es'"
      and es: "es = (if has_error err then (f_id f, error_slot err) # es' else es')"
      by (auto split: sum.splits)
    from Cons.IH [OF c] es show ?thesis by auto
  next
    case False
    with Cons.prems have "collect_errors fs d = Inr es" by simp
    from Cons.IH [OF this] show ?thesis by auto
  qed
qed simp

lemma collect_errors_map_of:
  assumes "collect_errors fs d = Inr es" "distinct (map f_id fs)"
  shows "distinct (map fst es) \<and>
         map_of es k = (case find (\<lambda>f. f_id f = k) fs of
                          None \<Rightarrow> None
                        | Some f \<Rightarrow> if isFieldVisible f d then
                                      (case validateField f (d k) of
                                         Inr e \<Rightarrow> if has_error e then Some (error_slot e) else None
                                       | Inl _ \<Rightarrow> None)
                                    else None)"
  using assms
proof (induction fs arbitrary: es)
  case (Cons f fs)
  show ?case
  proof (cases "isFieldVisible f d")
    case True
    with Cons.prems obtain err es' where v: "validateField f (d (f_id f)) = Inr err"
      and c: "collect_errors fs d = Inr es'"
      and es: "es = (if has_error err then (f_id f, error_slot err) # es' else es')"
      by (auto split: sum.splits)
    have "f_id f \<notin> fst ` set es'"
      using collect_errors_keys [OF c] Cons.prems(2) by auto
    moreover have "find (\<lambda>g. f_id g = f_id f) fs = None"
      using Cons.prems(2) by (simp add: find_key_None)
    ultimately have n1: "map_of es' (f_id f) = None" and n2: "find (\<lambda>g. f_id g = f_id f) fs = None"
      by (simp_all add: map_of_eq_None_iff)
    from Cons.prems(2) have dfs: "distinct (map f_id fs)" by simp
    show ?thesis
    proof (cases "k = f_id f")
      case True
      with Cons.IH [OF c dfs] \<open>f_id f \<notin> fst ` set es'\<close> n1 \<open>isFieldVisible f d\<close> v es show ?thesis
        by simp
    next
      case False
      with Cons.IH [OF c dfs] \<open>f_id f \<notin> fst ` set es'\<close> es show ?thesis
        by simp
    qed
  next
    case False
    with Cons.prems have c: "collect_errors fs d = Inr es" by simp
    have "f_id f \<notin> fst ` set es"
      using collect_errors_keys [OF c] Cons.prems(2) by auto
    moreover have "find (\<lambda>g. f_id g = f_id f) fs = None"
      using Cons.prems(2) by (simp add: find_key_None)
    ultimately have n1: "map_of es (f_id f) = None" and n2: "find (\<lambda>g. f_id g = f_id f) fs = None"
      by (simp_all add: map_of_eq_None_iff)
    from Cons.prems(2) have dfs: "distinct (map f_id fs)" by simp
    show ?thesis
    proof (cases "k = f_id f")
      case True
      with Cons.IH [OF c dfs] n1 \<open>\<not> isFieldVisible f d\<close> show ?thesis by simp
    next
      case False
      with Cons.IH [OF c dfs] show ?thesis by simp
    qed
  qed
qed simp

text \<open>C17: when a submission finds errors (and field ids are unique), the error map becomes exactly the truthy messages of the visible fields, and no entry for any other field.\<close>

theorem submit_errors_exact:
  assumes "handleSubmit cfg st = Normal st'" "distinct (field_ids cfg)"
    and "collect_errors (c_fields cfg) (formData st) \<noteq> Inr []"
  shows "formErrors st' = submit_errors cfg (formData st)"
proof -
  from assms(1) obtain errs where c: "collect_errors (c_fields cfg) (formData st) = Inr errs"
    by (auto simp: handleSubmit_def Let_def split: sum.splits)
  with assms(3) have "errs \<noteq> []" by auto
  with assms(1) c have "formErrors st' = obj_of_pairs errs"
    by (auto simp: handleSubmit_def Let_def)
  also have "\<dots> = map_of errs"
    using collect_errors_map_of [OF c] assms(2) by (simp add: obj_of_pairs_map_of map_of_rev_distinct field_ids_def)
  also have "\<dots> = submit_errors cfg (formData st)"
    using collect_errors_map_of [OF c] assms(2)
    by (auto simp: submit_errors_def find_field_def field_ids_def)
  finally show ?thesis .
qed

lemma listeners_handle_event: "listeners (handle_event cfg ev st) = listeners st"
  by (cases ev) (auto simp: handle_event_def handleIframeLoad_def handleInputChange_final handleSubmit_final
                     handleNextGroup_def handlePrevGroup_def dispatch_message_eq completed_def
                     split: sum.splits)

text \<open>C24: every render registers one more window listener and none is ever removed: over a run of events the count grows by at least the number of field changes (each assigns \<open>formData\<close>, so a render follows) and by at most the number of events; the leak does not change what a message does: with any positive number of listeners, a message has the effect of one call of the handler.\<close>

theorem listener_growth:
  "listeners st + length (filter (\<lambda>ev. case ev of EvChange fid x \<Rightarrow> True | _ \<Rightarrow> False) evs)
     \<le> listeners (run cfg st evs) \<and>
   listeners (run cfg st evs) \<le> listeners st + length evs \<and>
   (0 < n \<longrightarrow> dispatch_message n d st = final_state (handleIframeMessage d st))"
proof -
  have "listeners st + length (filter (\<lambda>ev. case ev of EvChange fid x \<Rightarrow> True | _ \<Rightarrow> False) evs)
          \<le> listeners (run cfg st evs) \<and> listeners (run cfg st evs) \<le> listeners st + length evs"
  proof (induction evs arbitrary: st)
    case (Cons ev evs)
    have "listeners (sys_step cfg ev st) = listeners st + (if rerenders cfg ev st then 1 else 0)"
      by (simp add: sys_step_def render_def Let_def listeners_handle_event)
    moreover have "(case ev of EvChange fid x \<Rightarrow> True | _ \<Rightarrow> False) \<Longrightarrow> rerenders cfg ev st"
      by (cases ev) (simp_all add: rerenders_def signal_assigned_def)
    ultimately show ?case using Cons.IH [of "sys_step cfg ev st"] by (cases ev) (auto split: if_splits)
  qed simp
  then show ?thesis by (simp add: dispatch_message_eq handleIframeMessage_final)
qed

lemma reachable_listeners: "reachable cfg st \<Longrightarrow> 0 < listeners st"
  by (induction rule: reachable.induct) (simp_all add: mount_state init_state_def sys_step_state listeners_handle_event)

text \<open>C25: from every reachable state, the completion message is accepted, and its step (with any number of listeners registered) sets the status to success, hides the frame and empties the form values, keeps the errors, the group and the submitting flag, and registers one more listener.\<close>

theorem completion_liveness:
  assumes "reachable cfg st"
  shows "ui_enabled cfg st (EvMessage (MObject (Some (JStr ''formSubmitted'')))) \<and>
         sys_step cfg (EvMessage (MObject (Some (JStr ''formSubmitted'')))) st =
           st\<lparr>submitStatus := StatusSuccess, showIframe := False, formData := Map.empty,
              listeners := Suc (listeners st)\<rparr>"
  using reachable_listeners [OF assms]
  by (simp add: ui_enabled_def sys_step_state handle_event_def dispatch_message_eq rerenders_def
                signal_assigned_def completion_msg_def event_prop_def completed_def)

text \<open>A run of offered events from a reachable state stays reachable.\<close>

lemma run_reachable: "reachable cfg st \<Longrightarrow> run_enabled cfg st evs \<Longrightarrow> reachable cfg (run cfg st evs)"
proof (induction evs arbitrary: st)
  case (Cons ev evs)
  then show ?case by (auto intro: reach_step)
qed simp

text \<open>An entry of the collected errors is a visible field with a truthy message.\<close>

lemma collect_errors_member:
  "collect_errors fs d = Inr es \<Longrightarrow> f \<in> set fs \<Longrightarrow> isFieldVisible f d \<Longrightarrow>
   validateField f (d (f_id f)) = Inr err \<Longrightarrow> has_error err \<Longrightarrow> (f_id f, error_slot err) \<in> set es"
proof (induction fs arbitrary: es)
  case (Cons g fs)
  show ?case
  proof (cases "isFieldVisible g d")
    case True
    with Cons.prems(1) obtain err' es' where v: "validateField g (d (f_id g)) = Inr err'"
      and c: "collect_errors fs d = Inr es'"
      and es: "es = (if has_error err' then (f_id g, error_slot err') # es' else es')"
      by (auto split: sum.splits)
    show ?thesis
    proof (cases "f = g")
      case True
      with v Cons.prems(4,5) es show ?thesis by simp
    next
      case False
      with Cons.prems(2) have "f \<in> set fs" by simp
      from Cons.IH [OF c this Cons.prems(3-5)] es show ?thesis by auto
    qed
  next
    case False
    with Cons.prems have "collect_errors fs d = Inr es" "f \<in> set fs" by auto
    from Cons.IH [OF this Cons.prems(3-5)] show ?thesis .
  qed
qed simp

end
