(* ===== verification/Render_Props.thy ===== *)
theory Render_Props
  imports Quote_Form
begin

text \<open>
  Properties of the render body of \<open>QuoteForm.tsx\<close> (lines 137-256) and of its
  composition with the handlers: which fields the form shows and in which order, against
  the schema's group lists (spec 3 and 6), and what a field shows after a change.
\<close>

definition view_fields :: "view \<Rightarrow> field_view list" where
  "view_fields v = (case v of FormView t d fvs p n s e \<Rightarrow> fvs | IframeView src title w h \<Rightarrow> [])"

text \<open>The fields of a group, read from the group's list of ids as the spec describes it.\<close>

definition declared_visible :: "form_config \<Rightarrow> form_group \<Rightarrow> str_obj \<Rightarrow> field_id list" where
  "declared_visible cfg g d =
     filter (\<lambda>fid. case find_field cfg fid of Some f \<Rightarrow> isFieldVisible f d | None \<Rightarrow> False) (g_fields g)"

lemma group_fields_find:
  "distinct (field_ids cfg) \<Longrightarrow> f \<in> set (group_fields cfg gid) \<Longrightarrow> find_field cfg (f_id f) = Some f"
  by (simp add: group_fields_members find_field_distinct)

lemma render_Inr_in_range: "snd (render cfg st) = Inr v \<Longrightarrow> group_in_range cfg (currentGroup st)"
  by (auto simp: render_def Let_def split: if_splits)

lemma render_form_fields:
  assumes "snd (render cfg st) = Inr v" "\<not> showIframe st"
  shows "view_fields v = map (field_view_of st)
           (filter (\<lambda>f. isFieldVisible f (formData st)) (group_fields cfg (g_id (c_groups cfg ! nat (currentGroup st)))))"
  using assms by (auto simp: render_def Let_def view_fields_def split: if_splits)

text \<open>A declared list of ids that holds exactly the ids of the fields selected by \<open>P\<close>, without
  repetition and by strictly increasing \<open>order\<close>, is the list of ids of those fields
  sorted by \<open>order\<close>.\<close>

lemma declared_sort_key:
  assumes ids: "distinct (map f_id fs)" and dds: "distinct ds"
    and eq: "set ds = f_id ` set (filter P fs)"
    and ord: "sorted_wrt (<) (map ko ds)"
    and ko: "\<And>fid f. find (\<lambda>f. f_id f = fid) fs = Some f \<Longrightarrow> ko fid = f_order f"
  shows "map f_id (sort_key f_order (filter P fs)) = ds"
proof -
  let ?G = "filter P fs"
  let ?lookup = "\<lambda>fid. the (find (\<lambda>f. f_id f = fid) fs)"
  have found: "?lookup fid \<in> set ?G \<and> f_id (?lookup fid) = fid \<and> ko fid = f_order (?lookup fid)"
    if "fid \<in> set ds" for fid
  proof -
    from that eq obtain g where g: "g \<in> set ?G" "fid = f_id g" by auto
    then have "find (\<lambda>f. f_id f = fid) fs = Some g" using find_unique_key [OF ids] by simp
    with g ko show ?thesis by simp
  qed
  define D where "D = map ?lookup ds"
  have mD: "map f_id D = ds" unfolding D_def map_map by (rule map_idI) (simp add: found)
  have sD: "set D = set ?G"
  proof
    show "set D \<subseteq> set ?G"
    proof
      fix x assume "x \<in> set D"
      then obtain fid where "fid \<in> set ds" "x = ?lookup fid" by (auto simp: D_def)
      with found show "x \<in> set ?G" by blast
    qed
    show "set ?G \<subseteq> set D"
    proof
      fix g assume g: "g \<in> set ?G"
      then have "f_id g \<in> set ds" using eq by auto
      moreover have "?lookup (f_id g) = g" using g find_unique_key [OF ids, of g] by simp
      ultimately have "g \<in> ?lookup ` set ds" by (metis imageI)
      then show "g \<in> set D" by (simp add: D_def)
    qed
  qed
  have "map f_order D = map ko ds"
    unfolding D_def map_map by (rule map_cong) (simp_all add: found)
  with ord have sorted_D: "sorted_wrt (<) (map f_order D)" by simp
  then have "distinct (map f_order D)" by (simp only: strict_sorted_iff)
  then have "inj_on f_order (set ?G)" by (simp only: distinct_map sD)
  moreover have "distinct ?G" using ids by (simp add: distinct_map)
  ultimately have "distinct (map f_order (sort_key f_order ?G))" by (simp add: distinct_map)
  then have "sorted_wrt (<) (map f_order (sort_key f_order ?G))"
    by (simp only: strict_sorted_iff sorted_sort_key simp_thms)
  from sorted_key_unique [OF this sorted_D] sD have "sort_key f_order ?G = D" by simp
  with mD show ?thesis by simp
qed

text \<open>C28: for a well-formed schema, the form shows, in this order, exactly the ids of
  the current group's list of fields whose field is visible: the render (which filters
  and sorts the schema's fields by \<open>group\<close> and \<open>order\<close>) agrees with the group's
  declared \<open>fields\<close> list.\<close>

theorem render_fields_declared:
  assumes "wf_config cfg" "snd (render cfg st) = Inr v" "\<not> showIframe st"
  shows "map fv_id (view_fields v) = declared_visible cfg (c_groups cfg ! nat (currentGroup st)) (formData st)"
proof -
  let ?g = "c_groups cfg ! nat (currentGroup st)"
  let ?gf = "group_fields cfg (g_id ?g)"
  have "nat (currentGroup st) < length (c_groups cfg)"
    using render_Inr_in_range [OF assms(2)] by (simp add: group_in_range_def nat_less_iff)
  then have "?g \<in> set (c_groups cfg)" by simp
  with assms(1) have "distinct (g_fields ?g)"
      "set (g_fields ?g) = f_id ` set (filter (\<lambda>f. f_group f = Some (g_id ?g)) (c_fields cfg))"
      "sorted_wrt (<) (map (field_order cfg) (g_fields ?g))"
    by (auto simp: wf_config_def list_all_iff)
  moreover have "distinct (map f_id (c_fields cfg))" using assms(1) by (simp add: wf_config_def field_ids_def)
  ultimately have gf: "g_fields ?g = map f_id ?gf"
    unfolding group_fields_def
    by (intro declared_sort_key [symmetric, where ko = "field_order cfg"])
       (simp_all add: field_order_def find_field_def)
  have d: "distinct (field_ids cfg)" using assms(1) by (simp add: wf_config_def)
  have "declared_visible cfg ?g (formData st) =
        map f_id (filter (\<lambda>f. case find_field cfg (f_id f) of Some f' \<Rightarrow> isFieldVisible f' (formData st)
                                                          | None \<Rightarrow> False) ?gf)"
    by (simp add: declared_visible_def gf filter_map comp_def)
  also have "\<dots> = map f_id (filter (\<lambda>f. isFieldVisible f (formData st)) ?gf)"
    using group_fields_find [OF d] by (metis (no_types, lifting) filter_cong option.simps(5))
  finally have "declared_visible cfg ?g (formData st) = map f_id (filter (\<lambda>f. isFieldVisible f (formData st)) ?gf)" .
  moreover have "view_fields v = map (field_view_of st) (filter (\<lambda>f. isFieldVisible f (formData st)) ?gf)"
    using assms(2,3) by (auto simp: render_def Let_def view_fields_def split: if_splits)
  ultimately show ?thesis by (simp add: field_view_of_def comp_def)
qed


lemma render_iframe_fields: "snd (render cfg st) = Inr v \<Longrightarrow> showIframe st \<Longrightarrow> view_fields v = []"
  by (auto simp: render_def Let_def view_fields_def jotform_frame_def split: if_splits)

lemma rendered_field:
  assumes "snd (render cfg st) = Inr v" "fv \<in> set (view_fields v)" "distinct (field_ids cfg)"
  shows "\<exists>f. find_field cfg (fv_id fv) = Some f \<and> isFieldVisible f (formData st) \<and> fv = field_view_of st f"
proof -
  have "\<not> showIframe st" using assms(1,2) render_iframe_fields by fastforce
  with assms(1,2) obtain f where "f \<in> set (group_fields cfg (g_id (c_groups cfg ! nat (currentGroup st))))"
      "isFieldVisible f (formData st)" "fv = field_view_of st f"
    by (auto simp: render_form_fields)
  with assms(3) show ?thesis by (auto simp: field_view_of_def group_fields_find)
qed

text \<open>C29: after a change of field \<open>fid\<close> to \<open>x\<close>, the render that follows shows, if the
  field is on screen, the control of that field holding \<open>x\<close> and the validator's message
  for \<open>x\<close> (none when it is empty): the value and its error slot are updated together
  before the next view (spec 4.4).\<close>

theorem change_then_render:
  assumes "distinct (field_ids cfg)" "find_field cfg fid = Some f" "validateField f (Some x) = Inr e"
    and "snd (render cfg (handle_event cfg (EvChange fid x) st)) = Inr v"
    and "fv \<in> set (view_fields v)" "fv_id fv = fid"
  shows "fv_widget fv = widget_of f (Some x) \<and> fv_error fv = shown_text (Some (error_slot e))"
proof -
  let ?st' = "handle_event cfg (EvChange fid x) st"
  obtain g where "find_field cfg fid = Some g" "fv = field_view_of ?st' g"
    using rendered_field [OF assms(4,5,1)] assms(6) by auto
  with assms(2) have fv: "fv = field_view_of ?st' f" by simp
  have "f_id f = fid" using assms(2) find_field_Some by blast
  with fv assms(2,3) show ?thesis
    by (simp add: field_view_of_def handle_event_def handleInputChange_final)
qed

end
