(* ===== verification/Session_Props.thy ===== *)
theory Session_Props
  imports Quote_Form
begin

text \<open>
  Further properties of the session, the reachable states of \<open>QuoteForm\<close> under the
  events its views offer: the navigation is never gated by validation (spec 4.5), and
  the error map, like the value map, is keyed by the schema's field ids.
\<close>

section \<open>Navigation is not gated\<close>

lemma reachable_group_nonneg: "reachable cfg st \<Longrightarrow> 0 \<le> currentGroup st"
proof (induction rule: reachable.induct)
  case reach_mount
  then show ?case by (simp add: mount_state init_state_def)
next
  case (reach_step st ev)
  then show ?case
    by (cases ev) (simp_all add: sys_step_state handle_event_group handleNextGroup_def handlePrevGroup_def)
qed

text \<open>C31: in every reachable state showing the form before the last group, Next is
  offered and moves to the following group, whatever the values and their errors; the
  values and the error messages are left as they are (spec 4.5: validation is deferred
  to the submission).\<close>

theorem next_not_gated:
  assumes "reachable cfg st" "\<not> showIframe st" "currentGroup st < int (length (c_groups cfg)) - 1"
  shows "ui_enabled cfg st EvNext \<and> currentGroup (sys_step cfg EvNext st) = currentGroup st + 1 \<and>
         formData (sys_step cfg EvNext st) = formData st \<and> formErrors (sys_step cfg EvNext st) = formErrors st"
proof -
  have "0 \<le> currentGroup st" using assms(1) by (rule reachable_group_nonneg)
  then have "group_in_range cfg (currentGroup st)" using assms(3) by (simp add: group_in_range_def)
  with assms(2,3) show ?thesis
    by (simp add: ui_enabled_def render_def Let_def sys_step_state handle_event_def handleNextGroup_def)
qed

section \<open>The error map is keyed by field ids\<close>

lemma handle_event_errors_dom:
  "dom (formErrors (handle_event cfg ev st)) \<subseteq> dom (formErrors st) \<union> set (field_ids cfg)"
proof (cases ev)
  case (EvChange fid x)
  then show ?thesis
    by (auto simp: handle_event_def handleInputChange_final find_field_None [symmetric]
             split: option.splits sum.splits)
next
  case EvSubmit
  have "fst ` set es \<subseteq> set (field_ids cfg)" if "collect_errors (c_fields cfg) (formData st) = Inr es" for es
    using collect_errors_keys [OF that] by (simp add: field_ids_def)
  with EvSubmit show ?thesis
    by (auto simp: handle_event_def handleSubmit_final obj_of_pairs_map_of dom_map_of_conv_image_fst
             split: sum.splits)
qed (auto simp: handle_event_def handleNextGroup_def handlePrevGroup_def dispatch_message_eq completed_def
                handleIframeLoad_def)

text \<open>C32: in every reachable state, every key of the error messages is the id of a
  field of the schema.\<close>

theorem reachable_error_keys: "reachable cfg st \<Longrightarrow> dom (formErrors st) \<subseteq> set (field_ids cfg)"
proof (induction rule: reachable.induct)
  case reach_mount
  then show ?case by (simp add: mount_state init_state_def)
next
  case (reach_step st ev)
  have "dom (formErrors (sys_step cfg ev st)) = dom (formErrors (handle_event cfg ev st))"
    by (simp add: sys_step_state)
  with reach_step.IH handle_event_errors_dom [of cfg ev st] show ?case by blast
qed

end
