(* ===== verification/Regex_Props.thy ===== *)
theory Regex_Props
  imports Regex
begin

text \<open>
  The meaning of the constructions the pattern parser builds for the quantifiers
  (\<open>rx_pow\<close>, \<open>rx_opts\<close>, \<open>rx_repeat\<close>, \<open>RStar\<close>), against the reference notion of
  \<open>n\<close> consecutive matches of one atom; the single-character atoms read over a slice
  of the input; and the anchors. These are the facts that characterise a concrete pattern
  from its compiled tree, and the fuel bound of the star closure of the matcher.
\<close>

section \<open>Counted iteration\<close>

text \<open>\<open>rx_iter s r n i j\<close>: \<open>n\<close> consecutive matches of \<open>r\<close> lead from \<open>i\<close> to \<open>j\<close>.\<close>

fun rx_iter :: "string \<Rightarrow> rx \<Rightarrow> nat \<Rightarrow> nat \<Rightarrow> nat \<Rightarrow> bool" where
  "rx_iter s r 0 i j \<longleftrightarrow> i = j \<and> i \<le> length s"
| "rx_iter s r (Suc n) i j \<longleftrightarrow> (\<exists>k. rx_match s r i k \<and> rx_iter s r n k j)"

lemma rx_iter_bounds: "rx_iter s r n i j \<Longrightarrow> i \<le> j \<and> j \<le> length s"
proof (induction n arbitrary: i)
  case (Suc n)
  then obtain k where "rx_match s r i k" "rx_iter s r n k j" by auto
  with Suc.IH show ?case by (meson le_trans rx_match_bounds)
qed simp

lemma rx_iter_add:
  "rx_iter s r (a + b) i j \<longleftrightarrow> (\<exists>k. rx_iter s r a i k \<and> rx_iter s r b k j)"
proof (induction a arbitrary: i)
  case 0
  then show ?case by (auto dest: rx_iter_bounds)
next
  case (Suc a)
  then show ?case by auto
qed

lemma rx_match_pow: "rx_match s (rx_pow r n) i j \<longleftrightarrow> rx_iter s r n i j"
  by (induction n arbitrary: i) (auto intro: m_empty m_seq)

lemma rx_match_opts: "rx_match s (rx_opts r n) i j \<longleftrightarrow> (\<exists>l\<le>n. rx_iter s r l i j)"
proof (induction n arbitrary: i)
  case 0
  then show ?case by (auto intro: m_empty)
next
  case (Suc n)
  have "rx_match s (rx_opts r (Suc n)) i j \<longleftrightarrow>
        (\<exists>k. rx_match s r i k \<and> (\<exists>l\<le>n. rx_iter s r l k j)) \<or> (i = j \<and> i \<le> length s)"
    using Suc.IH by (auto intro: m_seq m_alt1 m_alt2 m_empty)
  also have "\<dots> \<longleftrightarrow> (\<exists>l\<le>Suc n. rx_iter s r l i j)"
  proof
    assume "\<exists>l\<le>Suc n. rx_iter s r l i j"
    then obtain l where "l \<le> Suc n" "rx_iter s r l i j" by blast
    then show "(\<exists>k. rx_match s r i k \<and> (\<exists>l\<le>n. rx_iter s r l k j)) \<or> (i = j \<and> i \<le> length s)"
      by (cases l) auto
  next
    assume "(\<exists>k. rx_match s r i k \<and> (\<exists>l\<le>n. rx_iter s r l k j)) \<or> (i = j \<and> i \<le> length s)"
    then show "\<exists>l\<le>Suc n. rx_iter s r l i j"
    proof
      assume "\<exists>k. rx_match s r i k \<and> (\<exists>l\<le>n. rx_iter s r l k j)"
      then obtain k l where "rx_match s r i k" "l \<le> n" "rx_iter s r l k j" by blast
      then show ?thesis by (intro exI [of _ "Suc l"]) auto
    next
      assume "i = j \<and> i \<le> length s"
      then show ?thesis by (intro exI [of _ 0]) auto
    qed
  qed
  finally show ?case .
qed

lemma rx_match_star_iter: "rx_match s (RStar r) i j \<longleftrightarrow> (\<exists>n. rx_iter s r n i j)"
proof
  assume "rx_match s (RStar r) i j"
  then show "\<exists>n. rx_iter s r n i j"
  proof (induction "RStar r" i j rule: rx_match.induct)
    case (m_star0 i)
    then show ?case by (auto intro: exI [of _ 0])
  next
    case (m_star i k j)
    then obtain n where "rx_iter s r n k j" by blast
    with m_star.hyps(1) have "rx_iter s r (Suc n) i j" by auto
    then show ?case by blast
  qed
next
  assume "\<exists>n. rx_iter s r n i j"
  then obtain n where "rx_iter s r n i j" by blast
  then show "rx_match s (RStar r) i j"
    by (induction n arbitrary: i) (auto intro: m_star0 m_star)
qed


lemma rx_match_seq_iff: "rx_match s (RSeq r1 r2) i j \<longleftrightarrow> (\<exists>k. rx_match s r1 i k \<and> rx_match s r2 k j)"
  by (auto intro: m_seq)

text \<open>the tree the parser builds for \<open>r{m,}\<close> matches exactly \<open>m\<close> or more
  consecutive matches of \<open>r\<close>, and the tree for \<open>r{m,k}\<close> (with \<open>m \<le> k\<close>, which the
  lexer checks) between \<open>m\<close> and \<open>k\<close> of them.\<close>

theorem rx_repeat_sem:
  assumes "case n of None \<Rightarrow> True | Some k \<Rightarrow> m \<le> k"
  shows "rx_match s (rx_repeat r m n) i j \<longleftrightarrow>
         (\<exists>c. m \<le> c \<and> (case n of None \<Rightarrow> True | Some k \<Rightarrow> c \<le> k) \<and> rx_iter s r c i j)"
proof (cases n)
  case None
  have "rx_match s (rx_repeat r m n) i j \<longleftrightarrow> (\<exists>k d. rx_iter s r m i k \<and> rx_iter s r d k j)"
    using None by (auto simp: rx_repeat_def rx_match_seq_iff rx_match_pow rx_match_star_iter)
  also have "\<dots> \<longleftrightarrow> (\<exists>c. m \<le> c \<and> rx_iter s r c i j)"
    by (metis le_add1 le_add_diff_inverse rx_iter_add)
  finally show ?thesis using None by simp
next
  case (Some k)
  have "rx_match s (rx_repeat r m n) i j \<longleftrightarrow> (\<exists>x d. d \<le> k - m \<and> rx_iter s r m i x \<and> rx_iter s r d x j)"
    using Some by (auto simp: rx_repeat_def rx_match_seq_iff rx_match_pow rx_match_opts)
  also have "\<dots> \<longleftrightarrow> (\<exists>c. m \<le> c \<and> c \<le> k \<and> rx_iter s r c i j)"
  proof
    assume "\<exists>c. m \<le> c \<and> c \<le> k \<and> rx_iter s r c i j"
    then obtain c where "m \<le> c" "c \<le> k" "rx_iter s r (m + (c - m)) i j" by auto
    then obtain x where "rx_iter s r m i x" "rx_iter s r (c - m) x j" by (auto simp only: rx_iter_add)
    with \<open>c \<le> k\<close> show "\<exists>x d. d \<le> k - m \<and> rx_iter s r m i x \<and> rx_iter s r d x j"
      using diff_le_mono by blast
  next
    assume "\<exists>x d. d \<le> k - m \<and> rx_iter s r m i x \<and> rx_iter s r d x j"
    then obtain x d where d: "d \<le> k - m" and "rx_iter s r m i x" "rx_iter s r d x j" by blast
    then have "rx_iter s r (m + d) i j" by (auto simp only: rx_iter_add)
    moreover have "m + d \<le> k" using d assms Some by simp
    ultimately show "\<exists>c. m \<le> c \<and> c \<le> k \<and> rx_iter s r c i j" by (intro exI [of _ "m + d"]) simp
  qed
  finally show ?thesis using Some by simp
qed

section \<open>Single-character atoms\<close>

text \<open>An atom that consumes one character satisfying \<open>P\<close>: \<open>n\<close> matches of it read the
  next \<open>n\<close> characters, all of which satisfy \<open>P\<close>.\<close>

lemma rx_iter_char_atom:
  assumes "\<And>i k. rx_match s r i k \<longleftrightarrow> i < length s \<and> k = Suc i \<and> P (s ! i)"
  shows "rx_iter s r n i j \<longleftrightarrow> j = i + n \<and> j \<le> length s \<and> list_all P (take n (drop i s))"
proof (induction n arbitrary: i)
  case (Suc n)
  show ?case
  proof (cases "i < length s")
    case True
    then have "drop i s = s ! i # drop (Suc i) s" by (rule Cons_nth_drop_Suc [symmetric])
    then have "take (Suc n) (drop i s) = s ! i # take n (drop (Suc i) s)" by simp
    with True Suc.IH show ?thesis by (auto simp: assms)
  qed (auto simp: assms)
qed auto

lemma rx_match_set_iff:
  "rx_match s (RSet neg items) i k \<longleftrightarrow> i < length s \<and> k = Suc i \<and> rset_has neg items (s ! i)"
  by (auto intro: m_set)

lemma rx_match_char_iff: "rx_match s (RChar c) i k \<longleftrightarrow> i < length s \<and> k = Suc i \<and> s ! i = c"
  by (auto intro: m_char)

lemmas rx_iter_set = rx_iter_char_atom [OF rx_match_set_iff]
lemmas rx_iter_char = rx_iter_char_atom [OF rx_match_char_iff]

section \<open>Sequences and anchors\<close>

lemma rx_match_empty_iff: "rx_match s REmpty i j \<longleftrightarrow> i = j \<and> i \<le> length s"
  by (auto intro: m_empty)

lemma rx_match_bol_iff: "rx_match s RBol i j \<longleftrightarrow> i = 0 \<and> j = 0"
  by (auto intro: m_bol)

lemma rx_match_eol_iff: "rx_match s REol i j \<longleftrightarrow> i = length s \<and> j = i"
  by (auto intro: m_eol)

lemmas rx_match_iffs =
  rx_match_seq_iff rx_match_empty_iff rx_match_bol_iff rx_match_eol_iff rx_match_set_iff rx_match_char_iff

text \<open>A pattern anchored at both ends is found by \<open>test\<close> exactly when it matches the
  whole string.\<close>

lemma rx_search_anchored:
  "rx_search (RSeq RBol (RSeq r (RSeq REol REmpty))) s \<longleftrightarrow> rx_match s r 0 (length s)"
  by (auto simp: rx_search_def rx_match_iffs dest: rx_match_bounds)

section \<open>The fuel of the star closure\<close>

text \<open>the star loop of the matcher has reached its fixed point within the fuel it is
  given, the distance \<open>length s - i\<close> to the end of the input: any larger fuel computes
  the same set of end positions, so the bound cuts no match off.\<close>

theorem star_fuel_enough:
  assumes "i \<le> length s" "length s - i \<le> n"
  shows "set (star_from n (rx_ends s r) i) = set (rx_ends s (RStar r) i)"
proof -
  have bound: "\<And>x z. z \<in> set (rx_ends s r x) \<Longrightarrow> z \<le> length s"
    using rx_ends_sem rx_match_bounds by blast
  have f: "{(x, z). z \<in> set (rx_ends s r x) \<and> x < z} = rx_step s r"
    by (auto simp: rx_step_def rx_ends_sem)
  have le: "length s \<le> i + n" using assms by simp
  have "k \<in> set (star_from n (rx_ends s r) i) \<longleftrightarrow> (i, k) \<in> (rx_step s r)\<^sup>*" for k
  proof
    assume "k \<in> set (star_from n (rx_ends s r) i)"
    from star_from_sound [OF this] show "(i, k) \<in> (rx_step s r)\<^sup>*" unfolding f .
  next
    assume "(i, k) \<in> (rx_step s r)\<^sup>*"
    then have "(i, k) \<in> {(x, z). z \<in> set (rx_ends s r x) \<and> x < z}\<^sup>*" unfolding f .
    from star_from_complete [OF this bound le] show "k \<in> set (star_from n (rx_ends s r) i)" .
  qed
  moreover have "k \<in> set (rx_ends s (RStar r) i) \<longleftrightarrow> (i, k) \<in> (rx_step s r)\<^sup>*" for k
    using assms(1) by (simp only: rx_ends_sem rx_match_star_iff) simp
  ultimately show ?thesis by blast
qed

end
