(* ===== verification/Quote_Config.thy ===== *)
theory Quote_Config
  imports Form_Schema Regex
begin

text \<open>
  The configuration \<open>quoteFormConfig\<close> of \<open>src/src/config/formConfig.ts\<close> (lines 46-199):
  three groups and ten fields, transcribed property by property. The two patterns are
  the JavaScript string literals \<open>'^[^@]+@[^@]+\\.[^@]+$'\<close> and
  \<open>'^\\+?[1-9]\\d{1,14}$'\<close>, whose \<open>\\\\\<close> is one backslash in the string.
\<close>

section \<open>Groups\<close>

definition grp_product :: form_group where
  "grp_product =
     \<lparr>g_id = ''product-details'', g_title = ''Product Information'',
      g_description = Some ''Tell us about the product you're interested in.'',
      g_fields = [''productType'', ''quantity'', ''customRequirements'']\<rparr>"

definition grp_contact :: form_group where
  "grp_contact =
     \<lparr>g_id = ''contact-info'', g_title = ''Contact Information'',
      g_description = Some ''How can we reach you?'',
      g_fields = [''name'', ''email'', ''phone'', ''company'']\<rparr>"

definition grp_additional :: form_group where
  "grp_additional =
     \<lparr>g_id = ''additional-details'', g_title = ''Additional Information'',
      g_description = Some ''Any other details you'd like to share?'',
      g_fields = [''preferredContact'', ''urgency'', ''notes'']\<rparr>"

section \<open>Fields\<close>

definition no_validation :: validation where
  "no_validation = \<lparr>v_min = None, v_max = None, v_pattern = None, v_custom = None\<rparr>"

definition email_pattern :: string where
  "email_pattern = ''^[^@]+@[^@]+'' @ [backslash] @ ''.[^@]+$''"

definition phone_pattern :: string where
  "phone_pattern = ''^'' @ [backslash] @ ''+?[1-9]'' @ [backslash] @ ''d{1,14}$''"

definition fld_productType :: form_field where
  "fld_productType =
     \<lparr>f_id = ''productType'', f_label = ''Product Type'', f_type = FSelect, f_required = True,
      f_placeholder = Some ''Select a product type'',
      f_helpText = Some ''Choose the type of product you're interested in'',
      f_options = Some [\<lparr>opt_label = ''Type A - Standard'', opt_value = ''Type A''\<rparr>,
                        \<lparr>opt_label = ''Type B - Premium'', opt_value = ''Type B''\<rparr>,
                        \<lparr>opt_label = ''Type C - Custom'', opt_value = ''Type C''\<rparr>],
      f_validation = None, f_dependsOn = None, f_group = Some ''product-details'', f_order = 1\<rparr>"

definition fld_quantity :: form_field where
  "fld_quantity =
     \<lparr>f_id = ''quantity'', f_label = ''Quantity'', f_type = FNumber, f_required = True,
      f_placeholder = Some ''Enter quantity'', f_helpText = None, f_options = None,
      f_validation = Some (no_validation\<lparr>v_min := Some 1, v_max := Some 1000\<rparr>),
      f_dependsOn = Some \<lparr>dep_field = ''productType'', dep_value = JNull, dep_op = Some OpNotEquals\<rparr>,
      f_group = Some ''product-details'', f_order = 2\<rparr>"

definition fld_customRequirements :: form_field where
  "fld_customRequirements =
     \<lparr>f_id = ''customRequirements'', f_label = ''Custom Requirements'', f_type = FTextarea,
      f_required = False, f_placeholder = Some ''Describe your custom requirements'',
      f_helpText = Some ''Please provide any specific requirements or modifications needed'',
      f_options = None, f_validation = None,
      f_dependsOn = Some \<lparr>dep_field = ''productType'', dep_value = JStr ''Type C'', dep_op = Some OpEquals\<rparr>,
      f_group = Some ''product-details'', f_order = 3\<rparr>"

definition fld_name :: form_field where
  "fld_name =
     \<lparr>f_id = ''name'', f_label = ''Full Name'', f_type = FText, f_required = True,
      f_placeholder = Some ''Enter your full name'', f_helpText = None, f_options = None,
      f_validation = None, f_dependsOn = None, f_group = Some ''contact-info'', f_order = 4\<rparr>"

definition fld_email :: form_field where
  "fld_email =
     \<lparr>f_id = ''email'', f_label = ''Email Address'', f_type = FEmail, f_required = True,
      f_placeholder = Some ''Enter your email address'', f_helpText = None, f_options = None,
      f_validation = Some (no_validation\<lparr>v_pattern := Some email_pattern\<rparr>),
      f_dependsOn = None, f_group = Some ''contact-info'', f_order = 5\<rparr>"

definition fld_phone :: form_field where
  "fld_phone =
     \<lparr>f_id = ''phone'', f_label = ''Phone Number'', f_type = FTel, f_required = False,
      f_placeholder = Some ''Enter your phone number'', f_helpText = None, f_options = None,
      f_validation = Some (no_validation\<lparr>v_pattern := Some phone_pattern\<rparr>),
      f_dependsOn = None, f_group = Some ''contact-info'', f_order = 6\<rparr>"

definition fld_company :: form_field where
  "fld_company =
     \<lparr>f_id = ''company'', f_label = ''Company Name'', f_type = FText, f_required = False,
      f_placeholder = Some ''Enter your company name'', f_helpText = None, f_options = None,
      f_validation = None, f_dependsOn = None, f_group = Some ''contact-info'', f_order = 7\<rparr>"

definition fld_preferredContact :: form_field where
  "fld_preferredContact =
     \<lparr>f_id = ''preferredContact'', f_label = ''Preferred Contact Method'', f_type = FRadio,
      f_required = True, f_placeholder = None, f_helpText = None,
      f_options = Some [\<lparr>opt_label = ''Email'', opt_value = ''email''\<rparr>,
                        \<lparr>opt_label = ''Phone'', opt_value = ''phone''\<rparr>],
      f_validation = None, f_dependsOn = None, f_group = Some ''additional-details'', f_order = 8\<rparr>"

definition fld_urgency :: form_field where
  "fld_urgency =
     \<lparr>f_id = ''urgency'', f_label = ''Urgency Level'', f_type = FSelect, f_required = False,
      f_placeholder = None, f_helpText = None,
      f_options = Some [\<lparr>opt_label = ''Not Urgent'', opt_value = ''low''\<rparr>,
                        \<lparr>opt_label = ''Moderate'', opt_value = ''medium''\<rparr>,
                        \<lparr>opt_label = ''Urgent'', opt_value = ''high''\<rparr>],
      f_validation = None, f_dependsOn = None, f_group = Some ''additional-details'', f_order = 9\<rparr>"

definition fld_notes :: form_field where
  "fld_notes =
     \<lparr>f_id = ''notes'', f_label = ''Additional Notes'', f_type = FTextarea, f_required = False,
      f_placeholder = Some ''Any additional information you'd like to share'', f_helpText = None,
      f_options = None, f_validation = None, f_dependsOn = None,
      f_group = Some ''additional-details'', f_order = 10\<rparr>"

section \<open>The configuration\<close>

definition quoteFormConfig :: form_config where
  "quoteFormConfig =
     \<lparr>c_id = ''quote-request'', c_title = ''Product Quote Request'',
      c_description = Some ''Please fill out the form below to request a quote for our products.'',
      c_groups = [grp_product, grp_contact, grp_additional],
      c_fields = [fld_productType, fld_quantity, fld_customRequirements, fld_name, fld_email,
                  fld_phone, fld_company, fld_preferredContact, fld_urgency, fld_notes],
      c_submitButtonText = Some ''Request Quote'',
      c_successMessage = Some ''Thank you for your quote request! We will contact you shortly.'',
      c_errorMessage = Some ''There was an error submitting your request. Please try again.''\<rparr>"

text \<open>The definitions that evaluate the configuration.\<close>

lemmas quote_config_defs =
  quoteFormConfig_def grp_product_def grp_contact_def grp_additional_def no_validation_def
  fld_productType_def fld_quantity_def fld_customRequirements_def fld_name_def fld_email_def
  fld_phone_def fld_company_def fld_preferredContact_def fld_urgency_def fld_notes_def

end
