(* ===== verification/Quote_Patterns.thy ===== *)
theory Quote_Patterns
  imports Regex_Props Field_Validator Quote_Config
begin

text \<open>
  The languages of the two patterns of \<open>quoteFormConfig\<close> (\<open>formConfig.ts\<close> lines 135
  and 147), as \<open>validateField\<close> uses them through \<open>new RegExp(p).test(value)\<close>: the
  compiled trees, and the exact sets of strings they accept, stated without reference
  to the regular-expression machinery.
\<close>

section \<open>Reference formats\<close>

definition is_digit :: "char \<Rightarrow> bool" where
  "is_digit c \<longleftrightarrow> c \<in> set ''0123456789''"

definition nonzero_digit :: "char \<Rightarrow> bool" where
  "nonzero_digit c \<longleftrightarrow> c \<in> set ''123456789''"

text \<open>A phone number as the pattern \<open>^\+?[1-9]\d{1,14}$\<close> describes it: an optional
  plus sign, a digit other than 0, then between 1 and 14 digits.\<close>

definition phone_format :: "string \<Rightarrow> bool" where
  "phone_format s \<longleftrightarrow>
     (let t = (case s of c # u \<Rightarrow> if c = CHR ''+'' then u else s | [] \<Rightarrow> []) in
      case t of
        [] \<Rightarrow> False
      | d # ds \<Rightarrow> nonzero_digit d \<and> list_all is_digit ds \<and>
                  1 \<le> length ds \<and> length ds \<le> 14)"

text \<open>An address as the pattern \<open>^[^@]+@[^@]+\.[^@]+$\<close> describes it: a non-empty
  part without \<open>@\<close>, one \<open>@\<close>, and a domain without \<open>@\<close> that contains a dot which
  is neither its first nor its last character.\<close>

definition email_format :: "string \<Rightarrow> bool" where
  "email_format s \<longleftrightarrow>
     (case dropWhile (\<lambda>c. c \<noteq> CHR ''@'') s of
        [] \<Rightarrow> False
      | _ # domain \<Rightarrow> takeWhile (\<lambda>c. c \<noteq> CHR ''@'') s \<noteq> [] \<and> list_all (\<lambda>c. c \<noteq> CHR ''@'') domain \<and>
                   list_ex (\<lambda>p. domain ! p = CHR ''.'') [1..<length domain - 1])"

section \<open>Character classes\<close>

lemma char_code_range:
  assumes "a \<le> (of_char c :: nat)" "of_char c \<le> b"
  shows "c \<in> set (map char_of [a..<Suc b])"
proof -
  have "(of_char c :: nat) \<in> set [a..<Suc b]" using assms by auto
  then have "char_of (of_char c :: nat) \<in> char_of ` set [a..<Suc b]" by (rule imageI)
  then show ?thesis by simp
qed

lemma dec_class_iff: "rset_has False [CRange CHR ''0'' CHR ''9''] c \<longleftrightarrow> is_digit c"
  unfolding is_digit_def
proof
  assume "rset_has False [CRange CHR ''0'' CHR ''9''] c"
  then have "c \<in> set (map char_of [48..<Suc 57])"
    by (intro char_code_range) (simp_all add: rset_has_def in_range_def)
  moreover have "map char_of [48..<Suc 57] = ''0123456789''" by code_simp
  ultimately show "c \<in> set ''0123456789''" by simp
qed (auto simp: rset_has_def in_range_def)

lemma nonzero_class_iff: "rset_has False [CRange CHR ''1'' CHR ''9''] c \<longleftrightarrow> nonzero_digit c"
  unfolding nonzero_digit_def
proof
  assume "rset_has False [CRange CHR ''1'' CHR ''9''] c"
  then have "c \<in> set (map char_of [49..<Suc 57])"
    by (intro char_code_range) (simp_all add: rset_has_def in_range_def)
  moreover have "map char_of [49..<Suc 57] = ''123456789''" by code_simp
  ultimately show "c \<in> set ''123456789''" by simp
qed (auto simp: rset_has_def in_range_def)


section \<open>The phone pattern\<close>

abbreviation dec_set :: rx where
  "dec_set \<equiv> RSet False [CRange CHR ''0'' CHR ''9'']"

lemma phone_pattern_tree:
  "rx_compile phone_pattern =
     Inr (RSeq RBol (RSeq (rx_repeat (RChar CHR ''+'') 0 (Some 1))
           (RSeq (RSet False [CRange CHR ''1'' CHR ''9''])
             (RSeq (rx_repeat dec_set 1 (Some 14)) (RSeq REol REmpty)))))"
  by code_simp

lemma phone_sign_iff:
  "rx_match s (rx_repeat (RChar CHR ''+'') 0 (Some 1)) 0 k \<longleftrightarrow>
   k = 0 \<or> (k = 1 \<and> s \<noteq> [] \<and> hd s = CHR ''+'')"
proof -
  have "rx_match s (rx_repeat (RChar CHR ''+'') 0 (Some 1)) 0 k \<longleftrightarrow>
        (\<exists>c\<le>1. k = c \<and> k \<le> length s \<and> list_all (\<lambda>x. x = CHR ''+'') (take c s))"
    by (simp add: rx_repeat_sem rx_iter_char)
  also have "\<dots> \<longleftrightarrow> k = 0 \<or> (k = 1 \<and> s \<noteq> [] \<and> hd s = CHR ''+'')"
    by (cases s) (auto simp: le_Suc_eq Suc_le_eq)
  finally show ?thesis .
qed

lemma phone_digits_iff:
  "rx_match s (rx_repeat dec_set 1 (Some 14)) i j \<longleftrightarrow>
   i < j \<and> j - i \<le> 14 \<and> j \<le> length s \<and> list_all is_digit (take (j - i) (drop i s))"
proof -
  have "rx_match s (rx_repeat dec_set 1 (Some 14)) i j \<longleftrightarrow>
        (\<exists>c. 1 \<le> c \<and> c \<le> 14 \<and> j = i + c \<and> j \<le> length s \<and> list_all is_digit (take c (drop i s)))"
    by (simp add: rx_repeat_sem rx_iter_set dec_class_iff)
  also have "\<dots> \<longleftrightarrow> i < j \<and> j - i \<le> 14 \<and> j \<le> length s \<and> list_all is_digit (take (j - i) (drop i s))"
    by (auto intro!: exI [of _ "j - i"])
  finally show ?thesis .
qed

lemma phone_search_iff:
  "rx_search (RSeq RBol (RSeq (rx_repeat (RChar CHR ''+'') 0 (Some 1))
           (RSeq (RSet False [CRange CHR ''1'' CHR ''9''])
             (RSeq (rx_repeat dec_set 1 (Some 14)) (RSeq REol REmpty))))) s \<longleftrightarrow>
   (\<exists>k. (k = 0 \<or> (k = 1 \<and> s \<noteq> [] \<and> hd s = CHR ''+'')) \<and> k < length s \<and>
        nonzero_digit (s ! k) \<and> Suc k < length s \<and> length s - Suc k \<le> 14 \<and>
        list_all is_digit (drop (Suc k) s))"
  by (simp add: rx_search_def rx_match_iffs phone_sign_iff [simplified] phone_digits_iff [simplified]
                nonzero_class_iff)


lemma plus_not_digit: "\<not> nonzero_digit CHR ''+''"
  by (simp add: nonzero_digit_def)

lemma phone_format_iff:
  "phone_format s \<longleftrightarrow>
   (\<exists>k. (k = 0 \<or> (k = 1 \<and> s \<noteq> [] \<and> hd s = CHR ''+'')) \<and> k < length s \<and>
        nonzero_digit (s ! k) \<and> Suc k < length s \<and> length s - Suc k \<le> 14 \<and>
        list_all is_digit (drop (Suc k) s))"
proof (cases s)
  case Nil
  then show ?thesis by (simp add: phone_format_def)
next
  case (Cons x u)
  show ?thesis
  proof (cases "x = CHR ''+''")
    case True
    have "phone_format s \<longleftrightarrow> u \<noteq> [] \<and> nonzero_digit (hd u) \<and> tl u \<noteq> [] \<and> length (tl u) \<le> 14 \<and>
                              list_all is_digit (tl u)"
      using Cons True by (cases u) (auto simp: phone_format_def Suc_le_eq)
    also have "\<dots> \<longleftrightarrow> (\<exists>k. (k = 0 \<or> (k = 1 \<and> s \<noteq> [] \<and> hd s = CHR ''+'')) \<and> k < length s \<and>
        nonzero_digit (s ! k) \<and> Suc k < length s \<and> length s - Suc k \<le> 14 \<and> list_all is_digit (drop (Suc k) s))"
      using Cons True plus_not_digit by (cases u) (auto simp: drop_Suc)
    finally show ?thesis .
  next
    case False
    have "phone_format s \<longleftrightarrow> nonzero_digit x \<and> u \<noteq> [] \<and> length u \<le> 14 \<and> list_all is_digit u"
      using Cons False by (auto simp: phone_format_def Suc_le_eq)
    also have "\<dots> \<longleftrightarrow> (\<exists>k. (k = 0 \<or> (k = 1 \<and> s \<noteq> [] \<and> hd s = CHR ''+'')) \<and> k < length s \<and>
        nonzero_digit (s ! k) \<and> Suc k < length s \<and> length s - Suc k \<le> 14 \<and> list_all is_digit (drop (Suc k) s))"
      using Cons False by auto
    finally show ?thesis .
  qed
qed

text \<open>The phone pattern accepts exactly the phone format.\<close>

lemma phone_pattern_test: "regexp_test phone_pattern s = Inr (phone_format s)"
  by (simp add: regexp_test_def phone_pattern_tree rx_test_search phone_search_iff [simplified]
                phone_format_iff)


section \<open>The email pattern\<close>

abbreviation not_at :: rx where
  "not_at \<equiv> RSet True [CRange CHR ''@'' CHR ''@'']"

lemma email_pattern_tree:
  "rx_compile email_pattern =
     Inr (RSeq RBol (RSeq (rx_repeat not_at 1 None) (RSeq (RChar CHR ''@'')
           (RSeq (rx_repeat not_at 1 None) (RSeq (RChar CHR ''.'')
             (RSeq (rx_repeat not_at 1 None) (RSeq REol REmpty)))))))"
  by code_simp

lemma not_at_class_iff: "rset_has True [CRange CHR ''@'' CHR ''@''] c \<longleftrightarrow> c \<noteq> CHR ''@''"
proof -
  have "in_range c (CHR ''@'', CHR ''@'') \<longleftrightarrow> (of_char c :: nat) = of_char CHR ''@''"
    unfolding in_range_def fst_conv snd_conv by auto
  then have "in_range c (CHR ''@'', CHR ''@'') \<longleftrightarrow> c = CHR ''@''" by (simp only: of_char_eq_iff)
  then show ?thesis by (simp add: rset_has_def)
qed

lemma not_at_run_iff:
  "rx_match s (rx_repeat not_at 1 None) i j \<longleftrightarrow>
   i < j \<and> j \<le> length s \<and> list_all (\<lambda>c. c \<noteq> CHR ''@'') (take (j - i) (drop i s))"
proof -
  have "rx_match s (rx_repeat not_at 1 None) i j \<longleftrightarrow>
        (\<exists>c. 1 \<le> c \<and> j = i + c \<and> j \<le> length s \<and> list_all (\<lambda>c. c \<noteq> CHR ''@'') (take c (drop i s)))"
    by (simp add: rx_repeat_sem rx_iter_set not_at_class_iff)
  also have "\<dots> \<longleftrightarrow> i < j \<and> j \<le> length s \<and> list_all (\<lambda>c. c \<noteq> CHR ''@'') (take (j - i) (drop i s))"
    by (auto intro!: exI [of _ "j - i"])
  finally show ?thesis .
qed

lemma email_search_iff:
  "rx_search (RSeq RBol (RSeq (rx_repeat not_at 1 None) (RSeq (RChar CHR ''@'')
           (RSeq (rx_repeat not_at 1 None) (RSeq (RChar CHR ''.'')
             (RSeq (rx_repeat not_at 1 None) (RSeq REol REmpty))))))) s \<longleftrightarrow>
   (\<exists>k. 0 < k \<and> k < length s \<and> list_all (\<lambda>c. c \<noteq> CHR ''@'') (take k s) \<and> s ! k = CHR ''@'' \<and>
        (\<exists>l>Suc k. Suc l < length s \<and> list_all (\<lambda>c. c \<noteq> CHR ''@'') (take (l - Suc k) (drop (Suc k) s)) \<and>
                  s ! l = CHR ''.'' \<and> list_all (\<lambda>c. c \<noteq> CHR ''@'') (drop (Suc l) s)))"
proof -
  have "rx_search (RSeq RBol (RSeq (rx_repeat not_at 1 None) (RSeq (RChar CHR ''@'')
           (RSeq (rx_repeat not_at 1 None) (RSeq (RChar CHR ''.'')
             (RSeq (rx_repeat not_at 1 None) (RSeq REol REmpty))))))) s \<longleftrightarrow>
        (\<exists>j k. 0 < k \<and> k \<le> length s \<and> list_all (\<lambda>c. c \<noteq> CHR ''@'') (take k s) \<and> k < length s \<and>
            s ! k = CHR ''@'' \<and>
            (\<exists>l>Suc k. l \<le> length s \<and> list_all (\<lambda>c. c \<noteq> CHR ''@'') (take (l - Suc k) (drop (Suc k) s)) \<and>
               l < length s \<and> s ! l = CHR ''.'' \<and> Suc l < length s \<and>
               list_all (\<lambda>c. c \<noteq> CHR ''@'') (drop (Suc l) s) \<and> length s = j))"
    by (simp add: rx_search_def rx_match_iffs not_at_run_iff [simplified])
  also have "\<dots> \<longleftrightarrow>
     (\<exists>k. 0 < k \<and> k < length s \<and> list_all (\<lambda>c. c \<noteq> CHR ''@'') (take k s) \<and> s ! k = CHR ''@'' \<and>
        (\<exists>l>Suc k. Suc l < length s \<and> list_all (\<lambda>c. c \<noteq> CHR ''@'') (take (l - Suc k) (drop (Suc k) s)) \<and>
                  s ! l = CHR ''.'' \<and> list_all (\<lambda>c. c \<noteq> CHR ''@'') (drop (Suc l) s)))"
  proof (rule iffI)
    assume "\<exists>k. 0 < k \<and> k < length s \<and> list_all (\<lambda>c. c \<noteq> CHR ''@'') (take k s) \<and> s ! k = CHR ''@'' \<and>
        (\<exists>l>Suc k. Suc l < length s \<and> list_all (\<lambda>c. c \<noteq> CHR ''@'') (take (l - Suc k) (drop (Suc k) s)) \<and>
                  s ! l = CHR ''.'' \<and> list_all (\<lambda>c. c \<noteq> CHR ''@'') (drop (Suc l) s))"
    then obtain k l where "0 < k" "k < length s" "list_all (\<lambda>c. c \<noteq> CHR ''@'') (take k s)" "s ! k = CHR ''@''"
      "Suc k < l" "Suc l < length s" "list_all (\<lambda>c. c \<noteq> CHR ''@'') (take (l - Suc k) (drop (Suc k) s))"
      "s ! l = CHR ''.''" "list_all (\<lambda>c. c \<noteq> CHR ''@'') (drop (Suc l) s)" by blast
    then show "\<exists>j k. 0 < k \<and> k \<le> length s \<and> list_all (\<lambda>c. c \<noteq> CHR ''@'') (take k s) \<and> k < length s \<and>
            s ! k = CHR ''@'' \<and>
            (\<exists>l>Suc k. l \<le> length s \<and> list_all (\<lambda>c. c \<noteq> CHR ''@'') (take (l - Suc k) (drop (Suc k) s)) \<and>
               l < length s \<and> s ! l = CHR ''.'' \<and> Suc l < length s \<and>
               list_all (\<lambda>c. c \<noteq> CHR ''@'') (drop (Suc l) s) \<and> length s = j)"
      by (intro exI [of _ "length s"] exI [of _ k] conjI exI [of _ l]) simp_all
  qed blast
  finally show ?thesis .
qed


lemma list_all_not_eq: "list_all (\<lambda>c. c \<noteq> x) xs \<longleftrightarrow> x \<notin> set xs"
  by (induction xs) auto

text \<open>Both descriptions of an address amount to one decomposition of the string.\<close>

abbreviation email_split :: "string \<Rightarrow> bool" where
  "email_split s \<equiv> (\<exists>a d p. s = a @ CHR ''@'' # d \<and> a \<noteq> [] \<and> CHR ''@'' \<notin> set a \<and> CHR ''@'' \<notin> set d \<and>
                        0 < p \<and> Suc p < length d \<and> d ! p = CHR ''.'')"

lemma email_format_split: "email_format s \<longleftrightarrow> email_split s"
proof
  assume f: "email_format s"
  then obtain c d where r: "dropWhile (\<lambda>c. c \<noteq> CHR ''@'') s = c # d"
    by (auto simp: email_format_def split: list.splits)
  then have s: "s = takeWhile (\<lambda>c. c \<noteq> CHR ''@'') s @ CHR ''@'' # d"
    by (auto simp: dropWhile_eq_Cons_conv)
  from f r obtain p where "1 \<le> p" "p < length d - 1" "d ! p = CHR ''.''" "CHR ''@'' \<notin> set d"
      "takeWhile (\<lambda>c. c \<noteq> CHR ''@'') s \<noteq> []"
    by (auto simp: email_format_def list_ex_iff list_all_not_eq)
  with s show "email_split s"
    by (intro exI [of _ "takeWhile (\<lambda>c. c \<noteq> CHR ''@'') s"] exI [of _ d] exI [of _ p])
       (auto dest: set_takeWhileD)
next
  assume "email_split s"
  then obtain a d p where "s = a @ CHR ''@'' # d" "a \<noteq> []" "CHR ''@'' \<notin> set a" "CHR ''@'' \<notin> set d"
      "0 < p" "Suc p < length d" "d ! p = CHR ''.''" by blast
  moreover have a: "\<And>x. x \<in> set a \<Longrightarrow> x \<noteq> CHR ''@''" using \<open>CHR ''@'' \<notin> set a\<close> by blast
  ultimately show "email_format s"
    by (auto simp: email_format_def takeWhile_append2 [OF a] dropWhile_append2 [OF a] list_ex_iff
                   list_all_not_eq intro!: bexI [of _ p])
qed


lemma email_positions_split:
  "(\<exists>k. 0 < k \<and> k < length s \<and> list_all (\<lambda>c. c \<noteq> CHR ''@'') (take k s) \<and> s ! k = CHR ''@'' \<and>
        (\<exists>l>Suc k. Suc l < length s \<and> list_all (\<lambda>c. c \<noteq> CHR ''@'') (take (l - Suc k) (drop (Suc k) s)) \<and>
                  s ! l = CHR ''.'' \<and> list_all (\<lambda>c. c \<noteq> CHR ''@'') (drop (Suc l) s))) \<longleftrightarrow>
   email_split s"
proof
  assume "\<exists>k. 0 < k \<and> k < length s \<and> list_all (\<lambda>c. c \<noteq> CHR ''@'') (take k s) \<and> s ! k = CHR ''@'' \<and>
        (\<exists>l>Suc k. Suc l < length s \<and> list_all (\<lambda>c. c \<noteq> CHR ''@'') (take (l - Suc k) (drop (Suc k) s)) \<and>
                  s ! l = CHR ''.'' \<and> list_all (\<lambda>c. c \<noteq> CHR ''@'') (drop (Suc l) s))"
  then obtain k l where k: "0 < k" "k < length s" "CHR ''@'' \<notin> set (take k s)" "s ! k = CHR ''@''"
      and l: "Suc k < l" "Suc l < length s" "CHR ''@'' \<notin> set (take (l - Suc k) (drop (Suc k) s))"
        "s ! l = CHR ''.''" "CHR ''@'' \<notin> set (drop (Suc l) s)"
    by (auto simp: list_all_not_eq)
  define d where "d = drop (Suc k) s"
  define p where "p = l - Suc k"
  have s: "s = take k s @ CHR ''@'' # d"
    using id_take_nth_drop [OF k(2)] k(4) by (simp add: d_def)
  have p: "0 < p" "Suc p < length d" "d ! p = CHR ''.''"
    using k(2) l(1,2,4) by (simp_all add: p_def d_def)
  have e: "drop (Suc p) d = drop (Suc l) s" using l(1) by (simp add: d_def p_def)
  have "d = take p d @ d ! p # drop (Suc p) d" using p(2) by (intro id_take_nth_drop) simp
  then have dd: "d = take p d @ d ! p # drop (Suc l) s" unfolding e .
  have "set d = set (take p d) \<union> insert (d ! p) (set (drop (Suc l) s))"
    using arg_cong [OF dd, of set] by simp
  moreover have "CHR ''@'' \<notin> set (take p d)" using l(3) by (simp add: d_def p_def)
  ultimately have "CHR ''@'' \<notin> set d" using l(5) p(3) by auto
  moreover have "take k s \<noteq> []" using k(1,2) by auto
  ultimately show "email_split s" using s p k(3) by blast
next
  assume "email_split s"
  then obtain a d p where s: "s = a @ CHR ''@'' # d" and a: "a \<noteq> []" "CHR ''@'' \<notin> set a"
    and d: "CHR ''@'' \<notin> set d" "0 < p" "Suc p < length d" "d ! p = CHR ''.''" by blast
  show "\<exists>k. 0 < k \<and> k < length s \<and> list_all (\<lambda>c. c \<noteq> CHR ''@'') (take k s) \<and> s ! k = CHR ''@'' \<and>
        (\<exists>l>Suc k. Suc l < length s \<and> list_all (\<lambda>c. c \<noteq> CHR ''@'') (take (l - Suc k) (drop (Suc k) s)) \<and>
                  s ! l = CHR ''.'' \<and> list_all (\<lambda>c. c \<noteq> CHR ''@'') (drop (Suc l) s))"
    using s a d
    by (intro exI [of _ "length a"] conjI exI [of _ "Suc (length a) + p"])
       (auto simp: list_all_not_eq nth_append dest: in_set_takeD in_set_dropD)
qed

text \<open>The email pattern accepts exactly the email format.\<close>

lemma email_pattern_test: "regexp_test email_pattern s = Inr (email_format s)"
  by (simp add: regexp_test_def email_pattern_tree rx_test_search email_search_iff [simplified]
                email_positions_split [simplified]
                email_format_split)


section \<open>Validation of the configured fields\<close>

lemma patterns_not_empty: "phone_pattern \<noteq> []" "email_pattern \<noteq> []"
  by (simp_all add: phone_pattern_def email_pattern_def)

lemmas field_validation_defs =
  validateField_def number_check_def pattern_check_def custom_check_def no_validation_def Let_def

text \<open>C26: \<open>validateField\<close> on the phone field of the configuration accepts a value
  exactly when its text is in the phone format, and otherwise reports
  \<open>"Phone Number is invalid"\<close>; an absent value is tested as the text \<open>"undefined"\<close>.\<close>

theorem phone_field_validation:
  "validateField fld_phone v =
     (if phone_format (case v of None \<Rightarrow> ''undefined'' | Some s \<Rightarrow> s) then Inr None
      else Inr (Some ''Phone Number is invalid''))"
  by (simp add: field_validation_defs fld_phone_def js_simps patterns_not_empty phone_pattern_test)

text \<open>C27: \<open>validateField\<close> on the email field reports \<open>"Email Address is required"\<close>
  for an absent or empty value, accepts a value exactly when it is in the email format,
  and otherwise reports \<open>"Email Address is invalid"\<close>.\<close>

theorem email_field_validation:
  "validateField fld_email v =
     (if v = None \<or> v = Some [] then Inr (Some ''Email Address is required'')
      else if email_format (the v) then Inr None else Inr (Some ''Email Address is invalid''))"
  by (cases v) (auto simp: field_validation_defs fld_email_def js_simps patterns_not_empty email_pattern_test)

text \<open>C30: the quantity field accepts a non-empty value exactly when \<open>Number(value)\<close> lies
  between the bounds 1 and 1000, bounds included, or is NaN; the infinities and every
  other number are rejected.\<close>

theorem quantity_field_bounds:
  "validateField fld_quantity (Some x) = Inr None \<longleftrightarrow>
   x \<noteq> [] \<and> (case string_to_number x of Num q \<Rightarrow> 1 \<le> q \<and> q \<le> 1000 | NaN \<Rightarrow> True | PosInf \<Rightarrow> False
                                        | NegInf \<Rightarrow> False)"
  by (cases "string_to_number x")
     (auto simp: field_validation_defs fld_quantity_def js_simps js_greater_def not_less)

end
