(* ===== verification/App_Shell.thy ===== *)
theory App_Shell
  imports Quote_Form
begin

text \<open>
  The application shell of \<open>src/src/App.tsx\<close>: a page with the header
  \<open>Product Quote Request\<close> over a \<open>main\<close> element holding one \<open>QuoteForm\<close>. The shell has
  no state and no handlers; its render is the render of the form placed under the header.
  Without an error boundary, an exception of the form's render is the exception of the
  page's render.
\<close>

datatype app_view = AppView string view

definition App :: "form_config \<Rightarrow> form_state \<Rightarrow> form_state \<times> (js_error + app_view)" where
  "App cfg st =
     (case render cfg st of
        (st', Inl e) \<Rightarrow> (st', Inl e)
      | (st', Inr v) \<Rightarrow> (st', Inr (AppView ''Product Quote Request'' v)))"

text \<open>Mounting the page mounts the form: the state after the first render of the page is
  the state \<open>mount\<close> of the event system starts from.\<close>

lemma App_mount: "fst (App cfg init_state) = mount cfg"
  by (simp add: App_def mount_def split: prod.splits sum.splits)

text \<open>The page of every reachable state of a schema with a group renders: the header over
  the view the form renders.\<close>

lemma App_reachable:
  "reachable cfg st \<Longrightarrow> c_groups cfg \<noteq> [] \<Longrightarrow>
   \<exists>v. snd (render cfg st) = Inr v \<and> snd (App cfg st) = Inr (AppView ''Product Quote Request'' v)"
  by (drule (1) reachable_group_in_range) (simp add: App_def render_def Let_def)

end
