(* ===== verification/Html_Controls.thy ===== *)
theory Html_Controls
  imports Render_Props
begin

text \<open>
  What the browser does with the controls \<open>QuoteForm\<close> renders (lines 145-228): the
  \<open>required\<close> attribute of every control (lines 165, 182, 193, 202), the input \<open>type\<close>
  (line 198), the \<open>type="submit"\<close> button and the \<open>type="button"\<close> navigation buttons
  (lines 215-226), under the HTML standard's rules:
  \<^item> value sanitisation of an \<open>input\<close> by its type (the DOM value of a number input is
    empty unless it is a valid floating-point number; an email input drops newlines
    and surrounding ASCII white space; text and tel inputs drop newlines);
  \<^item> the validity flags \<open>valueMissing\<close>, \<open>typeMismatch\<close> (email) and
    \<open>stepMismatch\<close> (number, whose step is 1 from base 0, since the code sets no
    \<open>step\<close>, \<open>min\<close> or \<open>value\<close> attribute: Preact sets \<open>value\<close> as a property);
  \<^item> implicit submission: the Enter key in a single-line control clicks the form's
    default (submit) button when there is one and it is enabled; without one, it submits
    the form only when exactly one field of the form blocks implicit submission.

  Checkbox and date inputs are outside this model (\<open>None\<close>): the validity of a checkbox
  depends on its checkedness, which the component does not control, and the date value
  grammar is not transcribed. The shipped form has neither.
\<close>

section \<open>Characters\<close>

definition ascii_ws :: "char \<Rightarrow> bool" where
  "ascii_ws c \<longleftrightarrow> of_char c \<in> {9, 10, 12, 13, 32 :: nat}"

definition ascii_alnum :: "char \<Rightarrow> bool" where
  "ascii_alnum c \<longleftrightarrow>
     (let n = (of_char c :: nat) in 48 \<le> n \<and> n \<le> 57 \<or> 65 \<le> n \<and> n \<le> 90 \<or> 97 \<le> n \<and> n \<le> 122)"

definition strip_newlines :: "string \<Rightarrow> string" where
  "strip_newlines s = filter (\<lambda>c. of_char c \<notin> {10, 13 :: nat}) s"

definition strip_ws :: "string \<Rightarrow> string" where
  "strip_ws s = rev (dropWhile ascii_ws (rev (dropWhile ascii_ws s)))"

section \<open>Valid floating-point numbers\<close>

text \<open>An optional minus sign; digits, a full stop followed by digits, or both; an
  optional exponent: \<open>e\<close> or \<open>E\<close>, an optional sign, digits.\<close>

definition valid_exponent :: "string \<Rightarrow> bool" where
  "valid_exponent e \<longleftrightarrow>
     digit_string 10 e \<or> (e \<noteq> [] \<and> (hd e = CHR ''-'' \<or> hd e = CHR ''+'') \<and> digit_string 10 (tl e))"

definition valid_mantissa :: "string \<Rightarrow> bool" where
  "valid_mantissa m \<longleftrightarrow>
     (let a = takeWhile (\<lambda>c. c \<noteq> CHR ''.'') m; b = dropWhile (\<lambda>c. c \<noteq> CHR ''.'') m in
      if b = [] then digit_string 10 a else (a = [] \<or> digit_string 10 a) \<and> digit_string 10 (tl b))"

definition valid_float :: "string \<Rightarrow> bool" where
  "valid_float s \<longleftrightarrow>
     (let u = (if s \<noteq> [] \<and> hd s = CHR ''-'' then tl s else s);
          m = takeWhile (\<lambda>c. c \<noteq> CHR ''e'' \<and> c \<noteq> CHR ''E'') u;
          e = dropWhile (\<lambda>c. c \<noteq> CHR ''e'' \<and> c \<noteq> CHR ''E'') u in
      valid_mantissa m \<and> (e = [] \<or> valid_exponent (tl e)))"

text \<open>The number a valid floating-point number denotes is its exact decimal value, the
  value \<open>Number()\<close> gives it before rounding; it is a step of 1 from 0 when it is an
  integer.\<close>

definition integral_number :: "string \<Rightarrow> bool" where
  "integral_number x \<longleftrightarrow> (case string_to_number x of Num q \<Rightarrow> snd (quotient_of q) = 1 | _ \<Rightarrow> False)"

section \<open>Valid e-mail addresses\<close>

text \<open>\<open>1*(atext / ".") "@" label *("." label)\<close>, a label being 1 to 63 letters, digits
  and hyphens that starts and ends with a letter or digit.\<close>

definition atext :: "char \<Rightarrow> bool" where
  "atext c \<longleftrightarrow> ascii_alnum c \<or>
     of_char c \<in> {33, 35, 36, 37, 38, 39, 42, 43, 45, 47, 61, 63, 94, 95, 96, 123, 124, 125, 126 :: nat}"

fun split_on :: "char \<Rightarrow> string \<Rightarrow> string list" where
  "split_on d [] = [[]]"
| "split_on d (c # cs) =
     (if c = d then [] # split_on d cs
      else (case split_on d cs of w # ws \<Rightarrow> (c # w) # ws | [] \<Rightarrow> [[c]]))"

definition email_label :: "string \<Rightarrow> bool" where
  "email_label l \<longleftrightarrow>
     l \<noteq> [] \<and> length l \<le> 63 \<and> list_all (\<lambda>c. ascii_alnum c \<or> c = CHR ''-'') l \<and>
     ascii_alnum (hd l) \<and> ascii_alnum (last l)"

definition valid_email :: "string \<Rightarrow> bool" where
  "valid_email s \<longleftrightarrow>
     (let l = takeWhile (\<lambda>c. c \<noteq> CHR ''@'') s; r = dropWhile (\<lambda>c. c \<noteq> CHR ''@'') s in
      l \<noteq> [] \<and> list_all (\<lambda>c. atext c \<or> c = CHR ''.'') l \<and> r \<noteq> [] \<and>
      list_all email_label (split_on CHR ''.'' (tl r)))"

section \<open>Sanitisation and validity of a control\<close>

definition sanitize :: "field_type \<Rightarrow> string \<Rightarrow> string option" where
  "sanitize t v =
     (case t of
        FText \<Rightarrow> Some (strip_newlines v)
      | FTel \<Rightarrow> Some (strip_newlines v)
      | FEmail \<Rightarrow> Some (strip_ws (strip_newlines v))
      | FNumber \<Rightarrow> Some (if valid_float v then v else [])
      | _ \<Rightarrow> None)"

text \<open>The first flag of the control's \<open>ValidityState\<close> that is set, or \<open>Valid\<close>.\<close>

datatype validity = Valid | ValueMissing | TypeMismatch | StepMismatch

definition input_validity :: "bool \<Rightarrow> field_type \<Rightarrow> string \<Rightarrow> validity" where
  "input_validity req t x =
     (if req \<and> x = [] then ValueMissing
      else if t = FEmail \<and> x \<noteq> [] \<and> \<not> valid_email x then TypeMismatch
      else if t = FNumber \<and> x \<noteq> [] \<and> \<not> integral_number x then StepMismatch
      else Valid)"

text \<open>A required select is missing while its placeholder option (the first, with value
  \<open>""\<close>) or no option is selected; a required radio group while none of its buttons is
  checked; a textarea or input while its value is empty.\<close>

fun widget_validity :: "bool \<Rightarrow> widget \<Rightarrow> validity option" where
  "widget_validity req (WSelect p opts v) =
     Some (if req \<and> (v = [] \<or> v \<notin> set (map opt_value opts)) then ValueMissing else Valid)"
| "widget_validity req (WRadio opts) =
     Some (if req \<and> opts \<noteq> [] \<and> \<not> list_ex snd opts then ValueMissing else Valid)"
| "widget_validity req (WTextarea v) = Some (if req \<and> v = [] then ValueMissing else Valid)"
| "widget_validity req (WInput t v) = map_option (input_validity req t) (sanitize t v)"

definition field_validity :: "field_view \<Rightarrow> validity option" where
  "field_validity fv = widget_validity (fv_required fv) (fv_widget fv)"

text \<open>Interactive validation of the form: \<open>Some True\<close> when every rendered control is
  valid, \<open>Some False\<close> when one is not, \<open>None\<close> when a control is outside the model.\<close>

definition form_validity :: "field_view list \<Rightarrow> bool option" where
  "form_validity fvs =
     (if list_all (\<lambda>fv. field_validity fv \<noteq> None) fvs
      then Some (list_all (\<lambda>fv. field_validity fv = Some Valid) fvs) else None)"

section \<open>Implicit submission\<close>

definition blocks_implicit :: "field_view \<Rightarrow> bool" where
  "blocks_implicit fv \<longleftrightarrow>
     (case fv_widget fv of WInput t v \<Rightarrow> t \<in> {FText, FEmail, FTel, FNumber, FDate} | _ \<Rightarrow> False)"

text \<open>Whether the view lets the user submit the form: the enabled submit button (clicked,
  or the default button of an implicit submission), or, without a submit button, the
  Enter key in the one field that blocks implicit submission.\<close>

definition submit_offered :: "view \<Rightarrow> bool" where
  "submit_offered v =
     (case v of
        FormView t d fvs prev nav succ err \<Rightarrow>
          (case nav of
             SubmitButton disabled label \<Rightarrow> \<not> disabled
           | NextButton \<Rightarrow> length (filter blocks_implicit fvs) = 1)
      | IframeView src title w h \<Rightarrow> False)"

text \<open>The value an input delivers to \<open>onChange\<close> is its sanitised value.\<close>

fun browser_accepts :: "widget \<Rightarrow> string \<Rightarrow> bool" where
  "browser_accepts (WInput t v) x \<longleftrightarrow> sanitize t x = Some x"
| "browser_accepts w x \<longleftrightarrow> True"

section \<open>Lemmas\<close>

text \<open>Whether a rendered field blocks implicit submission depends on its type only.\<close>

lemma blocks_field_view:
  "blocks_implicit (field_view_of st f) \<longleftrightarrow> f_type f \<in> {FText, FEmail, FTel, FNumber, FDate}"
  by (cases "f_type f") (simp_all add: blocks_implicit_def field_view_of_def widget_of_def Let_def)

lemma count_blocking:
  "length (filter blocks_implicit (map (field_view_of st) fs)) =
   length (filter (\<lambda>f. f_type f \<in> {FText, FEmail, FTel, FNumber, FDate}) fs)"
  by (induction fs) (simp_all add: blocks_field_view)

end
