(* ===== verification/Browser_Form.thy ===== *)
theory Browser_Form
  imports Html_Controls
begin

text \<open>
  The event system of \<open>QuoteForm\<close> as the browser runs it. A change is delivered only
  by a rendered control and carries the control's sanitised value. A submission is
  offered only by the enabled submit button or by implicit submission. The browser
  validates the rendered controls before it fires \<open>submit\<close>: when one is invalid,
  no handler runs and nothing re-renders, so the state stays as it was (a stuttering
  step). Every other event is the step of the event system of \<open>Quote_Form\<close>.
\<close>

definition browser_enabled :: "form_config \<Rightarrow> form_state \<Rightarrow> ui_event \<Rightarrow> bool" where
  "browser_enabled cfg st ev =
     (case ev of
        EvSubmit \<Rightarrow> (case snd (render cfg st) of Inr v \<Rightarrow> submit_offered v | Inl e \<Rightarrow> False)
      | EvChange fid x \<Rightarrow>
          (case snd (render cfg st) of
             Inr v \<Rightarrow> list_ex (\<lambda>fv. fv_id fv = fid \<and> widget_accepts (fv_widget fv) x \<and>
                                   browser_accepts (fv_widget fv) x) (view_fields v)
           | Inl e \<Rightarrow> False)
      | _ \<Rightarrow> ui_enabled cfg st ev)"

text \<open>The step of an offered event: \<open>None\<close> when the rendered form has a control outside
  the model of \<open>Html_Controls\<close>.\<close>

definition browser_step :: "form_config \<Rightarrow> ui_event \<Rightarrow> form_state \<Rightarrow> form_state option" where
  "browser_step cfg ev st =
     (case ev of
        EvSubmit \<Rightarrow>
          (case snd (render cfg st) of
             Inr v \<Rightarrow> (case form_validity (view_fields v) of
                        Some True \<Rightarrow> Some (sys_step cfg EvSubmit st)
                      | Some False \<Rightarrow> Some st
                      | None \<Rightarrow> None)
           | Inl e \<Rightarrow> None)
      | _ \<Rightarrow> Some (sys_step cfg ev st))"

inductive browser_reachable :: "form_config \<Rightarrow> form_state \<Rightarrow> bool" for cfg :: form_config where
  browser_mount: "browser_reachable cfg (mount cfg)"
| browser_next: "browser_reachable cfg st \<Longrightarrow> browser_enabled cfg st ev \<Longrightarrow> browser_step cfg ev st = Some st' \<Longrightarrow>
                 browser_reachable cfg st'"

text \<open>A run of events in the browser: \<open>None\<close> as soon as an event is not offered or
  leaves the model.\<close>

fun browser_run :: "form_config \<Rightarrow> form_state \<Rightarrow> ui_event list \<Rightarrow> form_state option" where
  "browser_run cfg st [] = Some st"
| "browser_run cfg st (ev # evs) =
     (if browser_enabled cfg st ev
      then (case browser_step cfg ev st of Some st' \<Rightarrow> browser_run cfg st' evs | None \<Rightarrow> None)
      else None)"

section \<open>The browser refines the event system\<close>

lemma browser_enabled_ui: "browser_enabled cfg st ev \<Longrightarrow> ui_enabled cfg st ev"
  by (cases ev) (auto simp: browser_enabled_def ui_enabled_def list_ex_iff view_fields_def submit_offered_def
                      split: sum.splits view.splits)

lemma browser_step_cases: "browser_step cfg ev st = Some st' \<Longrightarrow> st' = sys_step cfg ev st \<or> st' = st"
  by (cases ev) (auto simp: browser_step_def split: sum.splits option.splits bool.splits)

lemma browser_reachable_reachable: "browser_reachable cfg st \<Longrightarrow> reachable cfg st"
proof (induction rule: browser_reachable.induct)
  case browser_mount
  then show ?case by (rule reach_mount)
next
  case (browser_next st ev st')
  then show ?case using browser_step_cases [OF browser_next.hyps(3)]
    by (auto intro: reach_step browser_enabled_ui)
qed

lemma browser_run_reachable:
  "browser_reachable cfg st \<Longrightarrow> browser_run cfg st evs = Some st' \<Longrightarrow> browser_reachable cfg st'"
proof (induction evs arbitrary: st)
  case (Cons ev evs)
  then show ?case by (auto intro: browser_next split: if_splits option.splits)
qed simp

end
