(* ===== verification/Quote_Browser.thy ===== *)
theory Quote_Browser
  imports Browser_Form Quote_Config
begin

text \<open>
  The shipped form in the browser: which of its three groups let the user submit, what
  the browser's validation of the rendered controls does to the scenario of spec 8, and
  what a submission from the first group shows.
\<close>

section \<open>The groups of the shipped form\<close>

lemma quote_group_fields:
  "group_fields quoteFormConfig ''product-details'' = [fld_productType, fld_quantity, fld_customRequirements]"
  "group_fields quoteFormConfig ''contact-info'' = [fld_name, fld_email, fld_phone, fld_company]"
  "group_fields quoteFormConfig ''additional-details'' = [fld_preferredContact, fld_urgency, fld_notes]"
  by (simp_all add: group_fields_def quote_config_defs)

lemma quote_groups:
  "c_groups quoteFormConfig = [grp_product, grp_contact, grp_additional]"
  "g_id grp_product = ''product-details''" "g_id grp_contact = ''contact-info''"
  "g_id grp_additional = ''additional-details''"
  by (simp_all add: quoteFormConfig_def grp_product_def grp_contact_def grp_additional_def)

text \<open>The first group has one field that blocks implicit submission (the quantity,
  visible whatever the values), the second has four.\<close>

lemma quote_blocking:
  "length (filter (\<lambda>f. isFieldVisible f d \<and> blocks_implicit (field_view_of st f))
      (group_fields quoteFormConfig ''product-details'')) = 1"
  "length (filter (\<lambda>f. isFieldVisible f d \<and> blocks_implicit (field_view_of st f))
      (group_fields quoteFormConfig ''contact-info'')) = 4"
  by (cases "d ''productType''";
      simp add: blocks_field_view quote_group_fields isFieldVisible_def jsval_of_def Let_def
                fld_productType_def fld_quantity_def fld_customRequirements_def
                fld_name_def fld_email_def fld_phone_def fld_company_def)+

lemma browser_reachable_group:
  "browser_reachable quoteFormConfig st \<Longrightarrow>
   currentGroup st = 0 \<or> currentGroup st = 1 \<or> currentGroup st = 2"
proof -
  assume "browser_reachable quoteFormConfig st"
  then have "reachable quoteFormConfig st" by (rule browser_reachable_reachable)
  then have "group_in_range quoteFormConfig (currentGroup st)"
    by (rule reachable_group_in_range) (simp add: quote_groups)
  then show ?thesis by (auto simp: group_in_range_def quote_groups)
qed

text \<open>C19: in the browser, the shipped form can be submitted from the first group (the
  Enter key in the quantity input, its only field that blocks implicit submission) and
  from the last group while the submit button is enabled, and never from the second
  group, whose four single-line inputs leave implicit submission without effect.\<close>

theorem submit_offered_groups:
  assumes "browser_reachable quoteFormConfig st"
  shows "browser_enabled quoteFormConfig st EvSubmit \<longleftrightarrow>
         \<not> showIframe st \<and> (currentGroup st = 0 \<or> currentGroup st = 2 \<and> \<not> isSubmitting st)"
  using browser_reachable_group [OF assms]
proof (elim disjE)
  assume "currentGroup st = 0"
  then show ?thesis
    by (simp add: browser_enabled_def render_def Let_def group_in_range_def submit_offered_def
                  jotform_frame_def quote_groups filter_map comp_def quote_blocking)
next
  assume "currentGroup st = 1"
  then show ?thesis
    by (simp add: browser_enabled_def render_def Let_def group_in_range_def submit_offered_def
                  jotform_frame_def quote_groups filter_map comp_def quote_blocking)
next
  assume "currentGroup st = 2"
  then show ?thesis
    by (simp add: browser_enabled_def render_def Let_def group_in_range_def submit_offered_def
                  jotform_frame_def quote_groups)
qed

section \<open>Submissions of the shipped form\<close>

lemma quote_patterns_compile: "list_all pattern_compiles (c_fields quoteFormConfig)"
  by code_simp

text \<open>A submission while a visible field of the shipped form has an error message completes,
  keeps the frame hidden and stores that message.\<close>

lemma quote_submit_error:
  assumes fnd: "find (\<lambda>f. f_id f = k) (c_fields quoteFormConfig) = Some f"
    and vis: "isFieldVisible f (formData st)"
    and v: "validateField f (formData st k) = Inr (Some m)" and m: "m \<noteq> []"
    and ns: "\<not> showIframe st"
  shows "\<exists>st'. handleSubmit quoteFormConfig st = Normal st' \<and> \<not> showIframe st' \<and> formErrors st' k = Some m"
proof -
  have d: "distinct (map f_id (c_fields quoteFormConfig))" by (simp add: quote_config_defs)
  obtain es where c: "collect_errors (c_fields quoteFormConfig) (formData st) = Inr es"
    using collect_errors_no_throw [OF quote_patterns_compile] by blast
  have e: "distinct (map fst es) \<and> map_of es k = Some m"
    using collect_errors_map_of [OF c d, of k] fnd vis v m by (simp add: has_error_def error_slot_def)
  then have "es \<noteq> []" by auto
  with c ns e show ?thesis
    by (auto simp: handleSubmit_def Let_def obj_of_pairs_map_of map_of_rev_distinct)
qed

section \<open>The required contact method gates the final submission\<close>

text \<open>C20: in the browser, while no contact method is chosen, a submission from the last
  group of the shipped form never reaches \<open>handleSubmit\<close>: the required preferred-contact
  radio group is rendered with no button checked, so the browser blocks the submission and
  the state stays as it was. In particular the first submission of the scenario of spec 8
  (quantity empty, submit from the final group) shows no error on the quantity.\<close>

theorem final_submit_needs_contact:
  assumes "browser_reachable quoteFormConfig st" "currentGroup st = 2" "\<not> showIframe st"
    and "formData st ''preferredContact'' = None \<or> formData st ''preferredContact'' = Some []"
  shows "browser_step quoteFormConfig EvSubmit st = Some st"
  using assms(2-4)
  by (auto simp: browser_step_def render_def Let_def group_in_range_def quote_groups quote_group_fields
                 isFieldVisible_def form_validity_def field_validity_def field_view_of_def widget_of_def
                 jsval_of_def view_fields_def fld_preferredContact_def fld_urgency_def fld_notes_def)

section \<open>A submission from the first group\<close>

text \<open>C21: in the browser, from the first group of the shipped form, once its rendered
  controls are valid, the Enter key in the quantity input submits the form:
  \<open>handleSubmit\<close> runs on the whole schema and, while the name of the second group has
  not been entered, stores its error and keeps the frame hidden, although the first group
  stays on screen, where the name field is not shown (spec 4.6 allows a submission only
  from the final group).\<close>

theorem enter_submit_first_group:
  assumes "browser_reachable quoteFormConfig st" "currentGroup st = 0" "\<not> showIframe st"
    and valid: "case snd (render quoteFormConfig st) of
                  Inr v \<Rightarrow> form_validity (view_fields v) = Some True | Inl e \<Rightarrow> False"
    and name: "formData st ''name'' = None"
  shows "browser_enabled quoteFormConfig st EvSubmit \<and>
         (\<exists>st'. browser_step quoteFormConfig EvSubmit st = Some st' \<and> currentGroup st' = 0 \<and>
                \<not> showIframe st' \<and> formErrors st' ''name'' = Some ''Full Name is required'')"
proof -
  have en: "browser_enabled quoteFormConfig st EvSubmit"
    using assms(2,3)
    by (simp add: browser_enabled_def render_def Let_def group_in_range_def submit_offered_def
                  quote_groups filter_map comp_def quote_blocking)
  have "find (\<lambda>f. f_id f = ''name'') (c_fields quoteFormConfig) = Some fld_name"
    "isFieldVisible fld_name (formData st)"
    "validateField fld_name (formData st ''name'') = Inr (Some ''Full Name is required'')"
    using name by (simp_all add: quote_config_defs isFieldVisible_def) code_simp
  from quote_submit_error [OF this _ assms(3)] obtain st1 where
    st1: "handleSubmit quoteFormConfig st = Normal st1" "\<not> showIframe st1"
         "formErrors st1 ''name'' = Some ''Full Name is required''" by auto
  have "currentGroup st1 = 0" using st1(1) assms(2) by (auto simp: handleSubmit_def Let_def split: sum.splits if_splits)
  moreover have "browser_step quoteFormConfig EvSubmit st = Some (sys_step quoteFormConfig EvSubmit st)"
    using valid by (auto simp: browser_step_def split: sum.splits)
  ultimately show ?thesis
    using en st1 by (auto simp: sys_step_state handle_event_def)
qed

end
