(* ===== verification/Spec2Isabelle.thy ===== *)
theory Spec2Isabelle
  imports Render_Props Session_Props Quote_Patterns App_Shell Quote_Browser
begin

text \<open>
  \<^bold>\<open>Verification of the quote-request form (Blockify0/preact-jotform-demo).\<close>

  \<^bold>\<open>The program.\<close> \<open>src/src/config/formConfig.ts\<close> declares the schema types
  (\<open>FormField\<close>, \<open>FormGroup\<close>, \<open>FormConfig\<close>) and the configuration
  \<open>quoteFormConfig\<close>: three groups, ten fields, two validation patterns and two
  visibility rules. \<open>src/src/components/QuoteForm.tsx\<close> is the one component with
  logic: two module-level signals hold the form values and the error messages, four hook
  states hold the submission flag, the status, the frame switch and the group index; the
  handlers \<open>validateField\<close>, \<open>isFieldVisible\<close>, \<open>handleSubmit\<close>,
  \<open>handleInputChange\<close>, \<open>handleNextGroup\<close>, \<open>handlePrevGroup\<close> and
  \<open>handleIframeMessage\<close> change them, and the render body registers a window
  \<open>message\<close> listener and draws the current group, or the Jotform frame after a
  passed submission. \<open>App.tsx\<close> puts the component under a page header and
  \<open>vite.config.ts\<close> is build configuration.

  \<^bold>\<open>Theories.\<close>
  \<^item> \<open>Prelude\<close>: rule collections, the types of identifiers and string-valued objects,
    generic list and map facts.
  \<^item> \<open>JS_Values\<close>: the JavaScript values and coercions the code uses: \<open>Number()\<close> on
    strings (the StringNumericLiteral grammar: white space, empty string, signs,
    \<open>Infinity\<close>, decimal with fraction and exponent, \<open>0x\<close>/\<open>0o\<close>/\<open>0b\<close>),
    \<open>String()\<close>, \<open>===\<close>, truthiness, \<open><\<close>/\<open>>\<close> and \<open>includes\<close>. Numbers are
    exact rationals with NaN and the infinities (binary64 rounding is not modelled).
  \<^item> \<open>Regex\<close>: \<open>new RegExp(p).test(s)\<close> (line 32): a lexer and a parser for
    the pattern syntax without flags, an inductive reference semantics, and an executable
    matcher of end positions whose star closure runs on fuel \<open>length s - i\<close>, which is
    enough because every counted iteration moves forward. Features outside the model
    (back references, look-around, \<open>\b\<close>, \<open>\x\<close>, \<open>\u\<close>, \<open>\c\<close>) give
    \<open>Unsupported\<close>, on which nothing is claimed.
  \<^item> \<open>Regex_Props\<close>: the meaning of the trees the parser builds for quantifiers
    (\<open>r{m,k}\<close>, \<open>r{m,}\<close>, \<open>*\<close>) as counted repetition of the atom, single-character
    atoms read over a slice, anchors, and the fuel bound of the star loop.
  \<^item> \<open>Form_Schema\<close>: the schema records, \<open>find\<close> and the sorted fields of a group
    (lines 94 and 138-140), and the well-formedness conditions of spec 3 and 4.1.
  \<^item> \<open>Field_Validator\<close>: \<open>validateField\<close> (lines 16-42), branch by branch.
  \<^item> \<open>Visibility\<close>: \<open>isFieldVisible\<close> (lines 44-62) and the operator table of spec 4.2.
  \<^item> \<open>Quote_Form\<close>: the component state record, the five handlers as functions to a
    completion (normal, or an exception with the state reached, since JavaScript keeps
    the updates made before a throw), the listener dispatch, the render, the events a
    view offers (including the frame's \<open>onLoad\<close>, whose handler \<open>handleIframeLoad\<close>
    is empty), the step (handler, then the render Preact schedules) and the inductive set of reachable
    states from the mount. The navigation handlers are also given as closures over the
    render that created them (\<open>handleNextGroup_closure\<close>, \<open>handlePrevGroup_closure\<close>),
    run by \<open>nav_batch\<close> on the pending state for clicks handled before Preact
    re-renders; with a render between clicks they are the handlers of the step.
  \<^item> \<open>Render_Props\<close>: the rendered fields against the groups' declared field lists, and
    a change followed by its render.
  \<^item> \<open>Session_Props\<close>: navigation without validation gating, and the keys of the error
    map in reachable states.
  \<^item> \<open>Quote_Config\<close>: \<open>quoteFormConfig\<close> transcribed property by property.
  \<^item> \<open>Quote_Patterns\<close>: the exact languages of the phone and email patterns, stated as
    reference formats free of regular expressions, and the validator's verdicts on the
    phone, email and quantity fields.
  \<^item> \<open>App_Shell\<close>: \<open>App\<close> of \<open>App.tsx\<close>: the form's render under the header
    \<open>Product Quote Request\<close>; its first render is the mount of the form, and it renders
    in every reachable state.
  \<^item> \<open>Html_Controls\<close>: what the browser does with the rendered controls under the HTML
    standard: value sanitisation by input type (valid floating-point numbers, e-mail
    white space), the validity flags \<open>valueMissing\<close> (the \<open>required\<close> attributes),
    \<open>typeMismatch\<close> (valid e-mail addresses) and \<open>stepMismatch\<close> (number inputs step
    by 1), and implicit submission (the enabled submit button, or the Enter key when
    exactly one field blocks implicit submission).
  \<^item> \<open>Browser_Form\<close>: the event system as the browser runs it: changes carry sanitised
    values, submission is offered as above, and the browser validates the rendered
    controls before it fires \<open>submit\<close>, blocking it (no handler, no render) when one is
    invalid; a lemma shows its reachable states are reachable states of
    \<open>Quote_Form\<close>, so every invariant above holds in the browser.
  \<^item> \<open>Quote_Browser\<close>: the shipped form in the browser.
  \<^item> This theory: the properties that need the configuration, and the witnesses.

  \<^bold>\<open>What is proved.\<close> The submission gate (C1: a shown frame implies that every
  visible field validates), the validator's branches (C3-C5, C22, C23), the visibility
  resolver against an independent operator table (C6, C7), the navigator (C9, C31) and
  its closures (C14), invariants of the reachable states (C10-C13, C32: the status is
  never \<open>error\<close>, the group index stays in range so the render never throws, the value
  and error maps only have schema ids as keys, the submit flag is never left set), the
  completion message (C25), the listener leak (C24), the store (C15-C17), the render
  against the groups' declared lists (C28) and after a change (C29), the fields'
  exact verdicts on the shipped configuration (C26, C27, C30), where the browser lets
  the shipped form be submitted (C19), and the divergences below (C2, C8, C18, C20, C21).
  The matcher's correctness against the inductive semantics of the patterns, the
  meaning of the quantifier trees and the adequacy of the star fuel are lemmas of
  \<open>Regex\<close> and \<open>Regex_Props\<close> on which C26 and C27 rest.

  \<^bold>\<open>What modelling showed.\<close>
  \<^item> The optional phone field blocks every submission while it is empty: the pattern is
    tested against \<open>String(undefined)\<close> = \<open>"undefined"\<close> or \<open>""\<close>, and the pattern
    accepts exactly an optional \<open>+\<close>, a digit 1-9 and 1 to 14 digits (C2, C26).
  \<^item> \<open>quantity\<close> is visible for every value of \<open>productType\<close>: its rule compares
    with \<open>!== null\<close>, and an unset value is \<open>undefined\<close> (C8).
  \<^item> The completion message clears the values but not the error messages, and it is
    accepted in any state, also before the frame was shown (C25).
  \<^item> \<open>handleNextGroup\<close> tests the rendered group index but increments the pending
    one: two Next clicks handled by the same render at the second-to-last group move
    past the last group, and the next render throws (C14).
  \<^item> No handler sets the status \<open>error\<close>, so the form's error message is never shown
    (C10).
  \<^item> A pattern the RegExp constructor rejects makes \<open>handleInputChange\<close> store the
    value without its error, and \<open>handleSubmit\<close> leave \<open>isSubmitting\<close> set (C18).
  \<^item> A cleared optional number field with a positive minimum reports an error that the
    untouched field does not (C22); non-numeric text passes the bounds (C23, C30).
  \<^item> The email pattern accepts spaces and consecutive dots, e.g. \<open>"a b@c..d"\<close> (C27).
  \<^item> Every render adds a window listener that is never removed: every field change
    adds one; the extra listeners do not change the effect of a message (C24).
  \<^item> In the browser, while no contact method is chosen, a submission from the last group
    never reaches \<open>handleSubmit\<close>: the required radio group blocks it, so the first
    submission of the spec 8 scenario shows no quantity error (C20).
  \<^item> The Enter key in the quantity input submits the form from the first group, and
    \<open>handleSubmit\<close> validates the whole schema, storing errors for fields the first group
    does not show; the second group cannot be submitted at all (C19, C21).

  \<^bold>\<open>Bounds and fuel.\<close> The only fuel is the star closure of the matcher, whose fuel
  is the distance to the end of the input; the lemma \<open>star_fuel_enough\<close> shows that any
  larger fuel computes the same positions, so the bound cuts no match off. The lexer
  terminates on the length of the pattern, every other recursion is structural. The
  group index is an unbounded integer, as in JavaScript; C11 and C31 keep it between 0
  and the last group.

  \<^bold>\<open>Not modelled.\<close> The rest of the DOM and the browser: checkbox and date
  inputs (their validity depends on checkedness the component does not control, or on
  the date grammar; the shipped form has neither), focus and the validation bubbles,
  Preact's scheduling in general (an event is followed by the render Preact schedules
  when a setter changed a hook value or a signal was assigned; only batched navigation
  clicks are modelled, by \<open>nav_batch\<close>), the Jotform service behind the frame (only the
  element's attributes, its empty \<open>onLoad\<close> handler and the messages it posts), the
  \<open>console.log\<close> calls, CSS class names, binary64 rounding, Unicode white space and
  line terminators beyond ASCII. \<open>vite.config.ts\<close> is build
  configuration (plugins, an import alias, the dev-server port) with no run-time
  behaviour of the program; modelling it would model Vite and Node's path library, not
  this code.
\<close>

section \<open>A configuration with a pattern the RegExp constructor rejects\<close>

definition bad_pattern_cfg :: form_config where
  "bad_pattern_cfg =
     quoteFormConfig\<lparr>c_fields := map (\<lambda>f. if f_id f = ''phone''
                                          then f\<lparr>f_validation := Some (no_validation\<lparr>v_pattern := Some ''(''\<rparr>)\<rparr>
                                          else f) (c_fields quoteFormConfig)\<rparr>"

section \<open>Event sequences of the spec's scenario\<close>

definition journey :: "ui_event list" where
  "journey = [EvChange ''productType'' ''Type A'', EvChange ''quantity'' ''50'', EvNext,
     EvChange ''name'' ''Ann Lee'', EvChange ''email'' ''ann@example.com'', EvChange ''phone'' ''+15551234567'',
     EvNext, EvChange ''preferredContact'' ''email'', EvSubmit]"

section \<open>Evaluated facts shared by the proofs\<close>

lemma journey_run: "run_enabled quoteFormConfig (mount quoteFormConfig) journey \<and>
    showIframe (run quoteFormConfig (mount quoteFormConfig) journey)"
  by (simp add: journey_def) code_simp

lemma journey_reachable: "reachable quoteFormConfig (run quoteFormConfig (mount quoteFormConfig) journey)"
  using run_reachable [OF reach_mount] journey_run by blast

section \<open>Properties of the shipped configuration\<close>

text \<open>C8: the rule of \<open>quantity\<close> (\<open>productType !== null\<close>) holds for every form
  state, since an unset \<open>productType\<close> is undefined and never null: the field is always
  visible, also before a product type is chosen.\<close>

theorem quantity_always_visible: "isFieldVisible fld_quantity d"
  by (cases "d ''productType''") (simp_all add: isFieldVisible_def fld_quantity_def jsval_of_def)

text \<open>C2: while the optional phone field is untouched or empty, every submission of the
  shipped form fails with \<open>"Phone Number is invalid"\<close> and the frame stays hidden,
  whatever the other values are.\<close>

theorem phone_blocks_submission:
  assumes "formData st ''phone'' = None \<or> formData st ''phone'' = Some []" "\<not> showIframe st"
  shows "\<exists>st'. handleSubmit quoteFormConfig st = Normal st' \<and> \<not> showIframe st' \<and>
               formErrors st' ''phone'' = Some ''Phone Number is invalid''"
proof -
  have "find (\<lambda>f. f_id f = ''phone'') (c_fields quoteFormConfig) = Some fld_phone"
    "isFieldVisible fld_phone (formData st)"
    by (simp_all add: quote_config_defs isFieldVisible_def)
  moreover have "validateField fld_phone (formData st ''phone'') = Inr (Some ''Phone Number is invalid'')"
    using assms(1) by (auto simp: fld_phone_def) code_simp+
  ultimately show ?thesis using quote_submit_error assms(2) by blast
qed

text \<open>C18: with a pattern the RegExp constructor rejects, a change of the field stores
  the value and throws before its error slot is written, and a submission throws after
  setting \<open>isSubmitting\<close>, which nothing clears.\<close>

theorem bad_pattern_partial_updates:
  "handleInputChange bad_pattern_cfg ''phone'' v st =
     Abrupt SyntaxError (st\<lparr>formData := (formData st)(''phone'' \<mapsto> v)\<rparr>) \<and>
   handleSubmit bad_pattern_cfg st =
     Abrupt SyntaxError (st\<lparr>isSubmitting := True, submitStatus := StatusIdle\<rparr>)"
proof -
  have f: "find_field bad_pattern_cfg ''phone'' =
             Some (fld_phone\<lparr>f_validation := Some (no_validation\<lparr>v_pattern := Some ''(''\<rparr>)\<rparr>)"
    by (simp add: bad_pattern_cfg_def find_field_def quote_config_defs)
  have v: "validateField (fld_phone\<lparr>f_validation := Some (no_validation\<lparr>v_pattern := Some ''(''\<rparr>)\<rparr>) x
             = Inl SyntaxError" for x
    by (simp add: validateField_def fld_phone_def no_validation_def number_check_def pattern_check_def
                  Let_def) code_simp
  have split: "c_fields bad_pattern_cfg =
      [fld_productType, fld_quantity, fld_customRequirements, fld_name, fld_email] @
      fld_phone\<lparr>f_validation := Some (no_validation\<lparr>v_pattern := Some ''(''\<rparr>)\<rparr> #
      [fld_company, fld_preferredContact, fld_urgency, fld_notes]"
    by (simp add: bad_pattern_cfg_def quote_config_defs)
  have pc: "list_all pattern_compiles
      [fld_productType, fld_quantity, fld_customRequirements, fld_name, fld_email]"
    by code_simp
  have c: "collect_errors (c_fields bad_pattern_cfg) d = Inl SyntaxError" for d
    unfolding split
  proof (rule collect_errors_throw_at [OF pc])
    have "f_id fld_phone = ''phone''" by (simp add: fld_phone_def)
    then show "validateField (fld_phone\<lparr>f_validation := Some (no_validation\<lparr>v_pattern := Some ''(''\<rparr>)\<rparr>)
        (d (f_id (fld_phone\<lparr>f_validation := Some (no_validation\<lparr>v_pattern := Some ''(''\<rparr>)\<rparr>))) = Inl SyntaxError"
      by (simp add: v)
  qed (simp add: isFieldVisible_def fld_phone_def)
  show ?thesis
    by (simp add: handleInputChange_def handleSubmit_def f v c Let_def)
qed

section \<open>Witnesses: the properties applied at concrete inputs\<close>

theorem phone_blocks_submission_witness:
  "\<exists>st'. handleSubmit quoteFormConfig init_state = Normal st' \<and> \<not> showIframe st' \<and>
         formErrors st' ''phone'' = Some ''Phone Number is invalid''"
  using phone_blocks_submission [of init_state] by (simp add: init_state_def)

theorem reachable_gate_witness:
  "reachable quoteFormConfig (run quoteFormConfig (mount quoteFormConfig) journey) \<and>
   showIframe (run quoteFormConfig (mount quoteFormConfig) journey) \<and>
   collect_errors (c_fields quoteFormConfig) (formData (run quoteFormConfig (mount quoteFormConfig) journey)) = Inr []"
  using reachable_gate [OF journey_reachable] journey_reachable journey_run by blast

theorem reachable_render_total_witness:
  "reachable quoteFormConfig (mount quoteFormConfig) \<and> c_groups quoteFormConfig \<noteq> [] \<and>
   (case snd (render quoteFormConfig (mount quoteFormConfig)) of Inl e \<Rightarrow> False | Inr v \<Rightarrow> True)"
  using reachable_render_total [OF reach_mount, of quoteFormConfig] reach_mount
  by (simp add: quoteFormConfig_def)

theorem reachable_data_keys_witness:
  "reachable quoteFormConfig (run quoteFormConfig (mount quoteFormConfig) journey) \<and>
   dom (formData (run quoteFormConfig (mount quoteFormConfig) journey)) \<subseteq> set (field_ids quoteFormConfig)"
  using reachable_data_keys [OF journey_reachable] journey_reachable by blast

theorem reachable_not_submitting_witness:
  "reachable quoteFormConfig (run quoteFormConfig (mount quoteFormConfig) journey) \<and>
   list_all pattern_compiles (c_fields quoteFormConfig) \<and>
   \<not> isSubmitting (run quoteFormConfig (mount quoteFormConfig) journey)"
  using reachable_not_submitting [OF journey_reachable quote_patterns_compile] journey_reachable
    quote_patterns_compile by blast

theorem completion_liveness_witness:
  "reachable quoteFormConfig (run quoteFormConfig (mount quoteFormConfig) journey) \<and>
   submitStatus (sys_step quoteFormConfig (EvMessage (MObject (Some (JStr ''formSubmitted''))))
     (run quoteFormConfig (mount quoteFormConfig) journey)) = StatusSuccess"
  using completion_liveness [OF journey_reachable] journey_reachable by simp

theorem validate_required_witness:
  "f_required fld_name \<and> validateField fld_name None = Inr (Some ''Full Name is required'')"
  using validate_required [of fld_name None] by (simp add: fld_name_def)

theorem validate_number_bounds_witness:
  "validateField fld_quantity (Some ''0'') = Inr (Some ''Quantity must be at least 1'') \<and>
   validateField fld_quantity (Some ''1001'') = Inr (Some ''Quantity must be at most 1000'')"
proof -
  have n0: "to_number (jsval_of (Some ''0'')) = Num 0" and n1: "to_number (jsval_of (Some ''1001'')) = Num 1001"
    by code_simp+
  have d: "int_to_dec 1 = ''1''" "int_to_dec 1000 = ''1000''" by code_simp+
  show ?thesis
    using validate_number_bounds [of fld_quantity "no_validation\<lparr>v_min := Some 1, v_max := Some 1000\<rparr>"
        1 1000 "Some ''0''" 0, OF _ _ _ _ _ n0]
      validate_number_bounds [of fld_quantity "no_validation\<lparr>v_min := Some 1, v_max := Some 1000\<rparr>"
        1 1000 "Some ''1001''" 1001, OF _ _ _ _ _ n1]
    by (simp add: fld_quantity_def no_validation_def d)
qed

theorem validate_pattern_witness:
  "validateField fld_email (Some ''ann.example.com'') = Inr (Some ''Email Address is invalid'')"
proof (cases "rx_compile email_pattern")
  case (Inl e)
  have "case rx_compile email_pattern of Inl _ \<Rightarrow> False | Inr _ \<Rightarrow> True" by code_simp
  with Inl show ?thesis by simp
next
  case (Inr r)
  have "regexp_test email_pattern (to_str (jsval_of (Some ''ann.example.com''))) = Inr False" by code_simp
  with Inr have t: "\<not> rx_test r (to_str (jsval_of (Some ''ann.example.com'')))"
    by (simp add: regexp_test_def)
  have nc: "number_check fld_email (no_validation\<lparr>v_pattern := Some email_pattern\<rparr>) (jsval_of (Some ''ann.example.com'')) = None"
    by (simp add: number_check_def fld_email_def)
  show ?thesis
    using validate_pattern [of fld_email "Some ''ann.example.com''" "no_validation\<lparr>v_pattern := Some email_pattern\<rparr>"
        email_pattern r, OF _ _ nc _ _ Inr] t
    by (simp add: fld_email_def no_validation_def email_pattern_def)
qed

theorem visibility_numeric_nan_witness:
  "\<not> isFieldVisible (fld_quantity\<lparr>f_dependsOn :=
        Some \<lparr>dep_field = ''productType'', dep_value = JInt 5, dep_op = Some OpGreaterThan\<rparr>\<rparr>) Map.empty"
  by (rule visibility_numeric_nan [of _ "\<lparr>dep_field = ''productType'', dep_value = JInt 5, dep_op = Some OpGreaterThan\<rparr>"])
     (simp_all add: jsval_of_def)

theorem navigator_spec_witness:
  "handlePrevGroup init_state = init_state \<and>
   handleNextGroup quoteFormConfig (init_state\<lparr>currentGroup := 2\<rparr>) = init_state\<lparr>currentGroup := 2\<rparr> \<and>
   handlePrevGroup (handleNextGroup quoteFormConfig init_state) = init_state"
  using navigator_spec [of init_state quoteFormConfig]
    navigator_spec [of "init_state\<lparr>currentGroup := 2\<rparr>" quoteFormConfig]
  by (simp add: init_state_def quoteFormConfig_def)

theorem stale_next_overrun_witness:
  "currentGroup (nav_batch quoteFormConfig (init_state\<lparr>currentGroup := 1\<rparr>) [ClickNext, ClickNext]
     (init_state\<lparr>currentGroup := 1\<rparr>)) = 3 \<and>
   snd (render quoteFormConfig (nav_batch quoteFormConfig (init_state\<lparr>currentGroup := 1\<rparr>) [ClickNext, ClickNext]
     (init_state\<lparr>currentGroup := 1\<rparr>))) = Inl TypeError"
  using stale_next_overrun [of "init_state\<lparr>currentGroup := 1\<rparr>" quoteFormConfig 2]
  by (simp add: init_state_def quoteFormConfig_def numeral_2_eq_2)

theorem reachable_no_error_status_witness:
  "reachable quoteFormConfig (run quoteFormConfig (mount quoteFormConfig) journey) \<and>
   submitStatus (run quoteFormConfig (mount quoteFormConfig) journey) \<noteq> StatusError"
  using reachable_no_error_status [OF journey_reachable] journey_reachable by blast

theorem listener_growth_witness:
  "6 \<le> listeners (run quoteFormConfig init_state journey) \<and> dispatch_message 3 MNull init_state = init_state"
  using listener_growth [of init_state journey quoteFormConfig 3 MNull]
  by (simp add: init_state_def journey_def handleIframeMessage_def)

theorem submit_offered_groups_witness:
  "browser_reachable quoteFormConfig (mount quoteFormConfig) \<and> browser_enabled quoteFormConfig (mount quoteFormConfig) EvSubmit"
  using submit_offered_groups [OF browser_mount] browser_mount by (simp add: mount_state init_state_def)

theorem submit_outcome_witness:
  "handleSubmit quoteFormConfig init_state = Normal (final_state (handleSubmit quoteFormConfig init_state)) \<and>
   \<not> showIframe (final_state (handleSubmit quoteFormConfig init_state)) \<and>
   \<not> isSubmitting (final_state (handleSubmit quoteFormConfig init_state))"
proof -
  have "case handleSubmit quoteFormConfig init_state of Normal _ \<Rightarrow> True | Abrupt _ _ \<Rightarrow> False"
    by code_simp
  then have n: "handleSubmit quoteFormConfig init_state = Normal (final_state (handleSubmit quoteFormConfig init_state))"
    by (rule completion_normal)
  have c: "collect_errors (c_fields quoteFormConfig) (formData init_state) \<noteq> Inr []" by code_simp
  show ?thesis using submit_outcome [OF n] n c by (simp add: init_state_def)
qed

theorem submit_errors_exact_witness:
  "handleSubmit quoteFormConfig init_state = Normal (final_state (handleSubmit quoteFormConfig init_state)) \<and>
   formErrors (final_state (handleSubmit quoteFormConfig init_state)) = submit_errors quoteFormConfig Map.empty"
proof -
  have "case handleSubmit quoteFormConfig init_state of Normal _ \<Rightarrow> True | Abrupt _ _ \<Rightarrow> False"
    by code_simp
  then have n: "handleSubmit quoteFormConfig init_state = Normal (final_state (handleSubmit quoteFormConfig init_state))"
    by (rule completion_normal)
  have d: "distinct (field_ids quoteFormConfig)" by code_simp
  have c: "collect_errors (c_fields quoteFormConfig) (formData init_state) \<noteq> Inr []" by code_simp
  show ?thesis using submit_errors_exact [OF n d c] n by (simp add: init_state_def)
qed

theorem optional_number_blank_witness:
  "validateField (fld_quantity\<lparr>f_required := False\<rparr>) (Some []) = Inr (Some ''Quantity must be at least 1'') \<and>
   validateField (fld_quantity\<lparr>f_required := False\<rparr>) None = Inr None"
proof -
  have "int_to_dec 1 = ''1''" by code_simp
  moreover have "validateField (fld_quantity\<lparr>f_required := False\<rparr>) None = Inr None" by code_simp
  ultimately show ?thesis
    using optional_number_blank [of "fld_quantity\<lparr>f_required := False\<rparr>"
        "no_validation\<lparr>v_min := Some 1, v_max := Some 1000\<rparr>" 1]
    by (simp add: fld_quantity_def no_validation_def)
qed

theorem nan_passes_bounds_witness:
  "number_check fld_quantity (no_validation\<lparr>v_min := Some 1, v_max := Some 1000\<rparr>) (jsval_of (Some ''abc'')) = None"
proof -
  have "to_number (jsval_of (Some ''abc'')) = NaN" by code_simp
  then show ?thesis by (rule nan_passes_bounds)
qed


theorem phone_field_validation_witness:
  "validateField fld_phone None = Inr (Some ''Phone Number is invalid'') \<and>
   validateField fld_phone (Some []) = Inr (Some ''Phone Number is invalid'') \<and>
   validateField fld_phone (Some ''+15551234567'') = Inr None"
proof -
  have "\<not> phone_format ''undefined''" "\<not> phone_format []" "phone_format ''+15551234567''"
    by (simp_all add: phone_format_def nonzero_digit_def is_digit_def)
  then show ?thesis using phone_field_validation [of None] phone_field_validation [of "Some []"]
      phone_field_validation [of "Some ''+15551234567''"] by simp
qed

theorem email_field_validation_witness:
  "validateField fld_email (Some ''a b@c..d'') = Inr None \<and>
   validateField fld_email (Some ''ann@example'') = Inr (Some ''Email Address is invalid'')"
proof -
  have "email_format ''a b@c..d''" "\<not> email_format ''ann@example''" by code_simp+
  then show ?thesis using email_field_validation [of "Some ''a b@c..d''"]
      email_field_validation [of "Some ''ann@example''"] by simp
qed

theorem quantity_field_bounds_witness:
  "validateField fld_quantity (Some ''abc'') = Inr None \<and> validateField fld_quantity (Some ''1e3'') = Inr None \<and>
   validateField fld_quantity (Some ''1001'') \<noteq> Inr None"
proof -
  have "string_to_number ''abc'' = NaN" "string_to_number ''1e3'' = Num 1000"
    "string_to_number ''1001'' = Num 1001" by code_simp+
  then show ?thesis using quantity_field_bounds [of "''abc''"] quantity_field_bounds [of "''1e3''"]
      quantity_field_bounds [of "''1001''"] by simp
qed

theorem render_fields_declared_witness:
  "map fv_id (view_fields (projr (snd (render quoteFormConfig (mount quoteFormConfig))))) =
     [''productType'', ''quantity'']"
proof -
  have "case snd (render quoteFormConfig (mount quoteFormConfig)) of Inl _ \<Rightarrow> False | Inr _ \<Rightarrow> True"
    by code_simp
  then have r: "snd (render quoteFormConfig (mount quoteFormConfig)) =
                  Inr (projr (snd (render quoteFormConfig (mount quoteFormConfig))))"
    by (rule Inr_projr)
  have wf: "wf_config quoteFormConfig" and ns: "\<not> showIframe (mount quoteFormConfig)"
    by (code_simp, simp add: mount_state init_state_def)
  have "declared_visible quoteFormConfig (c_groups quoteFormConfig ! nat (currentGroup (mount quoteFormConfig)))
          (formData (mount quoteFormConfig)) = [''productType'', ''quantity'']" by code_simp
  with render_fields_declared [OF wf r ns] show ?thesis by simp
qed

theorem change_then_render_witness:
  "fv_widget (hd (view_fields (projr (snd (render quoteFormConfig
      (handle_event quoteFormConfig (EvChange ''productType'' ''Type A'') (mount quoteFormConfig))))))) =
     widget_of fld_productType (Some ''Type A'')"
proof -
  let ?st = "handle_event quoteFormConfig (EvChange ''productType'' ''Type A'') (mount quoteFormConfig)"
  have "case snd (render quoteFormConfig ?st) of Inl _ \<Rightarrow> False | Inr _ \<Rightarrow> True" by code_simp
  then have r: "snd (render quoteFormConfig ?st) = Inr (projr (snd (render quoteFormConfig ?st)))"
    by (rule Inr_projr)
  have d: "distinct (field_ids quoteFormConfig)"
    and f: "find_field quoteFormConfig ''productType'' = Some fld_productType"
    and e: "validateField fld_productType (Some ''Type A'') = Inr None"
    by (simp_all add: field_ids_def find_field_def quote_config_defs validateField_def Let_def js_simps)
  have ne: "view_fields (projr (snd (render quoteFormConfig ?st))) \<noteq> []"
    and h: "fv_id (hd (view_fields (projr (snd (render quoteFormConfig ?st))))) = ''productType''"
    by code_simp+
  from ne have "hd (view_fields (projr (snd (render quoteFormConfig ?st)))) \<in>
                  set (view_fields (projr (snd (render quoteFormConfig ?st))))" by simp
  from change_then_render [OF d f e r this h] show ?thesis by simp
qed


theorem next_not_gated_witness:
  "ui_enabled quoteFormConfig (mount quoteFormConfig) EvNext \<and>
   currentGroup (sys_step quoteFormConfig EvNext (mount quoteFormConfig)) = 1"
  using next_not_gated [OF reach_mount, of quoteFormConfig]
  by (simp add: mount_state init_state_def quoteFormConfig_def)

theorem reachable_error_keys_witness:
  "reachable quoteFormConfig (run quoteFormConfig (mount quoteFormConfig) journey) \<and>
   dom (formErrors (run quoteFormConfig (mount quoteFormConfig) journey)) \<subseteq> set (field_ids quoteFormConfig)"
  using reachable_error_keys [OF journey_reachable] journey_reachable by blast

theorem final_submit_needs_contact_witness:
  "browser_reachable quoteFormConfig (the (browser_run quoteFormConfig (mount quoteFormConfig) [EvNext, EvNext])) \<and>
   browser_step quoteFormConfig EvSubmit (the (browser_run quoteFormConfig (mount quoteFormConfig) [EvNext, EvNext])) =
     Some (the (browser_run quoteFormConfig (mount quoteFormConfig) [EvNext, EvNext]))"
proof -
  let ?s = "the (browser_run quoteFormConfig (mount quoteFormConfig) [EvNext, EvNext])"
  have "browser_run quoteFormConfig (mount quoteFormConfig) [EvNext, EvNext] \<noteq> None" by code_simp
  then have r: "browser_reachable quoteFormConfig ?s"
    using browser_run_reachable [OF browser_mount, of quoteFormConfig "[EvNext, EvNext]" ?s] by auto
  have "currentGroup ?s = 2" "\<not> showIframe ?s" "formData ?s ''preferredContact'' = None" by code_simp+
  with final_submit_needs_contact [OF r] r show ?thesis by simp
qed

theorem enter_submit_first_group_witness:
  "browser_reachable quoteFormConfig (the (browser_run quoteFormConfig (mount quoteFormConfig)
      [EvChange ''productType'' ''Type A'', EvChange ''quantity'' ''50''])) \<and>
   browser_enabled quoteFormConfig (the (browser_run quoteFormConfig (mount quoteFormConfig)
      [EvChange ''productType'' ''Type A'', EvChange ''quantity'' ''50''])) EvSubmit"
proof -
  let ?s = "the (browser_run quoteFormConfig (mount quoteFormConfig)
      [EvChange ''productType'' ''Type A'', EvChange ''quantity'' ''50''])"
  have "browser_run quoteFormConfig (mount quoteFormConfig)
      [EvChange ''productType'' ''Type A'', EvChange ''quantity'' ''50''] \<noteq> None" by code_simp
  then have r: "browser_reachable quoteFormConfig ?s"
    using browser_run_reachable [OF browser_mount, of quoteFormConfig
        "[EvChange ''productType'' ''Type A'', EvChange ''quantity'' ''50'']" ?s] by auto
  have "currentGroup ?s = 0" "\<not> showIframe ?s"
    "case snd (render quoteFormConfig ?s) of Inr v \<Rightarrow> form_validity (view_fields v) = Some True | Inl e \<Rightarrow> False"
    "formData ?s ''name'' = None"
    by code_simp+
  from enter_submit_first_group [OF r this] r show ?thesis by blast
qed

end
